theory Spec2Isabelle
  imports Complex_Main "HOL-Library.Signed_Division"
begin

section \<open>Brueckner decorator (MBPT/BruecknerDecorator.cpp)\<close>

text \<open>
  Modelled from the spec: the class \<open>SpinorFunction\<close> (Universal/SpinorFunction.h) is not
  under src/. It carries the angular quantum number and four sample vectors, the upper and
  lower radial components and their derivatives, all of one length; \<open>size()\<close> is that
  length. The decorator and Orbital.cpp read the members \<open>f\<close>, \<open>g\<close>, \<open>dfdr\<close>,
  \<open>dgdr\<close> and \<open>kappa\<close>.
\<close>

record SpinorFunction =
  Kappa :: int
  f_vec :: "real list"
  g_vec :: "real list"
  dfdr_vec :: "real list"
  dgdr_vec :: "real list"

definition size_sf :: "'a SpinorFunction_scheme \<Rightarrow> nat" where
  "size_sf s = length (f_vec s)"

text \<open>
  The decorator's own fields. The sigma potentials are kept per kappa in \<open>sigmas\<close>
  (a \<open>std::map<int, pSigmaPotential>\<close>); \<open>'sigma\<close> stands for the opaque
  \<open>SigmaPotential\<close> and \<open>'op\<close> for the wrapped Hartree-Fock operator.
\<close>

record ('sigma, 'op) BruecknerDecorator =
  sigmas :: "int \<rightharpoonup> 'sigma"
  lambda :: real
  include_nonlocal :: bool
  currentExchangePotential :: SpinorFunction
  use_fg :: bool
  use_gg :: bool
  lattice_size :: nat
  wrapped :: 'op

text \<open>
  The collaborators of \<open>CalculateSigma\<close>: the constructor of a \<open>SigmaPotential\<close>,
  its \<open>IncludeLower\<close> switch and the constructor of a \<open>BruecknerSigmaCalculator\<close>
  over an operator (orbitals and the Hartree Y operator are fixed inside it). A calculator is
  its \<open>GetSecondOrderSigma\<close>, which fills the potential it is given.
\<close>

record ('sigma, 'op) SigmaServices =
  new_SigmaPotential :: "nat \<Rightarrow> nat \<Rightarrow> 'sigma"
  IncludeLower :: "bool \<Rightarrow> bool \<Rightarrow> 'sigma \<Rightarrow> 'sigma"
  new_BruecknerSigmaCalculator :: "'op \<Rightarrow> int \<Rightarrow> 'sigma \<Rightarrow> 'sigma"

text \<open>
  \<open>CalculateSigma(kappa, brueckner_calculator)\<close>. The second component of the state is
  the list of channels for which \<open>GetSecondOrderSigma\<close> has been run, in order: it records
  the one effect the method has outside the decorator.
\<close>

definition CalculateSigma ::
  "('sigma, 'op) SigmaServices \<Rightarrow> int \<Rightarrow> (int \<Rightarrow> 'sigma \<Rightarrow> 'sigma) \<Rightarrow>
   ('sigma, 'op) BruecknerDecorator \<times> int list \<Rightarrow> ('sigma, 'op) BruecknerDecorator \<times> int list" where
  "CalculateSigma sv kappa brueckner_calculator st =
     (case st of (d, computed) \<Rightarrow>
        if sigmas d kappa = None then
          let sigma = new_SigmaPotential sv (lattice_size d) 100;
              sigma = IncludeLower sv (use_fg d) (use_gg d) sigma;
              sigma = brueckner_calculator kappa sigma
          in (d\<lparr>sigmas := (sigmas d)(kappa \<mapsto> sigma)\<rparr>, computed @ [kappa])
        else (d, computed))"

text \<open>
  \<open>CalculateSigma(kappa, orbitals, hartreeY, bare_hf)\<close>: builds the calculator over
  \<open>bare_hf\<close> when it is given and over the wrapped operator otherwise, then calls the
  first overload. Both tests of the map are kept.
\<close>

definition CalculateSigma_hf ::
  "('sigma, 'op) SigmaServices \<Rightarrow> int \<Rightarrow> 'op option \<Rightarrow>
   ('sigma, 'op) BruecknerDecorator \<times> int list \<Rightarrow> ('sigma, 'op) BruecknerDecorator \<times> int list" where
  "CalculateSigma_hf sv kappa bare_hf st =
     (case st of (d, computed) \<Rightarrow>
        if sigmas d kappa = None then
          let calculator = (case bare_hf of
                              Some hf \<Rightarrow> new_BruecknerSigmaCalculator sv hf
                            | None \<Rightarrow> new_BruecknerSigmaCalculator sv (wrapped d))
          in CalculateSigma sv kappa calculator (d, computed)
        else (d, computed))"

text \<open>
  Modelled from the spec: \<open>itoa\<close> is declared in Include.h (base 10 by default) and
  defined outside src/; the spec names the file \<open>{identifier}.{kappa}.sigma\<close>, so the
  number is written in decimal, with a minus sign when negative.
\<close>

fun nat_digits :: "nat \<Rightarrow> string" where
  "nat_digits n =
     (if n < 10 then [''0123456789'' ! n]
      else nat_digits (n div 10) @ [''0123456789'' ! (n mod 10)])"

declare nat_digits.simps [simp del]

definition itoa :: "int \<Rightarrow> string" where
  "itoa i = (if i < 0 then ''-'' @ nat_digits (nat (- i)) else nat_digits (nat i))"

definition sigma_filename :: "string \<Rightarrow> int \<Rightarrow> string" where
  "sigma_filename identifier kappa = identifier @ ''.'' @ itoa kappa @ ''.sigma''"

text \<open>
  \<open>Read(identifier, kappa)\<close>. \<open>SigmaPotential::Read(filename)\<close> belongs to the
  serializer; \<open>files\<close> gives, for a file name, the potential a successful read
  yields, and \<open>None\<close> when that read returns false. The method is \<open>void\<close>: its
  whole result is the decorator.
\<close>

definition Read ::
  "(string \<rightharpoonup> 'sigma) \<Rightarrow> string \<Rightarrow> int \<Rightarrow>
   ('sigma, 'op) BruecknerDecorator \<Rightarrow> ('sigma, 'op) BruecknerDecorator" where
  "Read files identifier kappa d =
     (let filename = sigma_filename identifier kappa
      in case files filename of
           Some sigma \<Rightarrow> d\<lparr>sigmas := (sigmas d)(kappa \<mapsto> sigma)\<rparr>
         | None \<Rightarrow> d)"

text \<open>
  The two \<open>Write\<close> methods are \<open>const\<close>; what they do is call
  \<open>SigmaPotential::Write(filename)\<close> on stored potentials. The model returns these calls,
  as pairs of file name and potential, in the order made. \<open>std::map\<close> iterates in
  ascending key order.
\<close>

definition Write_kappa ::
  "string \<Rightarrow> int \<Rightarrow> ('sigma, 'op) BruecknerDecorator \<Rightarrow> (string \<times> 'sigma) list" where
  "Write_kappa identifier kappa d =
     (case sigmas d kappa of
        Some sigma \<Rightarrow> [(sigma_filename identifier kappa, sigma)]
      | None \<Rightarrow> [])"

definition Write ::
  "string \<Rightarrow> ('sigma, 'op) BruecknerDecorator \<Rightarrow> (string \<times> 'sigma) list" where
  "Write identifier d =
     map (\<lambda>kappa. (sigma_filename identifier kappa, the (sigmas d kappa)))
       (sorted_list_of_set (dom (sigmas d)))"

subsection \<open>Operations of SpinorFunction used by the decorator\<close>

text \<open>
  Modelled from the spec: the class \<open>SpinorFunction\<close> is not under src/. The spec has a
  short wavefunction zero-padded to the extent of the potential; \<open>resize\<close> is that of
  \<open>std::vector\<close> on each of the four vectors (new entries are zero, a smaller size
  truncates). \<open>SpinorFunction(kappa)\<close> is the empty function of that kappa.
\<close>

definition resize_vec :: "nat \<Rightarrow> real list \<Rightarrow> real list" where
  "resize_vec n v = take n v @ replicate (n - length v) 0"

definition resize :: "nat \<Rightarrow> SpinorFunction \<Rightarrow> SpinorFunction" where
  "resize n s = s\<lparr>f_vec := resize_vec n (f_vec s), g_vec := resize_vec n (g_vec s),
                  dfdr_vec := resize_vec n (dfdr_vec s), dgdr_vec := resize_vec n (dgdr_vec s)\<rparr>"

definition new_SpinorFunction :: "int \<Rightarrow> SpinorFunction" where
  "new_SpinorFunction k = \<lparr>Kappa = k, f_vec = [], g_vec = [], dfdr_vec = [], dgdr_vec = []\<rparr>"


definition add_vec :: "real list \<Rightarrow> real list \<Rightarrow> real list" where
  "add_vec v w = map2 (+) (resize_vec (max (length v) (length w)) v)
                          (resize_vec (max (length v) (length w)) w)"


definition plus_assign :: "SpinorFunction \<Rightarrow> SpinorFunction \<Rightarrow> SpinorFunction" where
  "plus_assign a b = a\<lparr>f_vec := add_vec (f_vec a) (f_vec b), g_vec := add_vec (g_vec a) (g_vec b),
       dfdr_vec := add_vec (dfdr_vec a) (dfdr_vec b), dgdr_vec := add_vec (dgdr_vec a) (dgdr_vec b)\<rparr>"

definition times_assign :: "SpinorFunction \<Rightarrow> real \<Rightarrow> SpinorFunction" where
  "times_assign a c = a\<lparr>f_vec := map (\<lambda>x. x * c) (f_vec a), g_vec := map (\<lambda>x. x * c) (g_vec a),
       dfdr_vec := map (\<lambda>x. x * c) (dfdr_vec a), dgdr_vec := map (\<lambda>x. x * c) (dgdr_vec a)\<rparr>"

subsection \<open>The intercepted operator contracts\<close>

text \<open>
  What the decorator calls and does not own: the four contracts of the wrapped operator (the
  output arrays \<open>w\<close>, \<open>w_f\<close>, \<open>w_g\<close>, \<open>w_const\<close>, \<open>dwdr\<close> are pairs, the
  Jacobian is opaque), the fine-structure constant, the size and the application of a
  \<open>SigmaPotential\<close>, and \<open>Interpolator::GetDerivative\<close>, which maps the samples of a
  function and the previous derivative vector to the new derivative vector.
\<close>

record ('sigma, 'jac) OperatorServices =
  wrapped_GetODEFunction :: "nat \<Rightarrow> SpinorFunction \<Rightarrow> real \<times> real"
  wrapped_GetODECoefficients ::
    "nat \<Rightarrow> SpinorFunction \<Rightarrow> (real \<times> real) \<times> (real \<times> real) \<times> (real \<times> real)"
  wrapped_GetODEJacobian :: "nat \<Rightarrow> SpinorFunction \<Rightarrow> 'jac \<times> (real \<times> real)"
  wrapped_ApplyTo :: "SpinorFunction \<Rightarrow> SpinorFunction"
  wrapped_GetExchange :: "SpinorFunction option \<Rightarrow> SpinorFunction"
  GetAlpha :: real
  sigma_size :: "'sigma \<Rightarrow> nat"
  sigma_ApplyTo :: "'sigma \<Rightarrow> SpinorFunction \<Rightarrow> SpinorFunction"
  GetDerivative :: "real list \<Rightarrow> real list \<Rightarrow> nat \<Rightarrow> real list"

definition CalculateExtraNonlocal ::
  "('sigma, 'jac) OperatorServices \<Rightarrow> ('sigma, 'op) BruecknerDecorator \<Rightarrow>
   SpinorFunction \<Rightarrow> bool \<Rightarrow> SpinorFunction" where
  "CalculateExtraNonlocal sv d s include_derivative =
     (let ret = new_SpinorFunction (Kappa s)
      in case sigmas d (Kappa s) of
           None \<Rightarrow> ret
         | Some sigma \<Rightarrow>
             let ret = (if size_sf s < sigma_size sv sigma
                        then (let bigger_s = resize (sigma_size sv sigma) s
                              in sigma_ApplyTo sv sigma bigger_s)
                        else sigma_ApplyTo sv sigma s);
                 ret = times_assign ret (- lambda d)
             in if include_derivative
                then (let ret = ret\<lparr>dfdr_vec := GetDerivative sv (f_vec ret) (dfdr_vec ret) 6\<rparr>
                      in ret\<lparr>dgdr_vec := GetDerivative sv (g_vec ret) (dgdr_vec ret) 6\<rparr>)
                else ret)"



definition GetExchange ::
  "('sigma, 'jac) OperatorServices \<Rightarrow> ('sigma, 'op) BruecknerDecorator \<Rightarrow>
   SpinorFunction option \<Rightarrow> SpinorFunction" where
  "GetExchange sv d approximation =
     (let ret = wrapped_GetExchange sv approximation
      in case approximation of
           None \<Rightarrow> plus_assign ret (currentExchangePotential d)
         | Some a \<Rightarrow> plus_assign ret (CalculateExtraNonlocal sv d a True))"





section \<open>Quantum numbers (HartreeFock/OrbitalInfo.h)\<close>

text \<open>
  \<open>OrbitalInfo\<close> stores \<open>pqn\<close> and \<open>kappa\<close> as \<open>int\<close> (the fields \<open>pqn_info\<close>, \<open>kappa_info\<close>). The model uses unbounded
  integers; for the quantum numbers of real orbitals (kappa nonzero, a few dozen at most)
  no operation below leaves the range of a 32-bit \<open>int\<close>. \<open>J()\<close> is a \<open>double\<close>, a
  half-integer represented exactly. The accessors are suffixed with \<open>_info\<close>.
\<close>

record OrbitalInfo =
  pqn_info :: int
  kappa_info :: int

definition L_info :: "OrbitalInfo \<Rightarrow> int" where
  "L_info s = (if kappa_info s > 0 then kappa_info s else - kappa_info s - 1)"

definition J_info :: "OrbitalInfo \<Rightarrow> real" where
  "J_info s = \<bar>real_of_int (kappa_info s)\<bar> - 0.5"

definition TwoJ_info :: "OrbitalInfo \<Rightarrow> int" where
  "TwoJ_info s = 2 * \<bar>kappa_info s\<bar> - 1"

definition MaxNumElectrons :: "OrbitalInfo \<Rightarrow> int" where
  "MaxNumElectrons s = 2 * \<bar>kappa_info s\<bar>"

section \<open>Floating point results\<close>

text \<open>
  A \<open>double\<close> that the code computes with a division is either a finite value, modelled
  as a real number (rounding, overflow and underflow are left out), or not finite: the
  infinity or NaN that a division by zero yields. A value that is not finite stays so under
  the additions, multiplications and divisions by finite values made here, and C++ takes it
  as true in a condition. Every divisor in the two calculators is computed from finite
  inputs by additions and multiplications, so it is a real number. Where the rounding of
  these additions decides a property, in the cancellation of an energy denominator, the
  denominator is modelled a second time in the arithmetic of binary64, in the next section.
\<close>

datatype double = Finite real | NonFinite

fun dadd :: "double \<Rightarrow> double \<Rightarrow> double" where
  "dadd (Finite a) (Finite b) = Finite (a + b)"
| "dadd _ _ = NonFinite"

fun ddiv :: "double \<Rightarrow> real \<Rightarrow> double" where
  "ddiv (Finite a) b = (if b = 0 then NonFinite else Finite (a / b))"
| "ddiv NonFinite b = NonFinite"

fun dscale :: "double \<Rightarrow> real \<Rightarrow> double" where
  "dscale (Finite a) b = Finite (a * b)"
| "dscale NonFinite b = NonFinite"

fun dneg :: "double \<Rightarrow> double" where
  "dneg (Finite a) = Finite (- a)"
| "dneg NonFinite = NonFinite"

section \<open>Binary64 arithmetic of the energy denominators\<close>

text \<open>
  The valence energies, the orbital energies and \<open>delta\<close> are doubles, and an energy
  denominator is computed from them by an addition and subtractions that cancel. Whether
  such a denominator is \<open>delta\<close>, or zero, is decided by the rounding of each operation,
  which the real numbers above leave out. For these denominators the operations are
  therefore modelled as binary64 performs them: the exact result, rounded to the nearest
  number with a mantissa of 53 bits, a tie to the even mantissa. A finite double is an
  integer mantissa and an exponent of 2, its value \<open>mant * 2 ^ expo\<close>; \<open>is_double\<close> holds
  when the mantissa has at most 53 bits. The range of the exponent is not bounded, so
  overflow and subnormal numbers are left out.
\<close>

datatype b64 = B64 (mant: int) (expo: int)

definition b64_value :: "b64 \<Rightarrow> real" where
  "b64_value x = of_int (mant x) * 2 powr (of_int (expo x))"

fun bit_length :: "nat \<Rightarrow> nat" where
  "bit_length n = (if n = 0 then 0 else Suc (bit_length (n div 2)))"

declare bit_length.simps [simp del]

definition is_double :: "b64 \<Rightarrow> bool" where
  "is_double x = (bit_length (nat \<bar>mant x\<bar>) \<le> 53)"

text \<open>
  \<open>round_to_53 M E\<close> rounds the exact value \<open>M * 2 ^ E\<close>: with \<open>s\<close> bits too many, the
  mantissa is the quotient of \<open>M\<close> by \<open>2 ^ s\<close>, or the next integer when the remainder is
  above the half, or is the half and the quotient is odd.
\<close>

definition round_to_53 :: "int \<Rightarrow> int \<Rightarrow> b64" where
  "round_to_53 M E =
     (let n = bit_length (nat \<bar>M\<bar>)
      in if n \<le> 53 then B64 M E
         else (let s = n - 53;
                   q = M div 2 ^ s;
                   r = M mod 2 ^ s;
                   q = (if 2 * r < 2 ^ s then q
                        else if 2 * r > 2 ^ s then q + 1
                        else if even q then q else q + 1)
               in B64 q (E + int s)))"

definition b64_add :: "b64 \<Rightarrow> b64 \<Rightarrow> b64" where
  "b64_add x y =
     (let E = min (expo x) (expo y)
      in round_to_53 (mant x * 2 ^ nat (expo x - E) + mant y * 2 ^ nat (expo y - E)) E)"

definition b64_sub :: "b64 \<Rightarrow> b64 \<Rightarrow> b64" where
  "b64_sub x y = b64_add x (B64 (- mant y) (expo y))"

text \<open>
  The denominator \<open>(ValenceEnergy - Ealpha + delta)\<close> of the one-body terms
  (ValenceMBPTCalculator.cpp line 74, ValenceCalculator.cpp line 60) and of the subtraction
  terms (lines 204 to 222, and 249 to 307), and the denominator
  \<open>(ValenceEnergy - Ealpha - Ebeta + delta)\<close> of an intermediate pair (lines 122, and 131),
  where \<open>ValenceEnergy\<close> is the sum of the valence energies of \<open>sa\<close> and \<open>sb\<close> (lines
  99, and 102). C++ subtracts and adds from left to right.
\<close>

definition energy_denominator :: "b64 \<Rightarrow> b64 \<Rightarrow> b64 \<Rightarrow> b64" where
  "energy_denominator ValenceEnergy Ealpha delta =
     b64_add (b64_sub ValenceEnergy Ealpha) delta"

definition pair_energy_denominator :: "b64 \<Rightarrow> b64 \<Rightarrow> b64 \<Rightarrow> b64 \<Rightarrow> b64 \<Rightarrow> b64" where
  "pair_energy_denominator Ea Eb Ealpha Ebeta delta =
     (let ValenceEnergy = b64_add Ea Eb
      in b64_add (b64_sub (b64_sub ValenceEnergy Ealpha) Ebeta) delta)"

section \<open>What both calculators take from MBPTCalculator and MathConstant\<close>

text \<open>
  \<open>MathConstant\<close> is the angular momentum library, a collaborator: the 3j-type
  coefficient \<open>Electron3j\<close> (called with three arguments by ValenceMBPTCalculator and
  with the two projections 1 and -1 written out by ValenceCalculator) and \<open>Wigner6j\<close>.
\<close>

record MathConstant =
  Electron3j :: "int \<Rightarrow> int \<Rightarrow> int \<Rightarrow> real"
  Electron3j_m :: "nat \<Rightarrow> nat \<Rightarrow> nat \<Rightarrow> int \<Rightarrow> int \<Rightarrow> real"
  Wigner6j :: "real \<Rightarrow> real \<Rightarrow> real \<Rightarrow> real \<Rightarrow> real \<Rightarrow> real \<Rightarrow> real"

text \<open>
  Modelled from the spec: \<open>MathConstant::minus_one_to_the_power\<close> is not under src/; the
  spec has the sign of a term determined by the parity of the exponent.
\<close>

definition minus_one_to_the_power :: "int \<Rightarrow> real" where
  "minus_one_to_the_power n = (if n smod 2 \<noteq> 0 then - 1 else 1)"

text \<open>
  The members of the base class \<open>MBPTCalculator\<close> that the sums read: the valence energy
  per kappa (a \<open>std::map\<close>) and the constant \<open>delta\<close>.
\<close>

record MBPTCalculator =
  ValenceEnergies :: "int \<rightharpoonup> real"
  delta :: real
  constants :: MathConstant

text \<open>
  The two-body sums are instrumented: besides the energy, they return the list of what was
  done, in order. \<open>PairVisited\<close> marks one pass through the body of the inner loop over
  intermediate orbitals; \<open>RadialIntegral k a b c d\<close> marks one radial integral
  \<open>R_k(ab, cd)\<close> looked up in the cache or integrated on the lattice.
\<close>

datatype 'o event = PairVisited 'o 'o | RadialIntegral int 'o 'o 'o 'o

record 'o summation =
  energy :: double
  trace :: "'o event list"

text \<open>
  \<open>while(k <= kmax) { body; k += 2; }\<close> on \<open>int\<close>, and
  \<open>for(unsigned int k = start; k <= kmax; k += 2) body\<close>.
\<close>

function while_k :: "(int \<Rightarrow> 's \<Rightarrow> 's) \<Rightarrow> int \<Rightarrow> int \<Rightarrow> 's \<Rightarrow> 's" where
  "while_k body k k_max st = (if k \<le> k_max then while_k body (k + 2) k_max (body k st) else st)"
  by pat_completeness auto
termination
  by (relation "measure (\<lambda>(body, k, k_max, st). nat (k_max - k + 1))") auto

declare while_k.simps [simp del]

function for_k :: "(nat \<Rightarrow> 's \<Rightarrow> 's) \<Rightarrow> nat \<Rightarrow> nat \<Rightarrow> 's \<Rightarrow> 's" where
  "for_k body k k_max st = (if k \<le> k_max then for_k body (k + 2) k_max (body k st) else st)"
  by pat_completeness auto
termination
  by (relation "measure (\<lambda>(body, k, k_max, st). k_max + 1 - k)") auto

declare for_k.simps [simp del]

section \<open>Valence MBPT on stored integrals (MBPT/ValenceMBPTCalculator.cpp)\<close>

text \<open>
  The orbital maps \<open>excited\<close> and \<open>high\<close> are lists of keys with the \<open>Energy()\<close> of
  the orbital each key maps to, in iteration order. \<open>one_body\<close> and \<open>two_body\<close> are the
  integral caches, read through \<open>GetMatrixElement\<close> and \<open>GetTwoElectronIntegral\<close>.
  \<open>InQSpace\<close> is a member of the base class, not under src/, and may be overridden.
\<close>

record ValenceMBPTCalculator = MBPTCalculator +
  excited :: "(OrbitalInfo \<times> real) list"
  high :: "(OrbitalInfo \<times> real) list"
  InQSpace :: "OrbitalInfo \<Rightarrow> bool"
  GetMatrixElement :: "OrbitalInfo \<Rightarrow> OrbitalInfo \<Rightarrow> real"
  GetTwoElectronIntegral ::
    "int \<Rightarrow> OrbitalInfo \<Rightarrow> OrbitalInfo \<Rightarrow> OrbitalInfo \<Rightarrow> OrbitalInfo \<Rightarrow> real"

text \<open>
  Modelled from the spec: the overload \<open>InQSpace(s1, s2)\<close> is not under src/; the spec
  asks for Q-space membership of at least one intermediate line.
\<close>

definition InQSpace2 :: "ValenceMBPTCalculator \<Rightarrow> OrbitalInfo \<Rightarrow> OrbitalInfo \<Rightarrow> bool" where
  "InQSpace2 C s1 s2 = (InQSpace C s1 \<or> InQSpace C s2)"

text \<open>
  Modelled from the spec: \<open>kmin(a, b)\<close> and \<open>kmax(a, b)\<close> are members of the base class
  \<open>MBPTCalculator\<close>, not under src/. The spec has the internal multipoles range over all
  values consistent with the triangle rules for the respective L sums: \<open>kmin\<close> is the
  least multipole that is not below the difference of the two total angular momenta and has
  the parity of \<open>L(a) + L(b)\<close>, \<open>kmax\<close> the greatest one that is not above their sum and
  has that parity. The calculator assigns both to \<open>int\<close> variables.
\<close>

definition kmin :: "OrbitalInfo \<Rightarrow> OrbitalInfo \<Rightarrow> int" where
  "kmin a b =
     (let m = \<bar>TwoJ_info a - TwoJ_info b\<bar> div 2
      in if odd (L_info a + L_info b + m) then m + 1 else m)"

definition kmax :: "OrbitalInfo \<Rightarrow> OrbitalInfo \<Rightarrow> int" where
  "kmax a b =
     (let m = (TwoJ_info a + TwoJ_info b) div 2
      in if odd (L_info a + L_info b + m) then m - 1 else m)"

subsection \<open>One-body subtraction\<close>

text \<open>
  The body of the loop over \<open>high\<close>. \<open>ValenceEnergies.find(...)->second\<close> is read
  without a test: where the key is missing the behaviour is undefined, and the model returns
  \<open>None\<close>.
\<close>

definition one_electron_step ::
  "ValenceMBPTCalculator \<Rightarrow> OrbitalInfo \<Rightarrow> OrbitalInfo \<Rightarrow> real \<Rightarrow>
   OrbitalInfo \<times> real \<Rightarrow> double \<Rightarrow> double" where
  "one_electron_step C sa sb ValenceEnergy it_alpha en =
     (case it_alpha of (salpha, Ealpha) \<Rightarrow>
        if InQSpace C salpha \<and> kappa_info sa = kappa_info salpha
        then (let t = GetMatrixElement C sa salpha * GetMatrixElement C salpha sb
              in dadd en (ddiv (Finite t) (ValenceEnergy - Ealpha + delta C)))
        else en)"

definition CalculateOneElectronSub ::
  "ValenceMBPTCalculator \<Rightarrow> OrbitalInfo \<Rightarrow> OrbitalInfo \<Rightarrow> double option" where
  "CalculateOneElectronSub C sa sb =
     (case ValenceEnergies C (kappa_info sa) of
        None \<Rightarrow> None
      | Some ValenceEnergy \<Rightarrow>
          Some (fold (one_electron_step C sa sb ValenceEnergy) (high C) (Finite 0)))"

definition GetOneElectronSubtraction ::
  "ValenceMBPTCalculator \<Rightarrow> OrbitalInfo \<Rightarrow> OrbitalInfo \<Rightarrow> double option" where
  "GetOneElectronSubtraction C s1 s2 =
     (if kappa_info s1 \<noteq> kappa_info s2 then Some (Finite 0) else CalculateOneElectronSub C s1 s2)"

subsection \<open>Two-body valence correction\<close>

text \<open>
  The angular coefficient of a term (the local \<open>coeff\<close> at its second test), the body of
  the loop over \<open>k2\<close>, of the loop over \<open>k1\<close>, and of the inner loop over intermediate
  orbitals. \<open>%\<close> and \<open>/\<close> on \<open>int\<close> truncate towards zero (\<open>smod\<close>,
  \<open>sdiv\<close>). The product \<open>MaxNumElectrons * MaxNumElectrons * (2 * k + 1)\<close> is taken in
  \<open>unsigned int\<close>, and \<open>exponent + k + 1\<close> too: the parity that
  \<open>minus_one_to_the_power\<close> reads is the same with and without the reduction modulo
  \<open>2 ^ 32\<close>, which is left out there. The divisor of \<open>coeff_alphabeta\<close> is computed on
  real numbers here; \<open>pair_energy_denominator\<close> above has its binary64 arithmetic.
\<close>

definition coeff_k2 ::
  "ValenceMBPTCalculator \<Rightarrow> nat \<Rightarrow> OrbitalInfo \<Rightarrow> OrbitalInfo \<Rightarrow> OrbitalInfo \<Rightarrow> OrbitalInfo \<Rightarrow>
   OrbitalInfo \<Rightarrow> OrbitalInfo \<Rightarrow> int \<Rightarrow> int \<Rightarrow> real" where
  "coeff_k2 C k sa sb sc sd salpha sbeta k1 k2 =
     (let coeff = Electron3j (constants C) (TwoJ_info salpha) (TwoJ_info sc) k2 *
                  Electron3j (constants C) (TwoJ_info sbeta) (TwoJ_info sd) k2
      in if coeff \<noteq> 0
         then coeff * Wigner6j (constants C) (J_info sc) (J_info sa) (real k)
                        (real_of_int k1) (real_of_int k2) (J_info salpha)
                    * Wigner6j (constants C) (J_info sd) (J_info sb) (real k)
                        (real_of_int k1) (real_of_int k2) (J_info sbeta)
         else coeff)"

definition k2_step ::
  "ValenceMBPTCalculator \<Rightarrow> nat \<Rightarrow> OrbitalInfo \<Rightarrow> OrbitalInfo \<Rightarrow> OrbitalInfo \<Rightarrow> OrbitalInfo \<Rightarrow>
   OrbitalInfo \<Rightarrow> OrbitalInfo \<Rightarrow> real \<Rightarrow> double \<Rightarrow> real \<Rightarrow> int \<Rightarrow> int \<Rightarrow>
   OrbitalInfo summation \<Rightarrow> OrbitalInfo summation" where
  "k2_step C k sa sb sc sd salpha sbeta coeff_ab coeff_alphabeta R1 k1 k2 st =
     (let coeff = coeff_k2 C k sa sb sc sd salpha sbeta k1 k2
      in if coeff \<noteq> 0
         then (let c = dscale coeff_alphabeta (coeff * coeff_ab);
                   c = (if (k1 + k2) smod 2 \<noteq> 0 then dneg c else c);
                   R2 = GetTwoElectronIntegral C k2 salpha sbeta sc sd
               in st\<lparr>energy := dadd (energy st) (dscale c (R1 * R2)),
                     trace := trace st @ [RadialIntegral k2 salpha sbeta sc sd]\<rparr>)
         else st)"

definition k1_step ::
  "ValenceMBPTCalculator \<Rightarrow> nat \<Rightarrow> OrbitalInfo \<Rightarrow> OrbitalInfo \<Rightarrow> OrbitalInfo \<Rightarrow> OrbitalInfo \<Rightarrow>
   OrbitalInfo \<Rightarrow> OrbitalInfo \<Rightarrow> double \<Rightarrow> int \<Rightarrow>
   OrbitalInfo summation \<Rightarrow> OrbitalInfo summation" where
  "k1_step C k sa sb sc sd salpha sbeta coeff_alphabeta k1 st =
     (let coeff_ab = Electron3j (constants C) (TwoJ_info sa) (TwoJ_info salpha) k1 *
                     Electron3j (constants C) (TwoJ_info sb) (TwoJ_info sbeta) k1
      in if coeff_ab \<noteq> 0
         then (let R1 = GetTwoElectronIntegral C k1 sa sb salpha sbeta;
                   st = st\<lparr>trace := trace st @ [RadialIntegral k1 sa sb salpha sbeta]\<rparr>
               in while_k (k2_step C k sa sb sc sd salpha sbeta coeff_ab coeff_alphabeta R1 k1)
                    (kmin salpha sc) (kmax salpha sc) st)
         else st)"

definition coeff_alphabeta_of ::
  "ValenceMBPTCalculator \<Rightarrow> nat \<Rightarrow> OrbitalInfo \<Rightarrow> OrbitalInfo \<Rightarrow> OrbitalInfo \<Rightarrow> OrbitalInfo \<Rightarrow>
   real \<Rightarrow> real \<Rightarrow> real \<Rightarrow> OrbitalInfo \<times> real \<Rightarrow> OrbitalInfo \<times> real \<Rightarrow> double" where
  "coeff_alphabeta_of C k sa sb sc sd coeff_ac coeff_bd ValenceEnergy it_alpha it_beta =
     (case (it_alpha, it_beta) of ((salpha, Ealpha), (sbeta, Ebeta)) \<Rightarrow>
        let coeff_alphabeta =
              Finite (real ((nat (MaxNumElectrons salpha * MaxNumElectrons sbeta) * (2 * k + 1))
                            mod 2 ^ 32));
            coeff_alphabeta = ddiv coeff_alphabeta (coeff_ac * coeff_bd);
            coeff_alphabeta = ddiv coeff_alphabeta (ValenceEnergy - Ealpha - Ebeta + delta C);
            exponent = (TwoJ_info sa + TwoJ_info sb + TwoJ_info sc + TwoJ_info sd +
                        TwoJ_info salpha + TwoJ_info sbeta) sdiv 2
        in dscale coeff_alphabeta (minus_one_to_the_power (exponent + int k + 1)))"

definition pair_step ::
  "ValenceMBPTCalculator \<Rightarrow> nat \<Rightarrow> OrbitalInfo \<Rightarrow> OrbitalInfo \<Rightarrow> OrbitalInfo \<Rightarrow> OrbitalInfo \<Rightarrow>
   real \<Rightarrow> real \<Rightarrow> real \<Rightarrow> OrbitalInfo \<times> real \<Rightarrow> OrbitalInfo \<times> real \<Rightarrow>
   OrbitalInfo summation \<Rightarrow> OrbitalInfo summation" where
  "pair_step C k sa sb sc sd coeff_ac coeff_bd ValenceEnergy it_alpha it_beta st0 =
     (let salpha = fst it_alpha; sbeta = fst it_beta;
          st = st0\<lparr>trace := trace st0 @ [PairVisited salpha sbeta]\<rparr>
      in if InQSpace2 C salpha sbeta \<and>
            (L_info sa + L_info salpha) smod 2 = (L_info sb + L_info sbeta) smod 2 \<and>
            (L_info salpha + L_info sc) smod 2 = (L_info sbeta + L_info sd) smod 2
         then (let coeff_alphabeta =
                     coeff_alphabeta_of C k sa sb sc sd coeff_ac coeff_bd ValenceEnergy
                       it_alpha it_beta
               in while_k (k1_step C k sa sb sc sd salpha sbeta coeff_alphabeta)
                    (kmin sa salpha) (kmax sa salpha) st)
         else st)"

definition CalculateTwoElectronValence ::
  "ValenceMBPTCalculator \<Rightarrow> nat \<Rightarrow> OrbitalInfo \<Rightarrow> OrbitalInfo \<Rightarrow> OrbitalInfo \<Rightarrow> OrbitalInfo \<Rightarrow>
   OrbitalInfo summation option" where
  "CalculateTwoElectronValence C k sa sb sc sd =
     (let st = \<lparr>energy = Finite 0, trace = []\<rparr>;
          coeff_ac = Electron3j (constants C) (TwoJ_info sa) (TwoJ_info sc) (int k);
          coeff_bd = Electron3j (constants C) (TwoJ_info sb) (TwoJ_info sd) (int k)
      in if coeff_ac = 0 \<or> coeff_bd = 0 then Some st
         else (case (ValenceEnergies C (kappa_info sa), ValenceEnergies C (kappa_info sb)) of
                 (Some Ea, Some Eb) \<Rightarrow>
                   Some (fold (\<lambda>it_alpha.
                           fold (pair_step C k sa sb sc sd coeff_ac coeff_bd (Ea + Eb) it_alpha)
                             (excited C))
                         (excited C) st)
               | _ \<Rightarrow> None))"

subsection \<open>Two-body subtraction\<close>

definition two_electron_sub_step ::
  "ValenceMBPTCalculator \<Rightarrow> nat \<Rightarrow> OrbitalInfo \<Rightarrow> OrbitalInfo \<Rightarrow> OrbitalInfo \<Rightarrow> OrbitalInfo \<Rightarrow>
   real \<Rightarrow> real \<Rightarrow> real \<Rightarrow> real \<Rightarrow> OrbitalInfo \<times> real \<Rightarrow> double \<Rightarrow> double" where
  "two_electron_sub_step C k sa sb sc sd Ea Eb Ec Ed it_alpha en0 =
     (case it_alpha of (salpha, Ealpha) \<Rightarrow>
        if InQSpace C salpha
        then (let en = (if kappa_info sa = kappa_info salpha
                        then (let R1 = GetTwoElectronIntegral C (int k) salpha sb sc sd
                              in dadd en0 (ddiv (Finite (R1 * GetMatrixElement C sa salpha))
                                             (Ea - Ealpha + delta C)))
                        else en0);
                  en = (if kappa_info sc = kappa_info salpha
                        then (let R1 = GetTwoElectronIntegral C (int k) sa sb salpha sd
                              in dadd en (ddiv (Finite (R1 * GetMatrixElement C salpha sc))
                                            (Ec - Ealpha + delta C)))
                        else en);
                  en = (if kappa_info sb = kappa_info salpha
                        then (let R1 = GetTwoElectronIntegral C (int k) sa salpha sc sd
                              in dadd en (ddiv (Finite (R1 * GetMatrixElement C sb salpha))
                                            (Eb - Ealpha + delta C)))
                        else en)
              in (if kappa_info sd = kappa_info salpha
                  then (let R1 = GetTwoElectronIntegral C (int k) sa sb sc salpha
                        in dadd en (ddiv (Finite (R1 * GetMatrixElement C salpha sd))
                                      (Ed - Ealpha + delta C)))
                  else en))
        else en0)"

definition CalculateTwoElectronSub ::
  "ValenceMBPTCalculator \<Rightarrow> nat \<Rightarrow> OrbitalInfo \<Rightarrow> OrbitalInfo \<Rightarrow> OrbitalInfo \<Rightarrow> OrbitalInfo \<Rightarrow>
   double option" where
  "CalculateTwoElectronSub C k sa sb sc sd =
     (case (ValenceEnergies C (kappa_info sa), ValenceEnergies C (kappa_info sb),
            ValenceEnergies C (kappa_info sc), ValenceEnergies C (kappa_info sd)) of
        (Some Ea, Some Eb, Some Ec, Some Ed) \<Rightarrow>
          Some (fold (two_electron_sub_step C k sa sb sc sd Ea Eb Ec Ed) (high C) (Finite 0))
      | _ \<Rightarrow> None)"

section \<open>Valence MBPT on wavefunctions (MBPT/ValenceCalculator.cpp)\<close>

text \<open>
  Modelled from the spec: Orbital.h is not under src/. An \<open>Orbital\<close> is a spinor function
  with a principal quantum number (\<open>unsigned int\<close> in Orbital.cpp) and an energy;
  \<open>L()\<close> and \<open>J()\<close> are derived from kappa as the spec's data model and OrbitalInfo.h
  have them, \<open>L()\<close> unsigned. \<open>TwoJ_orb\<close> is the local
  \<open>(unsigned int)(s.J() * 2.)\<close> of the calculator. For kappa = 0, which no orbital has,
  the source converts a negative number to \<open>unsigned\<close>; the model gives 0.
\<close>

record Orbital = SpinorFunction +
  PQN :: nat
  Energy :: real

definition L_orb :: "Orbital \<Rightarrow> nat" where
  "L_orb s = nat (if Kappa s > 0 then Kappa s else - Kappa s - 1)"

definition J_orb :: "Orbital \<Rightarrow> real" where
  "J_orb s = \<bar>real_of_int (Kappa s)\<bar> - 0.5"

definition TwoJ_orb :: "Orbital \<Rightarrow> nat" where
  "TwoJ_orb s = nat (2 * \<bar>Kappa s\<bar> - 1)"

definition MAX_K :: nat where
  "MAX_K = 12"

text \<open>
  The collaborators: the excited states in iteration order, the size of the Hartree-Fock
  potential (read into \<open>MaxStateSize\<close>), the lattice weights \<open>dR\<close>, the nuclear inverse
  mass, \<open>CoulombIntegrator::FastCoulombIntegrate(density, pot, k, n)\<close>, which maps the
  density, the previous content of \<open>pot\<close>, the multipole and the number of points to the
  new content of \<open>pot\<close>, and the two integrals of \<open>StateIntegrator\<close>.
\<close>

record ValenceCalculator = MBPTCalculator +
  excited_states :: "Orbital list"
  HFPotential_size :: nat
  dR :: "real list"
  NuclearInverseMass :: real
  FastCoulombIntegrate :: "real list \<Rightarrow> real list \<Rightarrow> nat \<Rightarrow> nat \<Rightarrow> real list"
  HamiltonianMatrixElement :: "Orbital \<Rightarrow> Orbital \<Rightarrow> real"
  IsotopeShiftIntegral :: "Orbital \<Rightarrow> Orbital \<Rightarrow> real"

text \<open>
  The two work vectors \<open>density\<close> and \<open>pot\<close> live through all iterations of a call.
  The loops index them, the orbitals and \<open>dR\<close> without a test; the indices are in range
  when no orbital is longer than \<open>MaxStateSize\<close> and the lattice.
\<close>

record workspace = "Orbital summation" +
  density :: "real list"
  pot :: "real list"

definition fill_density :: "Orbital \<Rightarrow> Orbital \<Rightarrow> real list \<Rightarrow> real list" where
  "fill_density s t dens =
     fold (\<lambda>i d. d[i := f_vec s ! i * f_vec t ! i + g_vec s ! i * g_vec t ! i])
       [0..<min (size_sf s) (size_sf t)] dens"

definition contract :: "real list \<Rightarrow> real list \<Rightarrow> Orbital \<Rightarrow> Orbital \<Rightarrow> real" where
  "contract pt dr s t =
     fold (\<lambda>i R. R + pt ! i * (f_vec s ! i * f_vec t ! i + g_vec s ! i * g_vec t ! i) * dr ! i)
       [0..<min (size_sf s) (size_sf t)] 0"

subsection \<open>One-body valence correction\<close>

definition one_valence_step ::
  "ValenceCalculator \<Rightarrow> Orbital \<Rightarrow> Orbital \<Rightarrow> real \<Rightarrow> Orbital \<Rightarrow> double \<Rightarrow> double" where
  "one_valence_step V si sf ValenceEnergy s4 en =
     (if PQN s4 \<ge> 5 \<and> Kappa s4 = Kappa si
      then (let t = Finite (HamiltonianMatrixElement V s4 si * HamiltonianMatrixElement V s4 sf);
                t = ddiv t (ValenceEnergy - Energy s4 + delta V)
            in dadd en t)
      else en)"

definition CalculateOneElectronValence1 ::
  "ValenceCalculator \<Rightarrow> Orbital \<Rightarrow> Orbital \<Rightarrow> double option" where
  "CalculateOneElectronValence1 V si sf =
     (case ValenceEnergies V (Kappa si) of
        None \<Rightarrow> None
      | Some ValenceEnergy \<Rightarrow>
          Some (fold (one_valence_step V si sf ValenceEnergy) (excited_states V) (Finite 0)))"

definition GetOneElectronValence ::
  "ValenceCalculator \<Rightarrow> Orbital \<Rightarrow> Orbital \<Rightarrow> double option" where
  "GetOneElectronValence V s1 s2 =
     (if Kappa s1 \<noteq> Kappa s2 then Some (Finite 0) else CalculateOneElectronValence1 V s1 s2)"

subsection \<open>Two-body valence correction, first part\<close>

text \<open>
  The variables \<open>Ja\<close>, ..., \<open>J4\<close>, \<open>exponent\<close>, \<open>k\<close>, \<open>k1\<close>, \<open>k2\<close> are
  \<open>unsigned int\<close>; with the quantum numbers of orbitals no sum below reaches \<open>2 ^ 32\<close>,
  and the parities tested are those of the unreduced sums in any case. The divisor of
  \<open>coeff_34\<close> is computed on real numbers here; \<open>pair_energy_denominator\<close> above has
  its binary64 arithmetic.
\<close>

definition coeff_k2_v ::
  "ValenceCalculator \<Rightarrow> nat \<Rightarrow> Orbital \<Rightarrow> Orbital \<Rightarrow> Orbital \<Rightarrow> Orbital \<Rightarrow>
   Orbital \<Rightarrow> Orbital \<Rightarrow> nat \<Rightarrow> nat \<Rightarrow> real" where
  "coeff_k2_v V k sa sb sc sd s3 s4 k1 k2 =
     (let coeff = Electron3j_m (constants V) (TwoJ_orb s3) (TwoJ_orb sc) k2 1 (- 1) *
                  Electron3j_m (constants V) (TwoJ_orb s4) (TwoJ_orb sd) k2 1 (- 1)
      in if coeff \<noteq> 0
         then coeff * Wigner6j (constants V) (J_orb sc) (J_orb sa) (real k)
                        (real k1) (real k2) (J_orb s3)
                    * Wigner6j (constants V) (J_orb sd) (J_orb sb) (real k)
                        (real k1) (real k2) (J_orb s4)
         else coeff)"

text \<open>
  The radial integral \<open>R2\<close> of a term, with the work vectors it leaves behind, and
  \<open>R1\<close> likewise: the density is written, the Coulomb integrator fills \<open>pot\<close>, the
  potential is contracted with the second pair of orbitals, and the isotope shift term is
  taken off when the nuclear inverse mass is not zero and the multipole is 1.
\<close>

definition radial_R2 ::
  "ValenceCalculator \<Rightarrow> Orbital \<Rightarrow> Orbital \<Rightarrow> Orbital \<Rightarrow> Orbital \<Rightarrow> nat \<Rightarrow> workspace \<Rightarrow>
   real \<times> real list \<times> real list" where
  "radial_R2 V s3 s4 sc sd k2 st =
     (let dens = fill_density s4 sd (density st);
          pt = FastCoulombIntegrate V dens (pot st) k2 (min (size_sf s4) (size_sf sd));
          R2 = contract pt (dR V) s3 sc;
          R2 = (if NuclearInverseMass V \<noteq> 0 \<and> k2 = 1
                then R2 - NuclearInverseMass V * IsotopeShiftIntegral V s3 sc *
                          IsotopeShiftIntegral V s4 sd
                else R2)
      in (R2, dens, pt))"

definition radial_R1 ::
  "ValenceCalculator \<Rightarrow> Orbital \<Rightarrow> Orbital \<Rightarrow> Orbital \<Rightarrow> Orbital \<Rightarrow> nat \<Rightarrow> workspace \<Rightarrow>
   real \<times> real list \<times> real list" where
  "radial_R1 V sa sb s3 s4 k1 st =
     (let dens = fill_density sb s4 (density st);
          pt = FastCoulombIntegrate V dens (pot st) k1 (min (size_sf sb) (size_sf s4));
          R1 = contract pt (dR V) sa s3;
          R1 = (if NuclearInverseMass V \<noteq> 0 \<and> k1 = 1
                then R1 - NuclearInverseMass V * IsotopeShiftIntegral V s3 sa *
                          IsotopeShiftIntegral V s4 sb
                else R1)
      in (R1, dens, pt))"

definition k2_step_v ::
  "ValenceCalculator \<Rightarrow> nat \<Rightarrow> Orbital \<Rightarrow> Orbital \<Rightarrow> Orbital \<Rightarrow> Orbital \<Rightarrow>
   Orbital \<Rightarrow> Orbital \<Rightarrow> real \<Rightarrow> double \<Rightarrow> real \<Rightarrow> nat \<Rightarrow> nat \<Rightarrow> workspace \<Rightarrow> workspace" where
  "k2_step_v V k sa sb sc sd s3 s4 coeff_ab coeff_34 R1 k1 k2 st =
     (let coeff = coeff_k2_v V k sa sb sc sd s3 s4 k1 k2
      in if coeff \<noteq> 0
         then (let c = dscale coeff_34 (coeff * coeff_ab);
                   c = (if (k1 + k2) mod 2 \<noteq> 0 then dneg c else c)
               in case radial_R2 V s3 s4 sc sd k2 st of (R2, dens, pt) \<Rightarrow>
                    st\<lparr>energy := dadd (energy st) (dscale c (R1 * R2)),
                       trace := trace st @ [RadialIntegral (int k2) s3 s4 sc sd],
                       density := dens, pot := pt\<rparr>)
         else st)"

definition k1_step_v ::
  "ValenceCalculator \<Rightarrow> nat \<Rightarrow> Orbital \<Rightarrow> Orbital \<Rightarrow> Orbital \<Rightarrow> Orbital \<Rightarrow>
   Orbital \<Rightarrow> Orbital \<Rightarrow> double \<Rightarrow> nat \<Rightarrow> workspace \<Rightarrow> workspace" where
  "k1_step_v V k sa sb sc sd s3 s4 coeff_34 k1 st =
     (let coeff_ab = Electron3j_m (constants V) (TwoJ_orb sa) (TwoJ_orb s3) k1 1 (- 1) *
                     Electron3j_m (constants V) (TwoJ_orb sb) (TwoJ_orb s4) k1 1 (- 1)
      in if coeff_ab \<noteq> 0
         then (case radial_R1 V sa sb s3 s4 k1 st of (R1, dens, pt) \<Rightarrow>
                 let st = st\<lparr>trace := trace st @ [RadialIntegral (int k1) sa sb s3 s4],
                             density := dens, pot := pt\<rparr>;
                     start_k2 = (L_orb s3 + L_orb sc) mod 2
                 in for_k (k2_step_v V k sa sb sc sd s3 s4 coeff_ab coeff_34 R1 k1)
                      start_k2 MAX_K st)
         else st)"

definition coeff_34_init ::
  "nat \<Rightarrow> Orbital \<Rightarrow> Orbital \<Rightarrow> Orbital \<Rightarrow> Orbital \<Rightarrow> Orbital \<Rightarrow> Orbital \<Rightarrow> real" where
  "coeff_34_init k sa sb sc sd s3 s4 =
     (let coeff_34 = real (TwoJ_orb s3 + 1) * real (TwoJ_orb s4 + 1) * (2 * real k + 1);
          coeff_34 = (if (L_orb sa + L_orb s3) mod 2 \<noteq> (L_orb sb + L_orb s4) mod 2
                      then 0 else coeff_34)
      in if (L_orb s3 + L_orb sc) mod 2 \<noteq> (L_orb sd + L_orb s4) mod 2 then 0 else coeff_34)"

definition coeff_34_of ::
  "ValenceCalculator \<Rightarrow> nat \<Rightarrow> Orbital \<Rightarrow> Orbital \<Rightarrow> Orbital \<Rightarrow> Orbital \<Rightarrow>
   real \<Rightarrow> real \<Rightarrow> real \<Rightarrow> Orbital \<Rightarrow> Orbital \<Rightarrow> real \<Rightarrow> double" where
  "coeff_34_of V k sa sb sc sd coeff_ac coeff_bd ValenceEnergy s3 s4 coeff_34_0 =
     (let coeff_34 = ddiv (Finite coeff_34_0) (coeff_ac * coeff_bd);
          coeff_34 = ddiv coeff_34 (ValenceEnergy - Energy s3 - Energy s4 + delta V);
          exponent = (TwoJ_orb sa + TwoJ_orb sb + TwoJ_orb sc + TwoJ_orb sd +
                      TwoJ_orb s3 + TwoJ_orb s4) div 2
      in if (exponent + k + 1) mod 2 \<noteq> 0 then dneg coeff_34 else coeff_34)"

definition pair_step_v ::
  "ValenceCalculator \<Rightarrow> nat \<Rightarrow> Orbital \<Rightarrow> Orbital \<Rightarrow> Orbital \<Rightarrow> Orbital \<Rightarrow>
   real \<Rightarrow> real \<Rightarrow> real \<Rightarrow> Orbital \<Rightarrow> Orbital \<Rightarrow> workspace \<Rightarrow> workspace" where
  "pair_step_v V k sa sb sc sd coeff_ac coeff_bd ValenceEnergy s3 s4 st0 =
     (let st = st0\<lparr>trace := trace st0 @ [PairVisited s3 s4]\<rparr>;
          coeff_34 = coeff_34_init k sa sb sc sd s3 s4
      in if (PQN s3 \<ge> 5 \<or> PQN s4 \<ge> 5) \<and> coeff_34 \<noteq> 0
         then (let coeff_34 = coeff_34_of V k sa sb sc sd coeff_ac coeff_bd ValenceEnergy
                                s3 s4 coeff_34;
                   start_k1 = (L_orb sa + L_orb s3) mod 2
               in for_k (k1_step_v V k sa sb sc sd s3 s4 coeff_34) start_k1 MAX_K st)
         else st)"

definition CalculateTwoElectronValence1 ::
  "ValenceCalculator \<Rightarrow> nat \<Rightarrow> Orbital \<Rightarrow> Orbital \<Rightarrow> Orbital \<Rightarrow> Orbital \<Rightarrow> nat \<Rightarrow>
   workspace option" where
  "CalculateTwoElectronValence1 V MaxStateSize sa sb sc sd k =
     (let st = \<lparr>energy = Finite 0, trace = [],
                density = replicate MaxStateSize 0, pot = replicate MaxStateSize 0\<rparr>;
          coeff_ac = Electron3j_m (constants V) (TwoJ_orb sa) (TwoJ_orb sc) k 1 (- 1);
          coeff_bd = Electron3j_m (constants V) (TwoJ_orb sb) (TwoJ_orb sd) k 1 (- 1)
      in if coeff_ac = 0 \<or> coeff_bd = 0 then Some st
         else (case (ValenceEnergies V (Kappa sa), ValenceEnergies V (Kappa sb)) of
                 (Some Ea, Some Eb) \<Rightarrow>
                   Some (fold (\<lambda>s3.
                           fold (pair_step_v V k sa sb sc sd coeff_ac coeff_bd (Ea + Eb) s3)
                             (excited_states V))
                         (excited_states V) st)
               | _ \<Rightarrow> None))"

subsection \<open>Two-body valence correction, second part\<close>

text \<open>
  The hole line is attached to \<open>sa\<close> or \<open>sc\<close> in the first loop and to \<open>sb\<close> or
  \<open>sd\<close> in the second. The valence energy is looked up inside the loop, only for a
  matching intermediate orbital; a missing key is again \<open>None\<close>.
\<close>

definition hole_ac_step ::
  "ValenceCalculator \<Rightarrow> real list \<Rightarrow> real \<Rightarrow> Orbital \<Rightarrow> Orbital \<Rightarrow> Orbital \<Rightarrow>
   double option \<Rightarrow> double option" where
  "hole_ac_step V pt SMS_bd sa sc s3 en0 =
     (let en =
           (if PQN s3 \<ge> 5 \<and> Kappa s3 = Kappa sa
            then (let R1 = contract pt (dR V) s3 sc;
                      R1 = (if SMS_bd \<noteq> 0
                            then R1 - SMS_bd * IsotopeShiftIntegral V s3 sc else R1)
                  in case (en0, ValenceEnergies V (Kappa sa)) of
                       (Some e, Some Ea) \<Rightarrow>
                         Some (dadd e (ddiv (Finite (R1 * HamiltonianMatrixElement V sa s3))
                                         (Ea - Energy s3 + delta V)))
                     | _ \<Rightarrow> None)
            else en0)
      in if PQN s3 \<ge> 5 \<and> Kappa s3 = Kappa sc
         then (let R1 = contract pt (dR V) sa s3;
                   R1 = (if SMS_bd \<noteq> 0
                         then R1 + SMS_bd * IsotopeShiftIntegral V s3 sa else R1)
               in case (en, ValenceEnergies V (Kappa sc)) of
                    (Some e, Some Ec) \<Rightarrow>
                      Some (dadd e (ddiv (Finite (R1 * HamiltonianMatrixElement V sc s3))
                                      (Ec - Energy s3 + delta V)))
                  | _ \<Rightarrow> None)
         else en)"

definition hole_bd_step ::
  "ValenceCalculator \<Rightarrow> real list \<Rightarrow> real \<Rightarrow> Orbital \<Rightarrow> Orbital \<Rightarrow> Orbital \<Rightarrow>
   double option \<Rightarrow> double option" where
  "hole_bd_step V pt SMS_ac sb sd s3 en0 =
     (let en =
           (if PQN s3 \<ge> 5 \<and> Kappa s3 = Kappa sb
            then (let R1 = contract pt (dR V) s3 sd;
                      R1 = (if SMS_ac \<noteq> 0
                            then R1 - SMS_ac * IsotopeShiftIntegral V s3 sd else R1)
                  in case (en0, ValenceEnergies V (Kappa sb)) of
                       (Some e, Some Eb) \<Rightarrow>
                         Some (dadd e (ddiv (Finite (R1 * HamiltonianMatrixElement V sb s3))
                                         (Eb - Energy s3 + delta V)))
                     | _ \<Rightarrow> None)
            else en0)
      in if PQN s3 \<ge> 5 \<and> Kappa s3 = Kappa sd
         then (let R1 = contract pt (dR V) sb s3;
                   R1 = (if SMS_ac \<noteq> 0
                         then R1 + SMS_ac * IsotopeShiftIntegral V s3 sb else R1)
               in case (en, ValenceEnergies V (Kappa sd)) of
                    (Some e, Some Ed) \<Rightarrow>
                      Some (dadd e (ddiv (Finite (R1 * HamiltonianMatrixElement V sd s3))
                                      (Ed - Energy s3 + delta V)))
                  | _ \<Rightarrow> None)
         else en)"

definition CalculateTwoElectronValence2 ::
  "ValenceCalculator \<Rightarrow> nat \<Rightarrow> Orbital \<Rightarrow> Orbital \<Rightarrow> Orbital \<Rightarrow> Orbital \<Rightarrow> nat \<Rightarrow>
   double option" where
  "CalculateTwoElectronValence2 V MaxStateSize sa sb sc sd k =
     (let dens = replicate MaxStateSize 0;
          pt = replicate MaxStateSize 0;
          en = Some (Finite 0);
          dens = fill_density sb sd dens;
          pt = FastCoulombIntegrate V dens pt k (min (size_sf sb) (size_sf sd));
          SMS_bd = (if NuclearInverseMass V \<noteq> 0 \<and> k = 1
                    then NuclearInverseMass V * IsotopeShiftIntegral V sb sd else 0);
          en = fold (hole_ac_step V pt SMS_bd sa sc) (excited_states V) en;
          dens = fill_density sa sc dens;
          pt = FastCoulombIntegrate V dens pt k (min (size_sf sa) (size_sf sc));
          SMS_ac = (if NuclearInverseMass V \<noteq> 0 \<and> k = 1
                    then NuclearInverseMass V * IsotopeShiftIntegral V sa sc else 0)
      in fold (hole_bd_step V pt SMS_ac sb sd) (excited_states V) en)"

text \<open>
  The public entry points set \<open>MaxStateSize\<close> from the Hartree-Fock potential first.
  \<open>GetTwoElectronValence\<close> adds the two parts to zero.
\<close>

definition GetTwoElectronBoxValence ::
  "ValenceCalculator \<Rightarrow> Orbital \<Rightarrow> Orbital \<Rightarrow> Orbital \<Rightarrow> Orbital \<Rightarrow> nat \<Rightarrow> double option" where
  "GetTwoElectronBoxValence V s1 s2 s3 s4 k =
     map_option energy (CalculateTwoElectronValence1 V (HFPotential_size V) s1 s2 s3 s4 k)"

definition GetTwoElectronValence_v ::
  "ValenceCalculator \<Rightarrow> Orbital \<Rightarrow> Orbital \<Rightarrow> Orbital \<Rightarrow> Orbital \<Rightarrow> nat \<Rightarrow> double option" where
  "GetTwoElectronValence_v V s1 s2 s3 s4 k =
     (case CalculateTwoElectronValence1 V (HFPotential_size V) s1 s2 s3 s4 k of
        None \<Rightarrow> None
      | Some st1 \<Rightarrow>
          (case CalculateTwoElectronValence2 V (HFPotential_size V) s1 s2 s3 s4 k of
             None \<Rightarrow> None
           | Some e2 \<Rightarrow> Some (dadd (dadd (Finite 0) (energy st1)) e2)))"

section \<open>Notions used to state the properties\<close>

text \<open>
  The sum of a list of results, not finite as soon as one of them is not.
\<close>

definition dsum :: "double list \<Rightarrow> double" where
  "dsum xs = foldr dadd xs (Finite 0)"

text \<open>
  The triangle rule for a multipole \<open>j\<close> between two orbitals, as the spec words it: \<open>j\<close>
  lies between the difference and the sum of the two total angular momenta, and has the
  parity of the sum of the two orbital angular momenta.
\<close>

definition triangle_allowed :: "Orbital \<Rightarrow> Orbital \<Rightarrow> nat \<Rightarrow> bool" where
  "triangle_allowed s t j =
     (\<bar>int (TwoJ_orb s) - int (TwoJ_orb t)\<bar> \<le> 2 * int j \<and>
      2 * j \<le> TwoJ_orb s + TwoJ_orb t \<and>
      even (L_orb s + L_orb t + j))"

text \<open>
  The same rule on the keys of ValenceMBPTCalculator, whose multipoles are \<open>int\<close>.
\<close>

definition triangle_allowed_info :: "OrbitalInfo \<Rightarrow> OrbitalInfo \<Rightarrow> int \<Rightarrow> bool" where
  "triangle_allowed_info a b j =
     (\<bar>TwoJ_info a - TwoJ_info b\<bar> \<le> 2 * j \<and>
      2 * j \<le> TwoJ_info a + TwoJ_info b \<and>
      even (L_info a + L_info b + j))"

section \<open>Sample inputs\<close>

text \<open>
  A small system on which the theorems below are instantiated: s and p orbitals with
  principal quantum numbers 4 to 6, the Q-space starting at 5, the orbital 6s degenerate with
  the valence energy of its channel, and constant stand-ins for the numeric services. The
  stand-in for the 3j-type coefficient vanishes outside the triangle rule.
\<close>

definition sample_constants :: MathConstant where
  "sample_constants =
     \<lparr>Electron3j = (\<lambda>j1 j2 k. if \<bar>j1 - j2\<bar> \<le> 2 * k \<and> 2 * k \<le> j1 + j2 then 1 / 2 else 0),
      Electron3j_m = (\<lambda>j1 j2 k m1 m2.
         if \<bar>int j1 - int j2\<bar> \<le> 2 * int k \<and> 2 * k \<le> j1 + j2 then 1 / 2 else 0),
      Wigner6j = (\<lambda>j1 j2 j3 j4 j5 j6. 1 / 3)\<rparr>"

definition info_5s :: OrbitalInfo where
  "info_5s = \<lparr>pqn_info = 5, kappa_info = - 1\<rparr>"
definition info_6s :: OrbitalInfo where
  "info_6s = \<lparr>pqn_info = 6, kappa_info = - 1\<rparr>"
definition info_4p :: OrbitalInfo where
  "info_4p = \<lparr>pqn_info = 4, kappa_info = 1\<rparr>"
definition info_4s :: OrbitalInfo where
  "info_4s = \<lparr>pqn_info = 4, kappa_info = - 1\<rparr>"

definition sample_C :: ValenceMBPTCalculator where
  "sample_C =
     \<lparr>ValenceEnergies = [- 1 \<mapsto> - 1 / 2, 1 \<mapsto> - 1 / 4], delta = 1 / 100,
      constants = sample_constants,
      excited = [(info_4s, - 1 / 2), (info_4p, - 1 / 4), (info_5s, - 1 / 8)],
      high = [(info_5s, - 1 / 8), (info_6s, - 1 / 2)],
      InQSpace = (\<lambda>s. pqn_info s \<ge> 5),
      GetMatrixElement = (\<lambda>a b. 1 / 10),
      GetTwoElectronIntegral = (\<lambda>k a b c d. 1 / 4)\<rparr>"

definition orb_4s :: Orbital where
  "orb_4s = \<lparr>Kappa = - 1, f_vec = [1, 2], g_vec = [0, 1], dfdr_vec = [], dgdr_vec = [],
             PQN = 4, Energy = - 1 / 2\<rparr>"

definition orb_4p :: Orbital where
  "orb_4p = \<lparr>Kappa = 1, f_vec = [1, 1], g_vec = [1, 0], dfdr_vec = [], dgdr_vec = [],
             PQN = 4, Energy = - 1 / 4\<rparr>"

definition orb_5s :: Orbital where
  "orb_5s = \<lparr>Kappa = - 1, f_vec = [2, 1], g_vec = [1, 1], dfdr_vec = [], dgdr_vec = [],
             PQN = 5, Energy = - 1 / 8\<rparr>"

definition orb_6s :: Orbital where
  "orb_6s = \<lparr>Kappa = - 1, f_vec = [1, 3], g_vec = [1, 2], dfdr_vec = [], dgdr_vec = [],
             PQN = 6, Energy = - 1 / 2\<rparr>"

definition sample_V :: ValenceCalculator where
  "sample_V =
     \<lparr>ValenceEnergies = [- 1 \<mapsto> - 1 / 2, 1 \<mapsto> - 1 / 4], delta = 1 / 100,
      constants = sample_constants,
      excited_states = [orb_4s, orb_4p, orb_5s, orb_6s],
      HFPotential_size = 2, dR = [1 / 2, 1 / 2], NuclearInverseMass = 1 / 1000,
      FastCoulombIntegrate = (\<lambda>dens pt k n. dens),
      HamiltonianMatrixElement = (\<lambda>a b. 1 / 10),
      IsotopeShiftIntegral = (\<lambda>a b. 1 / 5)\<rparr>"

text \<open>
  The same system with a stand-in for the matrix element that is not symmetric in its two
  orbitals.
\<close>

definition sample_V_skew :: ValenceCalculator where
  "sample_V_skew = sample_V\<lparr>HamiltonianMatrixElement := (\<lambda>a b. real (PQN a) / 10)\<rparr>"

text \<open>
  Two orbitals of high angular momentum: kappa = 7 (l = 7, j = 13/2) and kappa = -9
  (l = 8, j = 17/2).
\<close>

definition orb_8k :: Orbital where
  "orb_8k = \<lparr>Kappa = 7, f_vec = [1, 1], g_vec = [0, 1], dfdr_vec = [], dgdr_vec = [],
             PQN = 8, Energy = - 1 / 16\<rparr>"

definition orb_9l :: Orbital where
  "orb_9l = \<lparr>Kappa = - 9, f_vec = [1, 1], g_vec = [1, 0], dfdr_vec = [], dgdr_vec = [],
             PQN = 9, Energy = - 1 / 32\<rparr>"

section \<open>Properties of the decorator\<close>

subsection \<open>Memoization of the sigma potentials\<close>

lemma CalculateSigma_present:
  "sigmas d kappa = Some s \<Longrightarrow> CalculateSigma sv kappa c (d, computed) = (d, computed)"
  by (simp add: CalculateSigma_def)

lemma CalculateSigma_hf_present:
  "sigmas d kappa = Some s \<Longrightarrow> CalculateSigma_hf sv kappa hf (d, computed) = (d, computed)"
  by (simp add: CalculateSigma_hf_def)

lemma CalculateSigma_stores:
  "\<exists>s. sigmas (fst (CalculateSigma sv kappa c (d, computed))) kappa = Some s"
  by (cases "sigmas d kappa") (simp_all add: CalculateSigma_def Let_def)

text \<open>
  Claim C8. \<open>CalculateSigma\<close> is memoized per channel. When the map already holds a
  potential for \<open>kappa\<close>, either overload returns the decorator as it is and runs no
  calculation (the record of calculations is unchanged). When the channel has no entry, the
  potential is calculated once and inserted at \<open>kappa\<close>, every other entry kept. A second
  call for the same channel, with any calculator, changes nothing.
\<close>

theorem CalculateSigma_memoized:
  "(sigmas d kappa = Some s \<longrightarrow>
      CalculateSigma sv kappa c (d, computed) = (d, computed) \<and>
      CalculateSigma_hf sv kappa hf (d, computed) = (d, computed))
   \<and> (sigmas d kappa = None \<longrightarrow>
      CalculateSigma sv kappa c (d, computed) =
        (d\<lparr>sigmas := (sigmas d)(kappa \<mapsto>
            c kappa (IncludeLower sv (use_fg d) (use_gg d)
                       (new_SigmaPotential sv (lattice_size d) 100)))\<rparr>,
         computed @ [kappa]))
   \<and> CalculateSigma sv kappa c' (CalculateSigma sv kappa c (d, computed)) =
       CalculateSigma sv kappa c (d, computed)
   \<and> CalculateSigma_hf sv kappa hf (CalculateSigma sv kappa c (d, computed)) =
       CalculateSigma sv kappa c (d, computed)"
proof (intro conjI impI)
  assume "sigmas d kappa = Some s"
  then show "CalculateSigma sv kappa c (d, computed) = (d, computed)"
    and "CalculateSigma_hf sv kappa hf (d, computed) = (d, computed)"
    by (simp_all add: CalculateSigma_def CalculateSigma_hf_def)
next
  assume "sigmas d kappa = None"
  then show "CalculateSigma sv kappa c (d, computed) =
        (d\<lparr>sigmas := (sigmas d)(kappa \<mapsto>
            c kappa (IncludeLower sv (use_fg d) (use_gg d)
                       (new_SigmaPotential sv (lattice_size d) 100)))\<rparr>,
         computed @ [kappa])"
    by (simp add: CalculateSigma_def Let_def)
next
  obtain d' computed' where st: "CalculateSigma sv kappa c (d, computed) = (d', computed')"
    by (cases "CalculateSigma sv kappa c (d, computed)")
  have "\<exists>s. sigmas d' kappa = Some s"
    using CalculateSigma_stores [of sv kappa c d computed] st by simp
  then obtain s' where s': "sigmas d' kappa = Some s'" ..
  show "CalculateSigma sv kappa c' (CalculateSigma sv kappa c (d, computed)) =
       CalculateSigma sv kappa c (d, computed)"
    using s' st by (simp add: CalculateSigma_present)
  show "CalculateSigma_hf sv kappa hf (CalculateSigma sv kappa c (d, computed)) =
       CalculateSigma sv kappa c (d, computed)"
    using s' st by (simp add: CalculateSigma_hf_present)
qed

text \<open>
  At a decorator holding a potential for kappa = 2 only: a call for kappa = 2 returns the
  state as it is, and a call for kappa = 3 calculates and inserts (5 + 100, then + 3).
\<close>

theorem CalculateSigma_memoized_witness:
  "CalculateSigma \<lparr>new_SigmaPotential = (\<lambda>n m. n + m), IncludeLower = (\<lambda>a b s. s),
      new_BruecknerSigmaCalculator = (\<lambda>u k s. s + 2)\<rparr> 2 (\<lambda>k s. s + 3)
     (\<lparr>sigmas = [2 \<mapsto> 7::nat], lambda = 1, include_nonlocal = True,
      currentExchangePotential = new_SpinorFunction (- 1), use_fg = False, use_gg = False,
      lattice_size = 5, wrapped = ()\<rparr>, [])
   = (\<lparr>sigmas = [2 \<mapsto> 7::nat], lambda = 1, include_nonlocal = True,
      currentExchangePotential = new_SpinorFunction (- 1), use_fg = False, use_gg = False,
      lattice_size = 5, wrapped = ()\<rparr>, [])
   \<and> CalculateSigma \<lparr>new_SigmaPotential = (\<lambda>n m. n + m), IncludeLower = (\<lambda>a b s. s),
      new_BruecknerSigmaCalculator = (\<lambda>u k s. s + 2)\<rparr> 3 (\<lambda>k s. s + 3)
     (\<lparr>sigmas = [2 \<mapsto> 7::nat], lambda = 1, include_nonlocal = True,
      currentExchangePotential = new_SpinorFunction (- 1), use_fg = False, use_gg = False,
      lattice_size = 5, wrapped = ()\<rparr>, [])
   = (\<lparr>sigmas = [2 \<mapsto> 7::nat, 3 \<mapsto> 108], lambda = 1, include_nonlocal = True,
      currentExchangePotential = new_SpinorFunction (- 1), use_fg = False, use_gg = False,
      lattice_size = 5, wrapped = ()\<rparr>, [3])"
  using CalculateSigma_memoized [of
      "\<lparr>sigmas = [2 \<mapsto> 7::nat], lambda = 1, include_nonlocal = True,
      currentExchangePotential = new_SpinorFunction (- 1), use_fg = False, use_gg = False,
      lattice_size = 5, wrapped = ()\<rparr>" 2 7
      "\<lparr>new_SigmaPotential = (\<lambda>n m. n + m), IncludeLower = (\<lambda>a b s. s),
      new_BruecknerSigmaCalculator = (\<lambda>u k s. s + 2)\<rparr>" "\<lambda>k s. s + 3" "[]" None "\<lambda>k s. s + 3"]
    CalculateSigma_memoized [of
      "\<lparr>sigmas = [2 \<mapsto> 7::nat], lambda = 1, include_nonlocal = True,
      currentExchangePotential = new_SpinorFunction (- 1), use_fg = False, use_gg = False,
      lattice_size = 5, wrapped = ()\<rparr>" 3 7
      "\<lparr>new_SigmaPotential = (\<lambda>n m. n + m), IncludeLower = (\<lambda>a b s. s),
      new_BruecknerSigmaCalculator = (\<lambda>u k s. s + 2)\<rparr>" "\<lambda>k s. s + 3" "[]" None "\<lambda>k s. s + 3"]
  by simp

subsection \<open>Reading and writing the potentials\<close>

lemma digit_val_digit: "d < 10 \<Longrightarrow> of_char (''0123456789'' ! d) - 48 = (d::nat)"
proof -
  assume "d < 10"
  then have "d \<in> {0,1,2,3,4,5,6,7,8,9}" by auto
  then show ?thesis by auto
qed

lemma digit_not_minus: "d < 10 \<Longrightarrow> ''0123456789'' ! d \<noteq> CHR ''-''"
proof -
  assume "d < 10"
  then have "d \<in> {0,1,2,3,4,5,6,7,8,9}" by auto
  then show ?thesis by auto
qed

lemma nat_digits_val:
  "foldl (\<lambda>acc c. 10 * acc + (of_char c - 48)) 0 (nat_digits n) = n"
proof (induction n rule: nat_digits.induct)
  case (1 n)
  show ?case
  proof (cases "n < 10")
    case True
    then show ?thesis by (subst nat_digits.simps) (simp add: digit_val_digit)
  next
    case False
    then show ?thesis
      using 1 by (subst nat_digits.simps) (simp add: digit_val_digit)
  qed
qed

lemma nat_digits_inj: "nat_digits m = nat_digits n \<Longrightarrow> m = n"
  by (metis nat_digits_val)

lemma nat_digits_hd: "nat_digits n \<noteq> [] \<and> hd (nat_digits n) \<noteq> CHR ''-''"
proof (induction n rule: nat_digits.induct)
  case (1 n)
  show ?case
  proof (cases "n < 10")
    case True
    then show ?thesis by (subst (1 2) nat_digits.simps) (simp add: digit_not_minus)
  next
    case False
    then show ?thesis
      using 1 by (subst (1 2) nat_digits.simps) simp
  qed
qed

lemma itoa_inj: "itoa i = itoa j \<Longrightarrow> i = j"
proof -
  assume eq: "itoa i = itoa j"
  have neg_pos: "\<And>m n. ''-'' @ nat_digits m \<noteq> nat_digits n"
  proof
    fix m n assume "''-'' @ nat_digits m = nat_digits n"
    then have "hd (nat_digits n) = CHR ''-''"
      by (metis append_Cons list.sel(1))
    then show False using nat_digits_hd by blast
  qed
  show ?thesis
  proof (cases "i < 0"; cases "j < 0")
    assume "i < 0" "j < 0"
    with eq have "nat (- i) = nat (- j)" by (simp add: itoa_def nat_digits_inj)
    with \<open>i < 0\<close> \<open>j < 0\<close> show ?thesis by simp
  next
    assume "i < 0" "\<not> j < 0"
    with eq neg_pos show ?thesis by (simp add: itoa_def)
  next
    assume "\<not> i < 0" "j < 0"
    with eq neg_pos [of "nat (- j)" "nat i"] show ?thesis by (simp add: itoa_def)
  next
    assume "\<not> i < 0" "\<not> j < 0"
    with eq have "nat i = nat j" by (simp add: itoa_def nat_digits_inj)
    with \<open>\<not> i < 0\<close> \<open>\<not> j < 0\<close> show ?thesis by simp
  qed
qed

lemma sigma_filename_inj:
  "sigma_filename identifier j = sigma_filename identifier k \<Longrightarrow> j = k"
  by (simp add: sigma_filename_def itoa_inj)

lemma Write_distinct: "distinct (map fst (Write identifier d))"
proof -
  have "inj_on (sigma_filename identifier) A" for A
    by (rule inj_onI) (rule sigma_filename_inj)
  then show ?thesis
    by (simp add: Write_def comp_def distinct_map)
qed

lemma Write_set:
  "finite (dom (sigmas d)) \<Longrightarrow>
   set (Write identifier d) = {(sigma_filename identifier k, s) |k s. sigmas d k = Some s}"
  by (auto simp: Write_def image_iff dom_def)

text \<open>
  Claim C9, as amended. \<open>Read(identifier, kappa)\<close> consults the file named
  \<open>identifier.kappa.sigma\<close> and nothing else. When that read fails the decorator is
  returned unchanged; when it succeeds the entry of the channel is the loaded potential and
  every other entry is kept. The method returns no value, so the outcome of the read shows
  only in the map. \<open>Write(identifier)\<close> calls the serializer once for every channel of
  the map (a finite map, as \<open>std::map\<close> is), in ascending order of kappa, each time with
  the stored potential and the file name of that channel; the names are pairwise different.
  The write methods return no decorator: they are \<open>const\<close>.
\<close>

theorem Read_Write_contract:
  "sigma_filename identifier kappa = identifier @ ''.'' @ itoa kappa @ ''.sigma''
   \<and> (files (sigma_filename identifier kappa) = None \<longrightarrow> Read files identifier kappa d = d)
   \<and> (files (sigma_filename identifier kappa) = Some sigma \<longrightarrow>
        Read files identifier kappa d = d\<lparr>sigmas := (sigmas d)(kappa \<mapsto> sigma)\<rparr>)
   \<and> (finite (dom (sigmas d)) \<longrightarrow>
        set (Write identifier d) = {(sigma_filename identifier k, s) |k s. sigmas d k = Some s})
   \<and> length (Write identifier d) = card (dom (sigmas d))
   \<and> map fst (Write identifier d) =
        map (sigma_filename identifier) (sorted_list_of_set (dom (sigmas d)))
   \<and> distinct (map fst (Write identifier d))"
proof (intro conjI impI)
  show "sigma_filename identifier kappa = identifier @ ''.'' @ itoa kappa @ ''.sigma''"
    by (simp add: sigma_filename_def)
  show "Read files identifier kappa d = d" if "files (sigma_filename identifier kappa) = None"
    using that by (simp add: Read_def)
  show "Read files identifier kappa d = d\<lparr>sigmas := (sigmas d)(kappa \<mapsto> sigma)\<rparr>"
    if "files (sigma_filename identifier kappa) = Some sigma"
    using that by (simp add: Read_def)
  show "set (Write identifier d) = {(sigma_filename identifier k, s) |k s. sigmas d k = Some s}"
    if "finite (dom (sigmas d))"
    using that by (rule Write_set)
  show "length (Write identifier d) = card (dom (sigmas d))"
    by (simp add: Write_def)
  show "map fst (Write identifier d) =
        map (sigma_filename identifier) (sorted_list_of_set (dom (sigmas d)))"
    by (simp add: Write_def)
  show "distinct (map fst (Write identifier d))"
    by (rule Write_distinct)
qed

text \<open>
  A successful read into a decorator holding kappa = 2, a failed read into the same
  decorator, and the file names written for the channels -1 and 2.
\<close>

theorem Read_Write_contract_witness:
  "Read [''Cs.-1.sigma'' \<mapsto> 9::nat] ''Cs'' (- 1)
     \<lparr>sigmas = [2 \<mapsto> 7::nat], lambda = 1, include_nonlocal = True,
      currentExchangePotential = new_SpinorFunction (- 1), use_fg = False, use_gg = False,
      lattice_size = 5, wrapped = ()\<rparr>
   = \<lparr>sigmas = [2 \<mapsto> 7::nat, - 1 \<mapsto> 9], lambda = 1, include_nonlocal = True,
      currentExchangePotential = new_SpinorFunction (- 1), use_fg = False, use_gg = False,
      lattice_size = 5, wrapped = ()\<rparr>
   \<and> Read Map.empty ''Cs'' (- 1)
     \<lparr>sigmas = [2 \<mapsto> 7::nat], lambda = 1, include_nonlocal = True,
      currentExchangePotential = new_SpinorFunction (- 1), use_fg = False, use_gg = False,
      lattice_size = 5, wrapped = ()\<rparr>
   = \<lparr>sigmas = [2 \<mapsto> 7::nat], lambda = 1, include_nonlocal = True,
      currentExchangePotential = new_SpinorFunction (- 1), use_fg = False, use_gg = False,
      lattice_size = 5, wrapped = ()\<rparr>
   \<and> map fst (Write ''Cs''
     \<lparr>sigmas = [2 \<mapsto> 7::nat, - 1 \<mapsto> 9], lambda = 1, include_nonlocal = True,
      currentExchangePotential = new_SpinorFunction (- 1), use_fg = False, use_gg = False,
      lattice_size = 5, wrapped = ()\<rparr>) = [''Cs.-1.sigma'', ''Cs.2.sigma'']"
  using Read_Write_contract [of "''Cs''" "- 1" "[''Cs.-1.sigma'' \<mapsto> 9::nat]"
     "\<lparr>sigmas = [2 \<mapsto> 7::nat], lambda = 1, include_nonlocal = True,
      currentExchangePotential = new_SpinorFunction (- 1), use_fg = False, use_gg = False,
      lattice_size = 5, wrapped = ()\<rparr>" 9]
    Read_Write_contract [of "''Cs''" "- 1" "Map.empty :: string \<rightharpoonup> nat"
     "\<lparr>sigmas = [2 \<mapsto> 7::nat], lambda = 1, include_nonlocal = True,
      currentExchangePotential = new_SpinorFunction (- 1), use_fg = False, use_gg = False,
      lattice_size = 5, wrapped = ()\<rparr>" 9]
    Read_Write_contract [of "''Cs''" "- 1" "Map.empty :: string \<rightharpoonup> nat"
     "\<lparr>sigmas = [2 \<mapsto> 7::nat, - 1 \<mapsto> 9], lambda = 1, include_nonlocal = True,
      currentExchangePotential = new_SpinorFunction (- 1), use_fg = False, use_gg = False,
      lattice_size = 5, wrapped = ()\<rparr>" 9]
  by (simp add: sigma_filename_def itoa_def nat_digits.simps)

text \<open>
  The claim as stated has \<open>Read\<close> report a failure. It cannot: here the file is missing in
  the first call and present in the second, and the two calls return the same decorator.
\<close>

theorem Read_failure_not_reported:
  "(Map.empty :: string \<rightharpoonup> nat) (sigma_filename ''Cs'' (- 1)) = None
   \<and> [''Cs.-1.sigma'' \<mapsto> 7::nat] (sigma_filename ''Cs'' (- 1)) = Some 7
   \<and> Read Map.empty ''Cs'' (- 1)
     \<lparr>sigmas = [- 1 \<mapsto> 7::nat], lambda = 1, include_nonlocal = True,
      currentExchangePotential = new_SpinorFunction (- 1), use_fg = False, use_gg = False,
      lattice_size = 5, wrapped = ()\<rparr>
   = Read [''Cs.-1.sigma'' \<mapsto> 7] ''Cs'' (- 1)
     \<lparr>sigmas = [- 1 \<mapsto> 7::nat], lambda = 1, include_nonlocal = True,
      currentExchangePotential = new_SpinorFunction (- 1), use_fg = False, use_gg = False,
      lattice_size = 5, wrapped = ()\<rparr>"
  by (simp add: Read_def sigma_filename_def itoa_def nat_digits.simps)

subsection \<open>The injected term stays inside its region\<close>




















section \<open>Properties of the perturbation sums\<close>

subsection \<open>The one-body correction\<close>

lemma dadd_commute: "dadd a b = dadd b a"
  by (cases a; cases b) simp_all

lemma dadd_assoc: "dadd (dadd a b) c = dadd a (dadd b c)"
  by (cases a; cases b; cases c) simp_all

lemma dadd_zero: "dadd a (Finite 0) = a" "dadd (Finite 0) a = a"
  by (cases a; simp)+

lemma dsum_simps: "dsum [] = Finite 0" "dsum (x # xs) = dadd x (dsum xs)"
  by (simp_all add: dsum_def)

lemma dsum_Finite: "dsum (map (\<lambda>x. Finite (r x)) xs) = Finite (\<Sum>x\<leftarrow>xs. r x)"
  by (induction xs) (simp_all add: dsum_simps)

lemma fold_dadd_filter:
  "fold (\<lambda>x e. if P x then dadd e (g x) else e) xs e0 = dadd e0 (dsum (map g (filter P xs)))"
proof (induction xs arbitrary: e0)
  case Nil
  show ?case by (simp add: dsum_simps dadd_zero)
next
  case (Cons x xs)
  show ?case
    by (simp add: Cons.IH dsum_simps dadd_assoc)
qed

lemma one_electron_step_eq:
  "one_electron_step C sa sb E =
     (\<lambda>x e. if InQSpace C (fst x) \<and> kappa_info sa = kappa_info (fst x)
             then dadd e (ddiv (Finite (GetMatrixElement C sa (fst x) * GetMatrixElement C (fst x) sb))
                            (E - snd x + delta C))
             else e)"
  by (rule ext)+ (simp add: one_electron_step_def split: prod.splits)

lemma CalculateOneElectronSub_sum:
  "ValenceEnergies C (kappa_info sa) = Some E \<Longrightarrow>
   CalculateOneElectronSub C sa sb =
     Some (dsum (map (\<lambda>(salpha, Ealpha).
                        ddiv (Finite (GetMatrixElement C sa salpha * GetMatrixElement C salpha sb))
                             (E - Ealpha + delta C))
                 (filter (\<lambda>(salpha, Ealpha). InQSpace C salpha \<and> kappa_info salpha = kappa_info sa)
                    (high C))))"
proof -
  assume E: "ValenceEnergies C (kappa_info sa) = Some E"
  have p: "(\<lambda>x. InQSpace C (fst x) \<and> kappa_info sa = kappa_info (fst x)) =
        (\<lambda>(salpha, Ealpha). InQSpace C salpha \<and> kappa_info salpha = kappa_info sa)"
    by (auto simp: fun_eq_iff)
  have g: "(\<lambda>x. ddiv (Finite (GetMatrixElement C sa (fst x) * GetMatrixElement C (fst x) sb))
                            (E - snd x + delta C)) =
        (\<lambda>(salpha, Ealpha).
                        ddiv (Finite (GetMatrixElement C sa salpha * GetMatrixElement C salpha sb))
                             (E - Ealpha + delta C))"
    by (auto simp: fun_eq_iff)
  have "CalculateOneElectronSub C sa sb =
      Some (fold (one_electron_step C sa sb E) (high C) (Finite 0))"
    using E by (simp add: CalculateOneElectronSub_def)
  also have "fold (one_electron_step C sa sb E) (high C) (Finite 0) =
      dadd (Finite 0) (dsum (map (\<lambda>x. ddiv (Finite (GetMatrixElement C sa (fst x) * GetMatrixElement C (fst x) sb))
                            (E - snd x + delta C))
                 (filter (\<lambda>x. InQSpace C (fst x) \<and> kappa_info sa = kappa_info (fst x)) (high C))))"
    unfolding one_electron_step_eq by (rule fold_dadd_filter)
  finally show ?thesis
    unfolding p g dadd_zero .
qed

lemma GetOneElectronSubtraction_match:
  "kappa_info s1 = kappa_info s2 \<Longrightarrow>
   GetOneElectronSubtraction C s1 s2 = CalculateOneElectronSub C s1 s2"
  by (simp add: GetOneElectronSubtraction_def)

lemma GetOneElectronValence_match:
  "Kappa o1 = Kappa o2 \<Longrightarrow> GetOneElectronValence V o1 o2 = CalculateOneElectronValence1 V o1 o2"
  by (simp add: GetOneElectronValence_def)

lemma one_valence_step_eq:
  "one_valence_step V si sf E =
     (\<lambda>s4 e. if PQN s4 \<ge> 5 \<and> Kappa s4 = Kappa si
             then dadd e (ddiv (Finite (HamiltonianMatrixElement V s4 si * HamiltonianMatrixElement V s4 sf))
                            (E - Energy s4 + delta V))
             else e)"
  by (rule ext)+ (simp add: one_valence_step_def Let_def)

lemma CalculateOneElectronValence1_sum:
  "ValenceEnergies V (Kappa si) = Some E \<Longrightarrow>
   CalculateOneElectronValence1 V si sf =
     Some (dsum (map (\<lambda>s4. ddiv (Finite (HamiltonianMatrixElement V s4 si * HamiltonianMatrixElement V s4 sf))
                            (E - Energy s4 + delta V))
                 (filter (\<lambda>s4. PQN s4 \<ge> 5 \<and> Kappa s4 = Kappa si) (excited_states V))))"
proof -
  assume E: "ValenceEnergies V (Kappa si) = Some E"
  have "CalculateOneElectronValence1 V si sf =
      Some (fold (one_valence_step V si sf E) (excited_states V) (Finite 0))"
    using E by (simp add: CalculateOneElectronValence1_def)
  also have "fold (one_valence_step V si sf E) (excited_states V) (Finite 0) =
      dadd (Finite 0) (dsum (map (\<lambda>s4. ddiv (Finite (HamiltonianMatrixElement V s4 si * HamiltonianMatrixElement V s4 sf))
                            (E - Energy s4 + delta V))
                 (filter (\<lambda>s4. PQN s4 \<ge> 5 \<and> Kappa s4 = Kappa si) (excited_states V))))"
    unfolding one_valence_step_eq by (rule fold_dadd_filter)
  finally show ?thesis
    unfolding dadd_zero .
qed

lemma dsum_ddiv_Finite:
  "\<forall>x\<in>set xs. d x \<noteq> 0 \<Longrightarrow>
   dsum (map (\<lambda>x. ddiv (Finite (n x)) (d x)) xs) = Finite (\<Sum>x\<leftarrow>xs. n x / d x)"
  by (induction xs) (simp_all add: dsum_simps)

lemma one_valence_symmetric:
  "\<forall>s4 \<in> set xs. HamiltonianMatrixElement V s4 o1 = HamiltonianMatrixElement V o1 s4 \<Longrightarrow>
   (\<Sum>s4 \<leftarrow> xs. HamiltonianMatrixElement V s4 o1 * HamiltonianMatrixElement V s4 o2 / d s4) =
   (\<Sum>s4 \<leftarrow> xs. HamiltonianMatrixElement V o1 s4 * HamiltonianMatrixElement V s4 o2 / d s4)"
  by (induction xs) simp_all

text \<open>
  Claim C4, as amended. With different kappa for the two external orbitals, the one-body
  correction returns exactly zero, whatever the caches, the orbital sets and the valence
  energies hold (both calculators). With equal kappa and the valence energy \<open>E\<close> of that
  kappa, the subtraction of ValenceMBPTCalculator is the sum, over the Q-space intermediate
  orbitals \<open>alpha\<close> of that kappa in iteration order, of
  \<open>matrix_element(s1, alpha) * matrix_element(alpha, s2) / (E - Energy(alpha) + delta)\<close>:
  as a sum of results in general, and as the finite real sum when no divisor is zero.
  The correction of ValenceCalculator, whose Q-space is the excited states with a principal
  quantum number of at least 5, is the sum of
  \<open>matrix_element(alpha, s1) * matrix_element(alpha, s2) / (E - Energy(alpha) + delta)\<close>,
  the intermediate orbital being the first argument of both factors; that is the sum of the
  claim when the matrix element takes the same value on \<open>(alpha, s1)\<close> and
  \<open>(s1, alpha)\<close> for these intermediate orbitals.
\<close>

theorem one_body_correction:
  "(kappa_info s1 \<noteq> kappa_info s2 \<longrightarrow> GetOneElectronSubtraction C s1 s2 = Some (Finite 0))
   \<and> (Kappa o1 \<noteq> Kappa o2 \<longrightarrow> GetOneElectronValence V o1 o2 = Some (Finite 0))
   \<and> (kappa_info s1 = kappa_info s2 \<and> ValenceEnergies C (kappa_info s1) = Some E \<longrightarrow>
        GetOneElectronSubtraction C s1 s2 =
          Some (dsum (map (\<lambda>(salpha, Ealpha).
                        ddiv (Finite (GetMatrixElement C s1 salpha * GetMatrixElement C salpha s2))
                             (E - Ealpha + delta C))
                     (filter (\<lambda>(salpha, Ealpha). InQSpace C salpha \<and> kappa_info salpha = kappa_info s1)
                        (high C)))))
   \<and> (kappa_info s1 = kappa_info s2 \<and> ValenceEnergies C (kappa_info s1) = Some E \<and>
       (\<forall>(salpha, Ealpha) \<in>
            set (filter (\<lambda>(salpha, Ealpha). InQSpace C salpha \<and> kappa_info salpha = kappa_info s1)
                   (high C)).
          E - Ealpha + delta C \<noteq> 0) \<longrightarrow>
        GetOneElectronSubtraction C s1 s2 =
          Some (Finite (\<Sum>(salpha, Ealpha) \<leftarrow>
                          filter (\<lambda>(salpha, Ealpha). InQSpace C salpha \<and> kappa_info salpha = kappa_info s1)
                            (high C).
                        GetMatrixElement C s1 salpha * GetMatrixElement C salpha s2 /
                        (E - Ealpha + delta C))))
   \<and> (Kappa o1 = Kappa o2 \<and> ValenceEnergies V (Kappa o1) = Some E' \<and>
       (\<forall>s4 \<in> set (filter (\<lambda>s4. PQN s4 \<ge> 5 \<and> Kappa s4 = Kappa o1) (excited_states V)).
          E' - Energy s4 + delta V \<noteq> 0) \<longrightarrow>
        GetOneElectronValence V o1 o2 =
          Some (Finite (\<Sum>s4 \<leftarrow> filter (\<lambda>s4. PQN s4 \<ge> 5 \<and> Kappa s4 = Kappa o1) (excited_states V).
                        HamiltonianMatrixElement V s4 o1 * HamiltonianMatrixElement V s4 o2 /
                        (E' - Energy s4 + delta V))))
   \<and> (Kappa o1 = Kappa o2 \<and> ValenceEnergies V (Kappa o1) = Some E' \<and>
       (\<forall>s4 \<in> set (filter (\<lambda>s4. PQN s4 \<ge> 5 \<and> Kappa s4 = Kappa o1) (excited_states V)).
          E' - Energy s4 + delta V \<noteq> 0) \<and>
       (\<forall>s4 \<in> set (filter (\<lambda>s4. PQN s4 \<ge> 5 \<and> Kappa s4 = Kappa o1) (excited_states V)).
          HamiltonianMatrixElement V s4 o1 = HamiltonianMatrixElement V o1 s4) \<longrightarrow>
        GetOneElectronValence V o1 o2 =
          Some (Finite (\<Sum>s4 \<leftarrow> filter (\<lambda>s4. PQN s4 \<ge> 5 \<and> Kappa s4 = Kappa o1) (excited_states V).
                        HamiltonianMatrixElement V o1 s4 * HamiltonianMatrixElement V s4 o2 /
                        (E' - Energy s4 + delta V))))"
proof (intro conjI impI)
  show "GetOneElectronSubtraction C s1 s2 = Some (Finite 0)" if "kappa_info s1 \<noteq> kappa_info s2"
    using that by (simp add: GetOneElectronSubtraction_def)
  show "GetOneElectronValence V o1 o2 = Some (Finite 0)" if "Kappa o1 \<noteq> Kappa o2"
    using that by (simp add: GetOneElectronValence_def)
next
  assume a: "kappa_info s1 = kappa_info s2 \<and> ValenceEnergies C (kappa_info s1) = Some E"
  then have k: "kappa_info s1 = kappa_info s2" and E: "ValenceEnergies C (kappa_info s1) = Some E"
    by blast+
  show "GetOneElectronSubtraction C s1 s2 =
          Some (dsum (map (\<lambda>(salpha, Ealpha).
                        ddiv (Finite (GetMatrixElement C s1 salpha * GetMatrixElement C salpha s2))
                             (E - Ealpha + delta C))
                     (filter (\<lambda>(salpha, Ealpha). InQSpace C salpha \<and> kappa_info salpha = kappa_info s1)
                        (high C))))"
    unfolding GetOneElectronSubtraction_match [OF k] by (rule CalculateOneElectronSub_sum [OF E])
next
  assume a: "kappa_info s1 = kappa_info s2 \<and> ValenceEnergies C (kappa_info s1) = Some E \<and>
       (\<forall>(salpha, Ealpha) \<in>
            set (filter (\<lambda>(salpha, Ealpha). InQSpace C salpha \<and> kappa_info salpha = kappa_info s1)
                   (high C)).
          E - Ealpha + delta C \<noteq> 0)"
  then have k: "kappa_info s1 = kappa_info s2" and E: "ValenceEnergies C (kappa_info s1) = Some E"
    by blast+
  let ?xs = "filter (\<lambda>(salpha, Ealpha). InQSpace C salpha \<and> kappa_info salpha = kappa_info s1) (high C)"
  have nz: "\<forall>x\<in>set ?xs. E - snd x + delta C \<noteq> 0"
    using a by auto
  have "GetOneElectronSubtraction C s1 s2 =
      Some (dsum (map (\<lambda>(salpha, Ealpha).
                        ddiv (Finite (GetMatrixElement C s1 salpha * GetMatrixElement C salpha s2))
                             (E - Ealpha + delta C)) ?xs))"
    unfolding GetOneElectronSubtraction_match [OF k] by (rule CalculateOneElectronSub_sum [OF E])
  also have "\<dots> =
      Some (dsum (map (\<lambda>x. ddiv (Finite (GetMatrixElement C s1 (fst x) * GetMatrixElement C (fst x) s2))
                            (E - snd x + delta C)) ?xs))"
    by (simp only: case_prod_unfold)
  also have "\<dots> = Some (Finite (\<Sum>x\<leftarrow>?xs. GetMatrixElement C s1 (fst x) * GetMatrixElement C (fst x) s2 /
                                  (E - snd x + delta C)))"
    by (simp only: dsum_ddiv_Finite [OF nz])
  finally show "GetOneElectronSubtraction C s1 s2 =
          Some (Finite (\<Sum>(salpha, Ealpha) \<leftarrow> ?xs.
                        GetMatrixElement C s1 salpha * GetMatrixElement C salpha s2 /
                        (E - Ealpha + delta C)))"
    by (simp only: case_prod_unfold)
next
  assume a: "Kappa o1 = Kappa o2 \<and> ValenceEnergies V (Kappa o1) = Some E' \<and>
       (\<forall>s4 \<in> set (filter (\<lambda>s4. PQN s4 \<ge> 5 \<and> Kappa s4 = Kappa o1) (excited_states V)).
          E' - Energy s4 + delta V \<noteq> 0)"
  then have k: "Kappa o1 = Kappa o2" and E: "ValenceEnergies V (Kappa o1) = Some E'"
    by blast+
  let ?xs = "filter (\<lambda>s4. PQN s4 \<ge> 5 \<and> Kappa s4 = Kappa o1) (excited_states V)"
  have nz: "\<forall>x\<in>set ?xs. E' - Energy x + delta V \<noteq> 0"
    using a by auto
  have "GetOneElectronValence V o1 o2 =
      Some (dsum (map (\<lambda>s4. ddiv (Finite (HamiltonianMatrixElement V s4 o1 * HamiltonianMatrixElement V s4 o2))
                            (E' - Energy s4 + delta V)) ?xs))"
    unfolding GetOneElectronValence_match [OF k] by (rule CalculateOneElectronValence1_sum [OF E])
  also have "\<dots> = Some (Finite (\<Sum>s4\<leftarrow>?xs. HamiltonianMatrixElement V s4 o1 * HamiltonianMatrixElement V s4 o2 /
                            (E' - Energy s4 + delta V)))"
    by (simp only: dsum_ddiv_Finite [OF nz])
  finally show "GetOneElectronValence V o1 o2 =
          Some (Finite (\<Sum>s4 \<leftarrow> ?xs.
                        HamiltonianMatrixElement V s4 o1 * HamiltonianMatrixElement V s4 o2 /
                        (E' - Energy s4 + delta V)))" .
next
  assume a: "Kappa o1 = Kappa o2 \<and> ValenceEnergies V (Kappa o1) = Some E' \<and>
       (\<forall>s4 \<in> set (filter (\<lambda>s4. PQN s4 \<ge> 5 \<and> Kappa s4 = Kappa o1) (excited_states V)).
          E' - Energy s4 + delta V \<noteq> 0) \<and>
       (\<forall>s4 \<in> set (filter (\<lambda>s4. PQN s4 \<ge> 5 \<and> Kappa s4 = Kappa o1) (excited_states V)).
          HamiltonianMatrixElement V s4 o1 = HamiltonianMatrixElement V o1 s4)"
  then have k: "Kappa o1 = Kappa o2" and E: "ValenceEnergies V (Kappa o1) = Some E'"
    by blast+
  let ?xs = "filter (\<lambda>s4. PQN s4 \<ge> 5 \<and> Kappa s4 = Kappa o1) (excited_states V)"
  have nz: "\<forall>x\<in>set ?xs. E' - Energy x + delta V \<noteq> 0"
    using a by blast
  have sym: "\<forall>s4\<in>set ?xs. HamiltonianMatrixElement V s4 o1 = HamiltonianMatrixElement V o1 s4"
    using a by blast
  have "GetOneElectronValence V o1 o2 =
      Some (dsum (map (\<lambda>s4. ddiv (Finite (HamiltonianMatrixElement V s4 o1 * HamiltonianMatrixElement V s4 o2))
                            (E' - Energy s4 + delta V)) ?xs))"
    unfolding GetOneElectronValence_match [OF k] by (rule CalculateOneElectronValence1_sum [OF E])
  also have "\<dots> = Some (Finite (\<Sum>s4\<leftarrow>?xs. HamiltonianMatrixElement V s4 o1 * HamiltonianMatrixElement V s4 o2 /
                            (E' - Energy s4 + delta V)))"
    by (simp only: dsum_ddiv_Finite [OF nz])
  also have "\<dots> = Some (Finite (\<Sum>s4\<leftarrow>?xs. HamiltonianMatrixElement V o1 s4 * HamiltonianMatrixElement V s4 o2 /
                            (E' - Energy s4 + delta V)))"
    by (simp only: one_valence_symmetric [OF sym])
  finally show "GetOneElectronValence V o1 o2 =
          Some (Finite (\<Sum>s4 \<leftarrow> ?xs.
                        HamiltonianMatrixElement V o1 s4 * HamiltonianMatrixElement V s4 o2 /
                        (E' - Energy s4 + delta V)))" .
qed

text \<open>
  On the sample system: 4s against 4p is zero; 4s against 4s sums the terms of 5s
  (\<open>-2/73\<close>) and of the degenerate 6s (\<open>0.01 / delta = 1\<close>).
\<close>

theorem one_body_correction_witness:
  "GetOneElectronSubtraction sample_C info_4s info_4p = Some (Finite 0)
   \<and> GetOneElectronSubtraction sample_C info_4s info_4s = Some (Finite (71 / 73))
   \<and> GetOneElectronValence sample_V orb_4s orb_4p = Some (Finite 0)
   \<and> GetOneElectronValence sample_V orb_4s orb_4s = Some (Finite (71 / 73))"
  using one_body_correction [where ?s1.0 = info_4s and ?s2.0 = info_4p and C = sample_C
      and ?o1.0 = orb_4s and ?o2.0 = orb_4p and V = sample_V]
    one_body_correction [where ?s1.0 = info_4s and ?s2.0 = info_4s and C = sample_C
      and ?o1.0 = orb_4s and ?o2.0 = orb_4s and V = sample_V and E = "- 1 / 2" and E' = "- 1 / 2"]
  by (simp add: sample_C_def sample_V_def info_4s_def info_4p_def info_5s_def info_6s_def
      orb_4s_def orb_4p_def orb_5s_def orb_6s_def dsum_def)

text \<open>
  The claim as stated has \<open>matrix_element(s1, alpha)\<close> as the first factor for both
  calculators. With a matrix element that is not symmetric, here a tenth of the principal
  quantum number of its first orbital, ValenceCalculator returns for 4s against 4s the sum of
  \<open>(5/10) * (5/10) / (- 73/200)\<close> and \<open>(6/10) * (6/10) / (1/100)\<close>, and the sum of the claim
  over the same intermediate orbitals 5s and 6s is that of \<open>(4/10) * (5/10) / (- 73/200)\<close> and
  \<open>(4/10) * (6/10) / (1/100)\<close>.
\<close>

theorem one_body_argument_order:
  "GetOneElectronValence sample_V_skew orb_4s orb_4s = Some (Finite (2578 / 73))
   \<and> ValenceEnergies sample_V_skew (Kappa orb_4s) = Some (- 1 / 2)
   \<and> filter (\<lambda>s4. PQN s4 \<ge> 5 \<and> Kappa s4 = Kappa orb_4s) (excited_states sample_V_skew) =
       [orb_5s, orb_6s]
   \<and> HamiltonianMatrixElement sample_V_skew orb_4s orb_5s *
       HamiltonianMatrixElement sample_V_skew orb_5s orb_4s /
       (- 1 / 2 - Energy orb_5s + delta sample_V_skew) +
     HamiltonianMatrixElement sample_V_skew orb_4s orb_6s *
       HamiltonianMatrixElement sample_V_skew orb_6s orb_4s /
       (- 1 / 2 - Energy orb_6s + delta sample_V_skew) = 1712 / 73"
  by (simp add: GetOneElectronValence_def CalculateOneElectronValence1_def one_valence_step_def
      sample_V_skew_def sample_V_def orb_4s_def orb_4p_def orb_5s_def orb_6s_def Let_def)

subsection \<open>Selection rules of the two-body correction\<close>

lemma smod_2_odd: "(n::int) smod 2 \<noteq> 0 \<longleftrightarrow> odd n"
  by (auto simp: signed_modulo_int_def sgn_if odd_iff_mod_2_eq_one abs_if) presburger+

lemma smod_2_parity: "(m::int) smod 2 = n smod 2 \<Longrightarrow> even m = even n"
  using smod_2_odd [of m] smod_2_odd [of n] by auto

text \<open>
  Claim C5. When the 3j-type coefficient of \<open>(TwoJ(a), TwoJ(c), k)\<close> or that of
  \<open>(TwoJ(b), TwoJ(d), k)\<close> is zero, the two-body valence correction returns exactly zero
  and its record of work is empty: no pass through the loops over intermediate orbitals and
  no radial integral. This holds for both calculators and whatever the valence energies hold.
\<close>

theorem two_body_zero_outer_coefficient:
  "(Electron3j (constants C) (TwoJ_info sa) (TwoJ_info sc) (int k) = 0 \<or>
    Electron3j (constants C) (TwoJ_info sb) (TwoJ_info sd) (int k) = 0 \<longrightarrow>
      CalculateTwoElectronValence C k sa sb sc sd = Some \<lparr>energy = Finite 0, trace = []\<rparr>)
   \<and> (Electron3j_m (constants V) (TwoJ_orb oa) (TwoJ_orb oc) k 1 (- 1) = 0 \<or>
       Electron3j_m (constants V) (TwoJ_orb ob) (TwoJ_orb od) k 1 (- 1) = 0 \<longrightarrow>
      map_option energy (CalculateTwoElectronValence1 V n oa ob oc od k) = Some (Finite 0) \<and>
      map_option trace (CalculateTwoElectronValence1 V n oa ob oc od k) = Some [] \<and>
      GetTwoElectronBoxValence V oa ob oc od k = Some (Finite 0))"
  by (auto simp: CalculateTwoElectronValence_def CalculateTwoElectronValence1_def
      GetTwoElectronBoxValence_def Let_def)

text \<open>
  On the sample system, k = 2 between two s orbitals (j = 1/2) violates the triangle rule.
\<close>

theorem two_body_zero_outer_coefficient_witness:
  "CalculateTwoElectronValence sample_C 2 info_4s info_4s info_4s info_4s =
     Some \<lparr>energy = Finite 0, trace = []\<rparr>
   \<and> GetTwoElectronBoxValence sample_V orb_4s orb_4s orb_4s orb_4s 2 = Some (Finite 0)"
  using two_body_zero_outer_coefficient [where C = sample_C and sa = info_4s and sb = info_4s
      and sc = info_4s and sd = info_4s and k = 2 and V = sample_V and oa = orb_4s
      and ob = orb_4s and oc = orb_4s and od = orb_4s and n = 2]
  by (simp add: sample_C_def sample_V_def sample_constants_def info_4s_def orb_4s_def
      TwoJ_info_def TwoJ_orb_def)

text \<open>
  Claim C3. A pair of intermediate orbitals for which neither orbital is in the Q-space, or
  \<open>L(a) + L(alpha)\<close> and \<open>L(b) + L(beta)\<close> differ in parity, or \<open>L(alpha) + L(c)\<close>
  and \<open>L(beta) + L(d)\<close> differ in parity, leaves the energy unchanged and adds nothing to
  the record of work but the mark of its visit: no radial integral is looked up or
  integrated, and the work vectors of ValenceCalculator are untouched.
\<close>

theorem pair_pruned:
  "(\<not> (InQSpace C salpha \<or> InQSpace C sbeta) \<or>
    even (L_info sa + L_info salpha) \<noteq> even (L_info sb + L_info sbeta) \<or>
    even (L_info salpha + L_info sc) \<noteq> even (L_info sbeta + L_info sd) \<longrightarrow>
      pair_step C k sa sb sc sd coeff_ac coeff_bd E (salpha, Ealpha) (sbeta, Ebeta) st =
        st\<lparr>trace := trace st @ [PairVisited salpha sbeta]\<rparr>)
   \<and> (\<not> (PQN s3 \<ge> 5 \<or> PQN s4 \<ge> 5) \<or>
       even (L_orb oa + L_orb s3) \<noteq> even (L_orb ob + L_orb s4) \<or>
       even (L_orb s3 + L_orb oc) \<noteq> even (L_orb s4 + L_orb od) \<longrightarrow>
      pair_step_v V k oa ob oc od coeff_ac coeff_bd E s3 s4 ws =
        ws\<lparr>trace := trace ws @ [PairVisited s3 s4]\<rparr>)"
proof (intro conjI impI)
  assume "\<not> (InQSpace C salpha \<or> InQSpace C sbeta) \<or>
    even (L_info sa + L_info salpha) \<noteq> even (L_info sb + L_info sbeta) \<or>
    even (L_info salpha + L_info sc) \<noteq> even (L_info sbeta + L_info sd)"
  then have "\<not> (InQSpace2 C salpha sbeta \<and>
            (L_info sa + L_info salpha) smod 2 = (L_info sb + L_info sbeta) smod 2 \<and>
            (L_info salpha + L_info sc) smod 2 = (L_info sbeta + L_info sd) smod 2)"
    using smod_2_parity [of "L_info sa + L_info salpha" "L_info sb + L_info sbeta"]
      smod_2_parity [of "L_info salpha + L_info sc" "L_info sbeta + L_info sd"]
    by (auto simp: InQSpace2_def)
  then show "pair_step C k sa sb sc sd coeff_ac coeff_bd E (salpha, Ealpha) (sbeta, Ebeta) st =
        st\<lparr>trace := trace st @ [PairVisited salpha sbeta]\<rparr>"
    unfolding pair_step_def Let_def fst_conv by (rule if_not_P)
next
  assume "\<not> (PQN s3 \<ge> 5 \<or> PQN s4 \<ge> 5) \<or>
       even (L_orb oa + L_orb s3) \<noteq> even (L_orb ob + L_orb s4) \<or>
       even (L_orb s3 + L_orb oc) \<noteq> even (L_orb s4 + L_orb od)"
  then have "\<not> ((PQN s3 \<ge> 5 \<or> PQN s4 \<ge> 5) \<and> coeff_34_init k oa ob oc od s3 s4 \<noteq> 0)"
    by (auto simp: coeff_34_init_def Let_def even_iff_mod_2_eq_zero add.commute)
  then show "pair_step_v V k oa ob oc od coeff_ac coeff_bd E s3 s4 ws =
        ws\<lparr>trace := trace ws @ [PairVisited s3 s4]\<rparr>"
    unfolding pair_step_v_def Let_def by (rule if_not_P)
qed


text \<open>
  On the sample system: the pair (4s, 4p) is outside the Q-space, and the pair (5s, 4p) is
  inside but fails the first parity test.
\<close>

theorem pair_pruned_witness:
  "pair_step sample_C 0 info_4s info_4s info_4s info_4s (1 / 2) (1 / 2) (- 1)
     (info_4s, - 1 / 2) (info_4p, - 1 / 4) \<lparr>energy = Finite 0, trace = []\<rparr> =
     \<lparr>energy = Finite 0, trace = [PairVisited info_4s info_4p]\<rparr>
   \<and> pair_step_v sample_V 0 orb_4s orb_4s orb_4s orb_4s (1 / 2) (1 / 2) (- 1) orb_5s orb_4p
     \<lparr>energy = Finite 0, trace = [], density = [0, 0], pot = [0, 0]\<rparr> =
     \<lparr>energy = Finite 0, trace = [PairVisited orb_5s orb_4p], density = [0, 0], pot = [0, 0]\<rparr>"
  using pair_pruned [where C = sample_C and salpha = info_4s and sbeta = info_4p
      and sa = info_4s and sb = info_4s and sc = info_4s and sd = info_4s and k = 0
      and coeff_ac = "1 / 2" and coeff_bd = "1 / 2" and E = "- 1" and Ealpha = "- 1 / 2"
      and Ebeta = "- 1 / 4" and st = "\<lparr>energy = Finite 0, trace = []\<rparr>"
      and ?s3.0 = orb_5s and ?s4.0 = orb_4p and oa = orb_4s and ob = orb_4s and oc = orb_4s
      and od = orb_4s and V = sample_V
      and ws = "\<lparr>energy = Finite 0, trace = [], density = [0, 0], pot = [0, 0]\<rparr>"]
  by (simp add: sample_C_def sample_V_def info_4s_def info_4p_def orb_4s_def orb_4p_def
      orb_5s_def L_orb_def)



subsection \<open>The loops over the multipoles\<close>

lemma while_k_fold:
  "while_k body k k_max st =
     fold body (map (\<lambda>i. k + 2 * int i) [0..<nat ((k_max - k + 2) div 2)]) st"
proof (induction body k k_max st rule: while_k.induct)
  case (1 body k k_max st)
  show ?case
  proof (cases "k \<le> k_max")
    case False
    then have "nat ((k_max - k + 2) div 2) = 0" by simp
    with False show ?thesis
      by (subst while_k.simps) simp
  next
    case True
    then have n: "nat ((k_max - k + 2) div 2) = Suc (nat ((k_max - (k + 2) + 2) div 2))"
      by (simp add: Suc_nat_eq_nat_zadd1 flip: nat_add_distrib) 
    have m: "map (\<lambda>i. k + 2 * int i) [0..<Suc n] = k # map (\<lambda>i. k + 2 + 2 * int i) [0..<n]" for n
      by (induction n) simp_all
    from True have "while_k body k k_max st = while_k body (k + 2) k_max (body k st)"
      by (subst while_k.simps) simp
    also have "\<dots> = fold body (map (\<lambda>i. k + 2 + 2 * int i) [0..<nat ((k_max - (k + 2) + 2) div 2)]) (body k st)"
      using True by (rule 1)
    finally show ?thesis
      by (simp only: n m fold_Cons comp_apply)
  qed
qed

lemma for_k_fold:
  "for_k body k k_max st = fold body (map (\<lambda>i. k + 2 * i) [0..<(k_max + 2 - k) div 2]) st"
proof (induction body k k_max st rule: for_k.induct)
  case (1 body k k_max st)
  show ?case
  proof (cases "k \<le> k_max")
    case False
    then have "(k_max + 2 - k) div 2 = 0" by simp
    with False show ?thesis
      by (subst for_k.simps) simp
  next
    case True
    then have n: "(k_max + 2 - k) div 2 = Suc ((k_max + 2 - (k + 2)) div 2)"
      by (simp add: Suc_diff_le)
    have m: "map (\<lambda>i. k + 2 * i) [0..<Suc n] = k # map (\<lambda>i. k + 2 + 2 * i) [0..<n]" for n
      by (induction n) simp_all
    from True have "for_k body k k_max st = for_k body (k + 2) k_max (body k st)"
      by (subst for_k.simps) simp
    also have "\<dots> = fold body (map (\<lambda>i. k + 2 + 2 * i) [0..<(k_max + 2 - (k + 2)) div 2]) (body k st)"
      using True by (rule 1)
    finally show ?thesis
      by (simp only: n m fold_Cons comp_apply)
  qed
qed

lemma progression_filter:
  "s < 2 \<Longrightarrow> map (\<lambda>i. s + 2 * i) [0..<(m + 2 - s) div 2] = filter (\<lambda>j. j mod 2 = s) [0..<Suc m]"
proof (induction m)
  case 0
  then have "s = 0 \<or> s = 1" by auto
  then show ?case by auto
next
  case (Suc m)
  let ?n = "(m + 2 - s) div 2"
  have IH: "map (\<lambda>i. s + 2 * i) [0..<?n] = filter (\<lambda>j. j mod 2 = s) [0..<Suc m]"
    using Suc.prems by (rule Suc.IH)
  have flt: "filter (\<lambda>j. j mod 2 = s) [0..<Suc (Suc m)] =
      filter (\<lambda>j. j mod 2 = s) [0..<Suc m] @ (if Suc m mod 2 = s then [Suc m] else [])"
    by (simp only: upt_Suc_append [of 0 "Suc m"] le0 filter_append filter.simps)
  show ?case
  proof (cases "Suc m mod 2 = s")
    case True
    with Suc.prems have e: "(Suc m + 2 - s) div 2 = Suc ?n"
      by presburger
    from True Suc.prems have l: "s + 2 * ?n = Suc m"
      by presburger
    have "map (\<lambda>i. s + 2 * i) [0..<Suc ?n] = map (\<lambda>i. s + 2 * i) [0..<?n] @ [s + 2 * ?n]"
      by simp
    then have "map (\<lambda>i. s + 2 * i) [0..<(Suc m + 2 - s) div 2] =
        filter (\<lambda>j. j mod 2 = s) [0..<Suc m] @ [Suc m]"
      by (simp only: e IH l)
    also have "\<dots> = filter (\<lambda>j. j mod 2 = s) [0..<Suc (Suc m)]"
      using True by (simp add: flt del: upt_Suc)
    finally show ?thesis .
  next
    case False
    with Suc.prems have e: "(Suc m + 2 - s) div 2 = ?n"
      by presburger
    have "map (\<lambda>i. s + 2 * i) [0..<(Suc m + 2 - s) div 2] =
        filter (\<lambda>j. j mod 2 = s) [0..<Suc m]"
      by (simp only: e IH)
    also have "\<dots> = filter (\<lambda>j. j mod 2 = s) [0..<Suc (Suc m)]"
      using False by (simp add: flt del: upt_Suc)
    finally show ?thesis .
  qed
qed

lemma for_k_parity:
  "s < 2 \<Longrightarrow> for_k body s m st = fold body (filter (\<lambda>j. j mod 2 = s) [0..<Suc m]) st"
  by (simp only: for_k_fold progression_filter)

lemma while_k_visits:
  "j \<in> set (map (\<lambda>i. k + 2 * int i) [0..<nat ((k_max - k + 2) div 2)]) \<longleftrightarrow>
   k \<le> j \<and> j \<le> k_max \<and> even (j - k)"
proof
  assume "j \<in> set (map (\<lambda>i. k + 2 * int i) [0..<nat ((k_max - k + 2) div 2)])"
  then obtain i where i: "i < nat ((k_max - k + 2) div 2)" and j: "j = k + 2 * int i"
    by auto
  from i have "2 * int i + 2 \<le> k_max - k + 2" by linarith
  with j show "k \<le> j \<and> j \<le> k_max \<and> even (j - k)" by simp
next
  assume a: "k \<le> j \<and> j \<le> k_max \<and> even (j - k)"
  then have "even (j - k)" by blast
  then obtain d where d: "j - k = 2 * d" by (rule evenE)
  with a have "0 \<le> d" by simp
  moreover from a d have "d < (k_max - k + 2) div 2" by linarith
  ultimately have "nat d < nat ((k_max - k + 2) div 2)" by simp
  moreover from d \<open>0 \<le> d\<close> have "j = k + 2 * int (nat d)" by simp
  ultimately show "j \<in> set (map (\<lambda>i. k + 2 * int i) [0..<nat ((k_max - k + 2) div 2)])"
    by (metis (mono_tags, lifting) atLeastLessThan_iff image_eqI le0 set_map set_upt)
qed

lemma triangle_allowed_visited:
  "triangle_allowed s t j \<Longrightarrow> j \<le> m \<Longrightarrow>
   j \<in> set (filter (\<lambda>j. j mod 2 = (L_orb s + L_orb t) mod 2) [0..<Suc m])"
proof -
  assume t: "triangle_allowed s t j" and m: "j \<le> m"
  from t have "even (L_orb s + L_orb t + j)" by (simp add: triangle_allowed_def)
  then have "j mod 2 = (L_orb s + L_orb t) mod 2" by presburger
  with m show ?thesis by (simp only: set_filter set_upt) auto
qed


lemma kmin_kmax_triangle:
  "kmin a b \<le> j \<and> j \<le> kmax a b \<and> even (j - kmin a b) \<longleftrightarrow> triangle_allowed_info a b j"
proof -
  have d: "\<bar>TwoJ_info a - TwoJ_info b\<bar> = 2 * (\<bar>TwoJ_info a - TwoJ_info b\<bar> div 2)"
    unfolding TwoJ_info_def by presburger
  have s: "TwoJ_info a + TwoJ_info b = 2 * ((TwoJ_info a + TwoJ_info b) div 2)"
    unfolding TwoJ_info_def by presburger
  define m where "m = \<bar>TwoJ_info a - TwoJ_info b\<bar> div 2"
  define n where "n = (TwoJ_info a + TwoJ_info b) div 2"
  define p where "p = L_info a + L_info b"
  have "(if odd (p + m) then m + 1 else m) \<le> j \<and> j \<le> (if odd (p + n) then n - 1 else n) \<and>
        even (j - (if odd (p + m) then m + 1 else m)) \<longleftrightarrow>
        2 * m \<le> 2 * j \<and> 2 * j \<le> 2 * n \<and> even (p + j)"
    by presburger
  then show ?thesis
    unfolding kmin_def kmax_def triangle_allowed_info_def Let_def
    using d s by (simp only: m_def n_def p_def)
qed

lemma while_k_triangle:
  "j \<in> set (map (\<lambda>i. kmin a b + 2 * int i) [0..<nat ((kmax a b - kmin a b + 2) div 2)]) \<longleftrightarrow>
   triangle_allowed_info a b j"
  unfolding while_k_visits by (rule kmin_kmax_triangle)

lemma k1_step_v_uses_R1:
  "Electron3j_m (constants V) (TwoJ_orb sa) (TwoJ_orb s3) k1 1 (- 1) *
   Electron3j_m (constants V) (TwoJ_orb sb) (TwoJ_orb s4) k1 1 (- 1) \<noteq> 0 \<Longrightarrow>
   k1_step_v V k sa sb sc sd s3 s4 coeff_34 k1 st =
     for_k (k2_step_v V k sa sb sc sd s3 s4
              (Electron3j_m (constants V) (TwoJ_orb sa) (TwoJ_orb s3) k1 1 (- 1) *
               Electron3j_m (constants V) (TwoJ_orb sb) (TwoJ_orb s4) k1 1 (- 1))
              coeff_34 (fst (radial_R1 V sa sb s3 s4 k1 st)) k1)
       ((L_orb s3 + L_orb sc) mod 2) MAX_K
       (st\<lparr>trace := trace st @ [RadialIntegral (int k1) sa sb s3 s4],
           density := fst (snd (radial_R1 V sa sb s3 s4 k1 st)),
           pot := snd (snd (radial_R1 V sa sb s3 s4 k1 st))\<rparr>)"
  by (simp add: k1_step_v_def Let_def split: prod.splits)

lemma pair_step_v_loop:
  "(PQN s3 \<ge> 5 \<or> PQN s4 \<ge> 5) \<and> coeff_34_init k sa sb sc sd s3 s4 \<noteq> 0 \<Longrightarrow>
   pair_step_v V k sa sb sc sd coeff_ac coeff_bd E s3 s4 ws =
     fold (k1_step_v V k sa sb sc sd s3 s4
             (coeff_34_of V k sa sb sc sd coeff_ac coeff_bd E s3 s4
                (coeff_34_init k sa sb sc sd s3 s4)))
       (filter (\<lambda>j. j mod 2 = (L_orb sa + L_orb s3) mod 2) [0..<Suc MAX_K])
       (ws\<lparr>trace := trace ws @ [PairVisited s3 s4]\<rparr>)"
proof -
  assume a: "(PQN s3 \<ge> 5 \<or> PQN s4 \<ge> 5) \<and> coeff_34_init k sa sb sc sd s3 s4 \<noteq> 0"
  have "(L_orb sa + L_orb s3) mod 2 < 2" by simp
  then show ?thesis
    unfolding pair_step_v_def Let_def if_P [OF a] by (rule for_k_parity)
qed

lemma k1_step_v_loop:
  "Electron3j_m (constants V) (TwoJ_orb sa) (TwoJ_orb s3) k1 1 (- 1) *
   Electron3j_m (constants V) (TwoJ_orb sb) (TwoJ_orb s4) k1 1 (- 1) \<noteq> 0 \<Longrightarrow>
   k1_step_v V k sa sb sc sd s3 s4 coeff_34 k1 ws =
     fold (k2_step_v V k sa sb sc sd s3 s4
              (Electron3j_m (constants V) (TwoJ_orb sa) (TwoJ_orb s3) k1 1 (- 1) *
               Electron3j_m (constants V) (TwoJ_orb sb) (TwoJ_orb s4) k1 1 (- 1))
              coeff_34 (fst (radial_R1 V sa sb s3 s4 k1 ws)) k1)
       (filter (\<lambda>j. j mod 2 = (L_orb s3 + L_orb sc) mod 2) [0..<Suc MAX_K])
       (ws\<lparr>trace := trace ws @ [RadialIntegral (int k1) sa sb s3 s4],
           density := fst (snd (radial_R1 V sa sb s3 s4 k1 ws)),
           pot := snd (snd (radial_R1 V sa sb s3 s4 k1 ws))\<rparr>)"
proof -
  assume a: "Electron3j_m (constants V) (TwoJ_orb sa) (TwoJ_orb s3) k1 1 (- 1) *
   Electron3j_m (constants V) (TwoJ_orb sb) (TwoJ_orb s4) k1 1 (- 1) \<noteq> 0"
  have "(L_orb s3 + L_orb sc) mod 2 < 2" by simp
  then show ?thesis
    unfolding k1_step_v_uses_R1 [OF a] by (rule for_k_parity)
qed

lemma pair_step_loop:
  "InQSpace2 C salpha sbeta \<and>
   (L_info sa + L_info salpha) smod 2 = (L_info sb + L_info sbeta) smod 2 \<and>
   (L_info salpha + L_info sc) smod 2 = (L_info sbeta + L_info sd) smod 2 \<Longrightarrow>
   pair_step C k sa sb sc sd coeff_ac coeff_bd E (salpha, Ealpha) (sbeta, Ebeta) st =
     fold (k1_step C k sa sb sc sd salpha sbeta
             (coeff_alphabeta_of C k sa sb sc sd coeff_ac coeff_bd E (salpha, Ealpha) (sbeta, Ebeta)))
       (map (\<lambda>i. kmin sa salpha + 2 * int i)
          [0..<nat ((kmax sa salpha - kmin sa salpha + 2) div 2)])
       (st\<lparr>trace := trace st @ [PairVisited salpha sbeta]\<rparr>)"
proof -
  assume a: "InQSpace2 C salpha sbeta \<and>
   (L_info sa + L_info salpha) smod 2 = (L_info sb + L_info sbeta) smod 2 \<and>
   (L_info salpha + L_info sc) smod 2 = (L_info sbeta + L_info sd) smod 2"
  show ?thesis
    unfolding pair_step_def Let_def fst_conv if_P [OF a] by (rule while_k_fold)
qed

lemma k1_step_loop:
  "Electron3j (constants C) (TwoJ_info sa) (TwoJ_info salpha) k1 *
   Electron3j (constants C) (TwoJ_info sb) (TwoJ_info sbeta) k1 \<noteq> 0 \<Longrightarrow>
   k1_step C k sa sb sc sd salpha sbeta coeff_alphabeta k1 st =
     fold (k2_step C k sa sb sc sd salpha sbeta
             (Electron3j (constants C) (TwoJ_info sa) (TwoJ_info salpha) k1 *
              Electron3j (constants C) (TwoJ_info sb) (TwoJ_info sbeta) k1)
             coeff_alphabeta (GetTwoElectronIntegral C k1 sa sb salpha sbeta) k1)
       (map (\<lambda>i. kmin salpha sc + 2 * int i)
          [0..<nat ((kmax salpha sc - kmin salpha sc + 2) div 2)])
       (st\<lparr>trace := trace st @ [RadialIntegral k1 sa sb salpha sbeta]\<rparr>)"
proof -
  assume a: "Electron3j (constants C) (TwoJ_info sa) (TwoJ_info salpha) k1 *
   Electron3j (constants C) (TwoJ_info sb) (TwoJ_info sbeta) k1 \<noteq> 0"
  show ?thesis
    unfolding k1_step_def Let_def if_P [OF a] by (rule while_k_fold)
qed

text \<open>
  Claim C2, as amended. In ValenceCalculator the loop over \<open>k1\<close> visits, in ascending
  order, every number up to \<open>MAX_K = 12\<close> that has the parity of \<open>L(a) + L(3)\<close>, and the
  loop over \<open>k2\<close> every such number with the parity of \<open>L(3) + L(c)\<close>. Hence every
  multipole that the triangle rule allows and that is not above 12 is visited; that is all of
  them when \<open>TwoJ\<close> of the two orbitals add up to 25 at most. In ValenceMBPTCalculator the
  loop over \<open>k1\<close> visits \<open>kmin(a, alpha)\<close>, \<open>kmin(a, alpha) + 2\<close>, ... up to
  \<open>kmax(a, alpha)\<close>, and the loop over \<open>k2\<close> the same between \<open>kmin(alpha, c)\<close> and
  \<open>kmax(alpha, c)\<close>: with the bounds of the base class these are exactly the multipoles
  that the triangle rule allows for the two orbitals, none omitted and none added, with no
  cutoff.
\<close>

theorem multipole_ranges:
  "((PQN s3 \<ge> 5 \<or> PQN s4 \<ge> 5) \<and> coeff_34_init k oa ob oc od s3 s4 \<noteq> 0 \<longrightarrow>
      pair_step_v V k oa ob oc od coeff_ac coeff_bd E s3 s4 ws =
        fold (k1_step_v V k oa ob oc od s3 s4
                (coeff_34_of V k oa ob oc od coeff_ac coeff_bd E s3 s4
                   (coeff_34_init k oa ob oc od s3 s4)))
          (filter (\<lambda>i. i mod 2 = (L_orb oa + L_orb s3) mod 2) [0..<Suc MAX_K])
          (ws\<lparr>trace := trace ws @ [PairVisited s3 s4]\<rparr>))
   \<and> (Electron3j_m (constants V) (TwoJ_orb oa) (TwoJ_orb s3) n1 1 (- 1) *
       Electron3j_m (constants V) (TwoJ_orb ob) (TwoJ_orb s4) n1 1 (- 1) \<noteq> 0 \<longrightarrow>
      k1_step_v V k oa ob oc od s3 s4 coeff_34 n1 ws =
        fold (k2_step_v V k oa ob oc od s3 s4
                (Electron3j_m (constants V) (TwoJ_orb oa) (TwoJ_orb s3) n1 1 (- 1) *
                 Electron3j_m (constants V) (TwoJ_orb ob) (TwoJ_orb s4) n1 1 (- 1))
                coeff_34 (fst (radial_R1 V oa ob s3 s4 n1 ws)) n1)
          (filter (\<lambda>i. i mod 2 = (L_orb s3 + L_orb oc) mod 2) [0..<Suc MAX_K])
          (ws\<lparr>trace := trace ws @ [RadialIntegral (int n1) oa ob s3 s4],
              density := fst (snd (radial_R1 V oa ob s3 s4 n1 ws)),
              pot := snd (snd (radial_R1 V oa ob s3 s4 n1 ws))\<rparr>))
   \<and> (triangle_allowed s t j \<and> j \<le> MAX_K \<longrightarrow>
        j \<in> set (filter (\<lambda>i. i mod 2 = (L_orb s + L_orb t) mod 2) [0..<Suc MAX_K]))
   \<and> (triangle_allowed s t j \<and> TwoJ_orb s + TwoJ_orb t \<le> 2 * MAX_K + 1 \<longrightarrow>
        j \<in> set (filter (\<lambda>i. i mod 2 = (L_orb s + L_orb t) mod 2) [0..<Suc MAX_K]))
   \<and> (InQSpace2 C salpha sbeta \<and>
       (L_info sa + L_info salpha) smod 2 = (L_info sb + L_info sbeta) smod 2 \<and>
       (L_info salpha + L_info sc) smod 2 = (L_info sbeta + L_info sd) smod 2 \<longrightarrow>
      pair_step C k sa sb sc sd coeff_ac coeff_bd E (salpha, Ealpha) (sbeta, Ebeta) st =
        fold (k1_step C k sa sb sc sd salpha sbeta
                (coeff_alphabeta_of C k sa sb sc sd coeff_ac coeff_bd E
                   (salpha, Ealpha) (sbeta, Ebeta)))
          (map (\<lambda>i. kmin sa salpha + 2 * int i)
             [0..<nat ((kmax sa salpha - kmin sa salpha + 2) div 2)])
          (st\<lparr>trace := trace st @ [PairVisited salpha sbeta]\<rparr>))
   \<and> (Electron3j (constants C) (TwoJ_info sa) (TwoJ_info salpha) k1 *
       Electron3j (constants C) (TwoJ_info sb) (TwoJ_info sbeta) k1 \<noteq> 0 \<longrightarrow>
      k1_step C k sa sb sc sd salpha sbeta coeff_alphabeta k1 st =
        fold (k2_step C k sa sb sc sd salpha sbeta
                (Electron3j (constants C) (TwoJ_info sa) (TwoJ_info salpha) k1 *
                 Electron3j (constants C) (TwoJ_info sb) (TwoJ_info sbeta) k1)
                coeff_alphabeta (GetTwoElectronIntegral C k1 sa sb salpha sbeta) k1)
          (map (\<lambda>i. kmin salpha sc + 2 * int i)
             [0..<nat ((kmax salpha sc - kmin salpha sc + 2) div 2)])
          (st\<lparr>trace := trace st @ [RadialIntegral k1 sa sb salpha sbeta]\<rparr>))
   \<and> (m \<in> set (map (\<lambda>i. kmin p q + 2 * int i) [0..<nat ((kmax p q - kmin p q + 2) div 2)]) \<longleftrightarrow>
        triangle_allowed_info p q m)"
proof (intro conjI impI)
  show "pair_step_v V k oa ob oc od coeff_ac coeff_bd E s3 s4 ws =
        fold (k1_step_v V k oa ob oc od s3 s4
                (coeff_34_of V k oa ob oc od coeff_ac coeff_bd E s3 s4
                   (coeff_34_init k oa ob oc od s3 s4)))
          (filter (\<lambda>i. i mod 2 = (L_orb oa + L_orb s3) mod 2) [0..<Suc MAX_K])
          (ws\<lparr>trace := trace ws @ [PairVisited s3 s4]\<rparr>)"
    if "(PQN s3 \<ge> 5 \<or> PQN s4 \<ge> 5) \<and> coeff_34_init k oa ob oc od s3 s4 \<noteq> 0"
    using that by (rule pair_step_v_loop)
  show "k1_step_v V k oa ob oc od s3 s4 coeff_34 n1 ws =
        fold (k2_step_v V k oa ob oc od s3 s4
                (Electron3j_m (constants V) (TwoJ_orb oa) (TwoJ_orb s3) n1 1 (- 1) *
                 Electron3j_m (constants V) (TwoJ_orb ob) (TwoJ_orb s4) n1 1 (- 1))
                coeff_34 (fst (radial_R1 V oa ob s3 s4 n1 ws)) n1)
          (filter (\<lambda>i. i mod 2 = (L_orb s3 + L_orb oc) mod 2) [0..<Suc MAX_K])
          (ws\<lparr>trace := trace ws @ [RadialIntegral (int n1) oa ob s3 s4],
              density := fst (snd (radial_R1 V oa ob s3 s4 n1 ws)),
              pot := snd (snd (radial_R1 V oa ob s3 s4 n1 ws))\<rparr>)"
    if "Electron3j_m (constants V) (TwoJ_orb oa) (TwoJ_orb s3) n1 1 (- 1) *
        Electron3j_m (constants V) (TwoJ_orb ob) (TwoJ_orb s4) n1 1 (- 1) \<noteq> 0"
    using that by (rule k1_step_v_loop)
  show "j \<in> set (filter (\<lambda>i. i mod 2 = (L_orb s + L_orb t) mod 2) [0..<Suc MAX_K])"
    if "triangle_allowed s t j \<and> j \<le> MAX_K"
    using that by (simp only: triangle_allowed_visited)
  show "j \<in> set (filter (\<lambda>i. i mod 2 = (L_orb s + L_orb t) mod 2) [0..<Suc MAX_K])"
    if a: "triangle_allowed s t j \<and> TwoJ_orb s + TwoJ_orb t \<le> 2 * MAX_K + 1"
  proof -
    from a have "2 * j \<le> TwoJ_orb s + TwoJ_orb t"
      by (simp add: triangle_allowed_def)
    with a have "j \<le> MAX_K" by linarith
    with a show ?thesis by (simp only: triangle_allowed_visited)
  qed
  show "pair_step C k sa sb sc sd coeff_ac coeff_bd E (salpha, Ealpha) (sbeta, Ebeta) st =
        fold (k1_step C k sa sb sc sd salpha sbeta
                (coeff_alphabeta_of C k sa sb sc sd coeff_ac coeff_bd E
                   (salpha, Ealpha) (sbeta, Ebeta)))
          (map (\<lambda>i. kmin sa salpha + 2 * int i)
             [0..<nat ((kmax sa salpha - kmin sa salpha + 2) div 2)])
          (st\<lparr>trace := trace st @ [PairVisited salpha sbeta]\<rparr>)"
    if "InQSpace2 C salpha sbeta \<and>
       (L_info sa + L_info salpha) smod 2 = (L_info sb + L_info sbeta) smod 2 \<and>
       (L_info salpha + L_info sc) smod 2 = (L_info sbeta + L_info sd) smod 2"
    using that by (rule pair_step_loop)
  show "k1_step C k sa sb sc sd salpha sbeta coeff_alphabeta k1 st =
        fold (k2_step C k sa sb sc sd salpha sbeta
                (Electron3j (constants C) (TwoJ_info sa) (TwoJ_info salpha) k1 *
                 Electron3j (constants C) (TwoJ_info sb) (TwoJ_info sbeta) k1)
                coeff_alphabeta (GetTwoElectronIntegral C k1 sa sb salpha sbeta) k1)
          (map (\<lambda>i. kmin salpha sc + 2 * int i)
             [0..<nat ((kmax salpha sc - kmin salpha sc + 2) div 2)])
          (st\<lparr>trace := trace st @ [RadialIntegral k1 sa sb salpha sbeta]\<rparr>)"
    if "Electron3j (constants C) (TwoJ_info sa) (TwoJ_info salpha) k1 *
        Electron3j (constants C) (TwoJ_info sb) (TwoJ_info sbeta) k1 \<noteq> 0"
    using that by (rule k1_step_loop)
  show "m \<in> set (map (\<lambda>i. kmin p q + 2 * int i) [0..<nat ((kmax p q - kmin p q + 2) div 2)]) \<longleftrightarrow>
        triangle_allowed_info p q m"
    by (rule while_k_triangle)
qed

text \<open>
  On the sample system, for the intermediate pair (5s, 5s) between 4s orbitals; between 4s
  and 4p (both j = 1/2, \<open>L\<close> sum odd) the loop of ValenceMBPTCalculator visits the one
  allowed multipole 1.
\<close>

theorem multipole_ranges_witness:
  "pair_step_v sample_V 0 orb_4s orb_4s orb_4s orb_4s (1 / 2) (1 / 2) (- 1) orb_5s orb_5s
     \<lparr>energy = Finite 0, trace = [], density = [0, 0], pot = [0, 0]\<rparr> =
   fold (k1_step_v sample_V 0 orb_4s orb_4s orb_4s orb_4s orb_5s orb_5s
           (coeff_34_of sample_V 0 orb_4s orb_4s orb_4s orb_4s (1 / 2) (1 / 2) (- 1) orb_5s orb_5s
              (coeff_34_init 0 orb_4s orb_4s orb_4s orb_4s orb_5s orb_5s)))
     (filter (\<lambda>i. i mod 2 = (L_orb orb_4s + L_orb orb_5s) mod 2) [0..<Suc MAX_K])
     (\<lparr>energy = Finite 0, trace = [], density = [0, 0], pot = [0, 0]\<rparr>
        \<lparr>trace := trace \<lparr>energy = Finite 0, trace = [], density = [0, 0], pot = [0, 0]\<rparr> @
                    [PairVisited orb_5s orb_5s]\<rparr>)
   \<and> 0 \<in> set (filter (\<lambda>i. i mod 2 = (L_orb orb_4s + L_orb orb_5s) mod 2) [0..<Suc MAX_K])
   \<and> pair_step sample_C 0 info_4s info_4s info_4s info_4s (1 / 2) (1 / 2) (- 1)
        (info_5s, - 1 / 8) (info_5s, - 1 / 8) \<lparr>energy = Finite 0, trace = []\<rparr> =
      fold (k1_step sample_C 0 info_4s info_4s info_4s info_4s info_5s info_5s
              (coeff_alphabeta_of sample_C 0 info_4s info_4s info_4s info_4s (1 / 2) (1 / 2) (- 1)
                 (info_5s, - 1 / 8) (info_5s, - 1 / 8)))
        (map (\<lambda>i. kmin info_4s info_5s + 2 * int i)
           [0..<nat ((kmax info_4s info_5s - kmin info_4s info_5s + 2) div 2)])
        (\<lparr>energy = Finite 0, trace = []\<rparr>
           \<lparr>trace := trace \<lparr>energy = Finite 0, trace = []\<rparr> @ [PairVisited info_5s info_5s]\<rparr>)
   \<and> 1 \<in> set (map (\<lambda>i. kmin info_4s info_4p + 2 * int i)
                 [0..<nat ((kmax info_4s info_4p - kmin info_4s info_4p + 2) div 2)])"
proof -
  have h1: "(PQN orb_5s \<ge> 5 \<or> PQN orb_5s \<ge> 5) \<and>
      coeff_34_init 0 orb_4s orb_4s orb_4s orb_4s orb_5s orb_5s \<noteq> 0"
    by (simp add: orb_5s_def orb_4s_def coeff_34_init_def L_orb_def TwoJ_orb_def)
  have h2: "triangle_allowed orb_4s orb_5s 0 \<and> 0 \<le> MAX_K"
    by (simp add: orb_5s_def orb_4s_def triangle_allowed_def L_orb_def TwoJ_orb_def)
  have h3: "InQSpace2 sample_C info_5s info_5s \<and>
       (L_info info_4s + L_info info_5s) smod 2 = (L_info info_4s + L_info info_5s) smod 2 \<and>
       (L_info info_5s + L_info info_4s) smod 2 = (L_info info_5s + L_info info_4s) smod 2"
    by (simp add: InQSpace2_def sample_C_def info_5s_def)
  have h4: "triangle_allowed_info info_4s info_4p 1"
    by (simp add: triangle_allowed_info_def info_4s_def info_4p_def TwoJ_info_def L_info_def)
  note t = multipole_ranges [where V = sample_V and k = 0 and oa = orb_4s and ob = orb_4s
      and oc = orb_4s and od = orb_4s and ?s3.0 = orb_5s and ?s4.0 = orb_5s
      and coeff_ac = "1 / 2" and coeff_bd = "1 / 2" and E = "- 1"
      and ws = "\<lparr>energy = Finite 0, trace = [], density = [0, 0], pot = [0, 0]\<rparr>"
      and s = orb_4s and t = orb_5s and j = 0
      and C = sample_C and sa = info_4s and sb = info_4s and sc = info_4s and sd = info_4s
      and salpha = info_5s and sbeta = info_5s and Ealpha = "- 1 / 8" and Ebeta = "- 1 / 8"
      and st = "\<lparr>energy = Finite 0, trace = []\<rparr>"
      and p = info_4s and q = info_4p and m = 1]
  from t h1 h2 h3 h4 show ?thesis by blast
qed

text \<open>
  The claim as stated has no cutoff below the maximum of the triangle rule. Between the
  orbitals with kappa = 7 and kappa = -9 the multipole 13 is allowed (2 \<le> 13 \<le> 15, and
  7 + 8 + 13 is even), and the loop of ValenceCalculator stops at 11.
\<close>

theorem multipole_cutoff_omits_allowed:
  "triangle_allowed orb_8k orb_9l 13
   \<and> for_k (\<lambda>j visited. visited @ [j]) ((L_orb orb_8k + L_orb orb_9l) mod 2) MAX_K [] =
       [1, 3, 5, 7, 9, 11]"
  by (simp add: triangle_allowed_def orb_8k_def orb_9l_def TwoJ_orb_def L_orb_def MAX_K_def
      for_k.simps)


subsection \<open>The sign of a term\<close>

lemma sdiv_2_even: "even (n::int) \<Longrightarrow> n sdiv 2 = n div 2"
  by (auto simp: signed_divide_int_def sgn_if elim!: evenE)

lemma TwoJ_sum_even:
  "even (TwoJ_info sa + TwoJ_info sb + TwoJ_info sc + TwoJ_info sd + TwoJ_info salpha + TwoJ_info sbeta)"
  by (simp add: TwoJ_info_def)

lemma dneg_dscale: "dneg (dscale c x) = dscale c (- x)"
  by (cases c) simp_all

lemma coeff_alphabeta_finite:
  "coeff_ac * coeff_bd \<noteq> 0 \<Longrightarrow> E - Ealpha - Ebeta + delta C \<noteq> 0 \<Longrightarrow>
   coeff_alphabeta_of C k sa sb sc sd coeff_ac coeff_bd E (salpha, Ealpha) (sbeta, Ebeta) =
     Finite (if odd ((TwoJ_info sa + TwoJ_info sb + TwoJ_info sc + TwoJ_info sd +
                      TwoJ_info salpha + TwoJ_info sbeta) div 2 + int k + 1)
             then - (real ((nat (MaxNumElectrons salpha * MaxNumElectrons sbeta) * (2 * k + 1))
                           mod 2 ^ 32)
                     / (coeff_ac * coeff_bd) / (E - Ealpha - Ebeta + delta C))
             else real ((nat (MaxNumElectrons salpha * MaxNumElectrons sbeta) * (2 * k + 1))
                        mod 2 ^ 32)
                  / (coeff_ac * coeff_bd) / (E - Ealpha - Ebeta + delta C))"
  by (simp add: coeff_alphabeta_of_def Let_def minus_one_to_the_power_def smod_2_odd
      sdiv_2_even [OF TwoJ_sum_even])

lemma k2_step_Finite:
  "coeff_k2 C k sa sb sc sd salpha sbeta k1 k2 \<noteq> 0 \<Longrightarrow>
   k2_step C k sa sb sc sd salpha sbeta coeff_ab (Finite x) R1 k1 k2 st =
     st\<lparr>energy := dadd (energy st)
           (Finite (if odd (k1 + k2)
                    then - (R1 * GetTwoElectronIntegral C k2 salpha sbeta sc sd *
                            (coeff_k2 C k sa sb sc sd salpha sbeta k1 k2 * coeff_ab * x))
                    else R1 * GetTwoElectronIntegral C k2 salpha sbeta sc sd *
                         (coeff_k2 C k sa sb sc sd salpha sbeta k1 k2 * coeff_ab * x))),
        trace := trace st @ [RadialIntegral k2 salpha sbeta sc sd]\<rparr>"
  by (simp add: k2_step_def Let_def smod_2_odd mult_ac)

lemma k2_step_term:
  assumes "coeff_k2 C k sa sb sc sd salpha sbeta k1 k2 \<noteq> 0"
    and "coeff_ac * coeff_bd \<noteq> 0" and "E - Ealpha - Ebeta + delta C \<noteq> 0"
  shows "k2_step C k sa sb sc sd salpha sbeta coeff_ab
           (coeff_alphabeta_of C k sa sb sc sd coeff_ac coeff_bd E (salpha, Ealpha) (sbeta, Ebeta))
           R1 k1 k2 st =
         st\<lparr>energy := dadd (energy st)
               (Finite (let M = R1 * GetTwoElectronIntegral C k2 salpha sbeta sc sd *
                           (coeff_k2 C k sa sb sc sd salpha sbeta k1 k2 * coeff_ab *
                            (real ((nat (MaxNumElectrons salpha * MaxNumElectrons sbeta) *
                                    (2 * k + 1)) mod 2 ^ 32)
                             / (coeff_ac * coeff_bd) / (E - Ealpha - Ebeta + delta C)));
                            X = (if odd ((TwoJ_info sa + TwoJ_info sb + TwoJ_info sc + TwoJ_info sd +
                                          TwoJ_info salpha + TwoJ_info sbeta) div 2 + int k + 1)
                                 then - M else M)
                        in if odd (k1 + k2) then - X else X)),
            trace := trace st @ [RadialIntegral k2 salpha sbeta sc sd]\<rparr>"
proof -
  let ?y = "real ((nat (MaxNumElectrons salpha * MaxNumElectrons sbeta) * (2 * k + 1)) mod 2 ^ 32)
            / (coeff_ac * coeff_bd) / (E - Ealpha - Ebeta + delta C)"
  let ?oddJ = "odd ((TwoJ_info sa + TwoJ_info sb + TwoJ_info sc + TwoJ_info sd +
                     TwoJ_info salpha + TwoJ_info sbeta) div 2 + int k + 1)"
  have c: "coeff_alphabeta_of C k sa sb sc sd coeff_ac coeff_bd E (salpha, Ealpha) (sbeta, Ebeta) =
      Finite (if ?oddJ then - ?y else ?y)"
    using assms(2,3) by (rule coeff_alphabeta_finite)
  show ?thesis
    unfolding c k2_step_Finite [OF assms(1)] Let_def
    by (cases ?oddJ; cases "odd (k1 + k2)") simp_all
qed

lemma nat_mod_2_odd: "((n::nat) mod 2 \<noteq> 0) = odd n"
  by presburger

lemma coeff_34_finite:
  "coeff_ac * coeff_bd \<noteq> 0 \<Longrightarrow> E - Energy s3 - Energy s4 + delta V \<noteq> 0 \<Longrightarrow>
   coeff_34_of V k sa sb sc sd coeff_ac coeff_bd E s3 s4 c0 =
     Finite (if odd ((TwoJ_orb sa + TwoJ_orb sb + TwoJ_orb sc + TwoJ_orb sd +
                      TwoJ_orb s3 + TwoJ_orb s4) div 2 + k + 1)
             then - (c0 / (coeff_ac * coeff_bd) / (E - Energy s3 - Energy s4 + delta V))
             else c0 / (coeff_ac * coeff_bd) / (E - Energy s3 - Energy s4 + delta V))"
  unfolding coeff_34_of_def Let_def nat_mod_2_odd
  by (cases "odd ((TwoJ_orb sa + TwoJ_orb sb + TwoJ_orb sc + TwoJ_orb sd +
                   TwoJ_orb s3 + TwoJ_orb s4) div 2 + k + 1)") simp_all

lemma k2_step_v_Finite:
  "coeff_k2_v V k sa sb sc sd s3 s4 k1 k2 \<noteq> 0 \<Longrightarrow>
   k2_step_v V k sa sb sc sd s3 s4 coeff_ab (Finite x) R1 k1 k2 st =
     st\<lparr>energy := dadd (energy st)
           (Finite (if odd (k1 + k2)
                    then - (R1 * fst (radial_R2 V s3 s4 sc sd k2 st) *
                            (coeff_k2_v V k sa sb sc sd s3 s4 k1 k2 * coeff_ab * x))
                    else R1 * fst (radial_R2 V s3 s4 sc sd k2 st) *
                         (coeff_k2_v V k sa sb sc sd s3 s4 k1 k2 * coeff_ab * x))),
        trace := trace st @ [RadialIntegral (int k2) s3 s4 sc sd],
        density := fst (snd (radial_R2 V s3 s4 sc sd k2 st)),
        pot := snd (snd (radial_R2 V s3 s4 sc sd k2 st))\<rparr>"
  unfolding k2_step_v_def Let_def nat_mod_2_odd
  by (cases "odd (k1 + k2)"; cases "radial_R2 V s3 s4 sc sd k2 st") (simp_all add: mult_ac)

lemma k2_step_v_term:
  assumes "coeff_k2_v V k sa sb sc sd s3 s4 k1 k2 \<noteq> 0"
    and "coeff_ac * coeff_bd \<noteq> 0" and "E - Energy s3 - Energy s4 + delta V \<noteq> 0"
  shows "k2_step_v V k sa sb sc sd s3 s4 coeff_ab
           (coeff_34_of V k sa sb sc sd coeff_ac coeff_bd E s3 s4 c0) R1 k1 k2 st =
         st\<lparr>energy := dadd (energy st)
               (Finite (let M = R1 * fst (radial_R2 V s3 s4 sc sd k2 st) *
                           (coeff_k2_v V k sa sb sc sd s3 s4 k1 k2 * coeff_ab *
                            (c0 / (coeff_ac * coeff_bd) / (E - Energy s3 - Energy s4 + delta V)));
                            X = (if odd ((TwoJ_orb sa + TwoJ_orb sb + TwoJ_orb sc + TwoJ_orb sd +
                                          TwoJ_orb s3 + TwoJ_orb s4) div 2 + k + 1)
                                 then - M else M)
                        in if odd (k1 + k2) then - X else X)),
            trace := trace st @ [RadialIntegral (int k2) s3 s4 sc sd],
            density := fst (snd (radial_R2 V s3 s4 sc sd k2 st)),
            pot := snd (snd (radial_R2 V s3 s4 sc sd k2 st))\<rparr>"
proof -
  let ?y = "c0 / (coeff_ac * coeff_bd) / (E - Energy s3 - Energy s4 + delta V)"
  let ?oddJ = "odd ((TwoJ_orb sa + TwoJ_orb sb + TwoJ_orb sc + TwoJ_orb sd +
                     TwoJ_orb s3 + TwoJ_orb s4) div 2 + k + 1)"
  have c: "coeff_34_of V k sa sb sc sd coeff_ac coeff_bd E s3 s4 c0 =
      Finite (if ?oddJ then - ?y else ?y)"
    using assms(2,3) by (rule coeff_34_finite)
  show ?thesis
    unfolding c k2_step_v_Finite [OF assms(1)] Let_def
    by (cases ?oddJ; cases "odd (k1 + k2)") simp_all
qed


text \<open>
  Claim C1. For a term that survives (its angular coefficient is not zero) and whose two
  divisors are not zero, the amount added to the energy is the product \<open>M\<close> of the two
  radial integrals, the angular coefficient, \<open>coeff_ab\<close> and the weight of the pair,
  negated exactly when \<open>(TwoJ(a) + TwoJ(b) + TwoJ(c) + TwoJ(d) + TwoJ(alpha) + TwoJ(beta)) / 2
  + k + 1\<close> is odd, and negated once more exactly when \<open>k1 + k2\<close> is odd. Nothing else
  changes the sign; the record of work gains the second radial integral. Both calculators.
\<close>

theorem term_sign:
  "(coeff_k2 C k sa sb sc sd salpha sbeta k1 k2 \<noteq> 0 \<and> coeff_ac * coeff_bd \<noteq> 0 \<and>
    E - Ealpha - Ebeta + delta C \<noteq> 0 \<longrightarrow>
      k2_step C k sa sb sc sd salpha sbeta coeff_ab
        (coeff_alphabeta_of C k sa sb sc sd coeff_ac coeff_bd E (salpha, Ealpha) (sbeta, Ebeta))
        R1 k1 k2 st =
      st\<lparr>energy := dadd (energy st)
            (Finite (let M = R1 * GetTwoElectronIntegral C k2 salpha sbeta sc sd *
                        (coeff_k2 C k sa sb sc sd salpha sbeta k1 k2 * coeff_ab *
                         (real ((nat (MaxNumElectrons salpha * MaxNumElectrons sbeta) *
                                 (2 * k + 1)) mod 2 ^ 32)
                          / (coeff_ac * coeff_bd) / (E - Ealpha - Ebeta + delta C)));
                         X = (if odd ((TwoJ_info sa + TwoJ_info sb + TwoJ_info sc + TwoJ_info sd +
                                       TwoJ_info salpha + TwoJ_info sbeta) div 2 + int k + 1)
                              then - M else M)
                     in if odd (k1 + k2) then - X else X)),
         trace := trace st @ [RadialIntegral k2 salpha sbeta sc sd]\<rparr>)
   \<and> (coeff_k2_v V k oa ob oc od s3 s4 n1 n2 \<noteq> 0 \<and> coeff_ac * coeff_bd \<noteq> 0 \<and>
       E - Energy s3 - Energy s4 + delta V \<noteq> 0 \<longrightarrow>
      k2_step_v V k oa ob oc od s3 s4 coeff_ab
        (coeff_34_of V k oa ob oc od coeff_ac coeff_bd E s3 s4 c0) R1 n1 n2 ws =
      ws\<lparr>energy := dadd (energy ws)
            (Finite (let M = R1 * fst (radial_R2 V s3 s4 oc od n2 ws) *
                        (coeff_k2_v V k oa ob oc od s3 s4 n1 n2 * coeff_ab *
                         (c0 / (coeff_ac * coeff_bd) / (E - Energy s3 - Energy s4 + delta V)));
                         X = (if odd ((TwoJ_orb oa + TwoJ_orb ob + TwoJ_orb oc + TwoJ_orb od +
                                       TwoJ_orb s3 + TwoJ_orb s4) div 2 + k + 1)
                              then - M else M)
                     in if odd (n1 + n2) then - X else X)),
         trace := trace ws @ [RadialIntegral (int n2) s3 s4 oc od],
         density := fst (snd (radial_R2 V s3 s4 oc od n2 ws)),
         pot := snd (snd (radial_R2 V s3 s4 oc od n2 ws))\<rparr>)"
proof (intro conjI impI)
  assume "coeff_k2 C k sa sb sc sd salpha sbeta k1 k2 \<noteq> 0 \<and> coeff_ac * coeff_bd \<noteq> 0 \<and>
    E - Ealpha - Ebeta + delta C \<noteq> 0"
  then have "coeff_k2 C k sa sb sc sd salpha sbeta k1 k2 \<noteq> 0" and "coeff_ac * coeff_bd \<noteq> 0"
    and "E - Ealpha - Ebeta + delta C \<noteq> 0"
    by blast+
  then show "k2_step C k sa sb sc sd salpha sbeta coeff_ab
        (coeff_alphabeta_of C k sa sb sc sd coeff_ac coeff_bd E (salpha, Ealpha) (sbeta, Ebeta))
        R1 k1 k2 st =
      st\<lparr>energy := dadd (energy st)
            (Finite (let M = R1 * GetTwoElectronIntegral C k2 salpha sbeta sc sd *
                        (coeff_k2 C k sa sb sc sd salpha sbeta k1 k2 * coeff_ab *
                         (real ((nat (MaxNumElectrons salpha * MaxNumElectrons sbeta) *
                                 (2 * k + 1)) mod 2 ^ 32)
                          / (coeff_ac * coeff_bd) / (E - Ealpha - Ebeta + delta C)));
                         X = (if odd ((TwoJ_info sa + TwoJ_info sb + TwoJ_info sc + TwoJ_info sd +
                                       TwoJ_info salpha + TwoJ_info sbeta) div 2 + int k + 1)
                              then - M else M)
                     in if odd (k1 + k2) then - X else X)),
         trace := trace st @ [RadialIntegral k2 salpha sbeta sc sd]\<rparr>"
    by (rule k2_step_term)
next
  assume "coeff_k2_v V k oa ob oc od s3 s4 n1 n2 \<noteq> 0 \<and> coeff_ac * coeff_bd \<noteq> 0 \<and>
       E - Energy s3 - Energy s4 + delta V \<noteq> 0"
  then have "coeff_k2_v V k oa ob oc od s3 s4 n1 n2 \<noteq> 0" and "coeff_ac * coeff_bd \<noteq> 0"
    and "E - Energy s3 - Energy s4 + delta V \<noteq> 0"
    by blast+
  then show "k2_step_v V k oa ob oc od s3 s4 coeff_ab
        (coeff_34_of V k oa ob oc od coeff_ac coeff_bd E s3 s4 c0) R1 n1 n2 ws =
      ws\<lparr>energy := dadd (energy ws)
            (Finite (let M = R1 * fst (radial_R2 V s3 s4 oc od n2 ws) *
                        (coeff_k2_v V k oa ob oc od s3 s4 n1 n2 * coeff_ab *
                         (c0 / (coeff_ac * coeff_bd) / (E - Energy s3 - Energy s4 + delta V)));
                         X = (if odd ((TwoJ_orb oa + TwoJ_orb ob + TwoJ_orb oc + TwoJ_orb od +
                                       TwoJ_orb s3 + TwoJ_orb s4) div 2 + k + 1)
                              then - M else M)
                     in if odd (n1 + n2) then - X else X)),
         trace := trace ws @ [RadialIntegral (int n2) s3 s4 oc od],
         density := fst (snd (radial_R2 V s3 s4 oc od n2 ws)),
         pot := snd (snd (radial_R2 V s3 s4 oc od n2 ws))\<rparr>"
    by (rule k2_step_v_term)
qed

text \<open>
  On the sample system, for the intermediate pair (5s, 5s) between 4s orbitals with k = 0,
  k1 = 0 and k2 = 1: the exponent is 3 + 0 + 1, even, and k1 + k2 is odd, so the term is
  negated once.
\<close>

theorem term_sign_witness:
  "k2_step sample_C 0 info_4s info_4s info_4s info_4s info_5s info_5s (1 / 4)
     (coeff_alphabeta_of sample_C 0 info_4s info_4s info_4s info_4s (1 / 2) (1 / 2) (- 1)
        (info_5s, - 1 / 8) (info_5s, - 1 / 8))
     (1 / 4) 0 1 \<lparr>energy = Finite 0, trace = []\<rparr> =
   \<lparr>energy = Finite (25 / 2664), trace = [RadialIntegral 1 info_5s info_5s info_4s info_4s]\<rparr>
   \<and> energy (k2_step_v sample_V 0 orb_4s orb_4s orb_4s orb_4s orb_5s orb_5s (1 / 4)
        (coeff_34_of sample_V 0 orb_4s orb_4s orb_4s orb_4s (1 / 2) (1 / 2) (- 1) orb_5s orb_5s 4)
        (1 / 4) 0 1 \<lparr>energy = Finite 0, trace = [], density = [0, 0], pot = [0, 0]\<rparr>) =
      Finite (162499 / 666000)"
  using term_sign [where C = sample_C and k = 0 and sa = info_4s and sb = info_4s
      and sc = info_4s and sd = info_4s and salpha = info_5s and sbeta = info_5s
      and ?k1.0 = 0 and ?k2.0 = 1 and coeff_ac = "1 / 2" and coeff_bd = "1 / 2" and E = "- 1"
      and Ealpha = "- 1 / 8" and Ebeta = "- 1 / 8" and coeff_ab = "1 / 4" and ?R1.0 = "1 / 4"
      and st = "\<lparr>energy = Finite 0, trace = []\<rparr>"
      and V = sample_V and oa = orb_4s and ob = orb_4s and oc = orb_4s and od = orb_4s
      and ?s3.0 = orb_5s and ?s4.0 = orb_5s and ?n1.0 = 0 and ?n2.0 = 1 and ?c0.0 = 4
      and ws = "\<lparr>energy = Finite 0, trace = [], density = [0, 0], pot = [0, 0]\<rparr>"]
  by (simp add: sample_C_def sample_V_def sample_constants_def info_4s_def info_5s_def
      orb_4s_def orb_5s_def coeff_k2_def coeff_k2_v_def TwoJ_info_def TwoJ_orb_def
      MaxNumElectrons_def J_info_def J_orb_def radial_R2_def fill_density_def contract_def
      size_sf_def Let_def)



subsection \<open>The isotope shift term\<close>

lemma radial_R1_isotope:
  "fst (radial_R1 V sa sb s3 s4 k1 st) =
     contract (FastCoulombIntegrate V (fill_density sb s4 (density st)) (pot st) k1
                 (min (size_sf sb) (size_sf s4))) (dR V) sa s3
     - (if NuclearInverseMass V \<noteq> 0 \<and> k1 = 1
        then NuclearInverseMass V * IsotopeShiftIntegral V s3 sa * IsotopeShiftIntegral V s4 sb
        else 0)"
  by (simp add: radial_R1_def Let_def)

lemma radial_R2_isotope:
  "fst (radial_R2 V s3 s4 sc sd k2 st) =
     contract (FastCoulombIntegrate V (fill_density s4 sd (density st)) (pot st) k2
                 (min (size_sf s4) (size_sf sd))) (dR V) s3 sc
     - (if NuclearInverseMass V \<noteq> 0 \<and> k2 = 1
        then NuclearInverseMass V * IsotopeShiftIntegral V s3 sc * IsotopeShiftIntegral V s4 sd
        else 0)"
  by (simp add: radial_R2_def Let_def)

lemma sms_guard: "(if s \<noteq> 0 then r - s * x else r) = r - s * (x::real)"
  by simp

lemma sms_guard_plus: "(if s \<noteq> 0 then r + s * x else r) = r + s * (x::real)"
  by simp

lemma if_times: "(if c then a else 0) * (x::real) = (if c then a * x else 0)"
  by simp

lemma hole_ac_step_isotope:
  "hole_ac_step V pt
     (if NuclearInverseMass V \<noteq> 0 \<and> k = (1::nat)
      then NuclearInverseMass V * IsotopeShiftIntegral V sb sd else 0) sa sc s3 en0 =
   (let en =
         (if PQN s3 \<ge> 5 \<and> Kappa s3 = Kappa sa
          then (case (en0, ValenceEnergies V (Kappa sa)) of
                  (Some e, Some Ea) \<Rightarrow>
                    Some (dadd e (ddiv (Finite
                      ((contract pt (dR V) s3 sc
                        - (if NuclearInverseMass V \<noteq> 0 \<and> k = 1
                           then NuclearInverseMass V * IsotopeShiftIntegral V sb sd *
                                IsotopeShiftIntegral V s3 sc
                           else 0)) * HamiltonianMatrixElement V sa s3))
                      (Ea - Energy s3 + delta V)))
                | _ \<Rightarrow> None)
          else en0)
    in if PQN s3 \<ge> 5 \<and> Kappa s3 = Kappa sc
       then (case (en, ValenceEnergies V (Kappa sc)) of
               (Some e, Some Ec) \<Rightarrow>
                 Some (dadd e (ddiv (Finite
                   ((contract pt (dR V) sa s3
                     + (if NuclearInverseMass V \<noteq> 0 \<and> k = 1
                        then NuclearInverseMass V * IsotopeShiftIntegral V sb sd *
                             IsotopeShiftIntegral V s3 sa
                        else 0)) * HamiltonianMatrixElement V sc s3))
                   (Ec - Energy s3 + delta V)))
             | _ \<Rightarrow> None)
       else en)"
  apply (unfold hole_ac_step_def Let_def)
  apply (unfold sms_guard sms_guard_plus)
  apply (unfold if_times)
  apply (rule refl)
  done

lemma hole_bd_step_isotope:
  "hole_bd_step V pt
     (if NuclearInverseMass V \<noteq> 0 \<and> k = (1::nat)
      then NuclearInverseMass V * IsotopeShiftIntegral V sa sc else 0) sb sd s3 en0 =
   (let en =
         (if PQN s3 \<ge> 5 \<and> Kappa s3 = Kappa sb
          then (case (en0, ValenceEnergies V (Kappa sb)) of
                  (Some e, Some Eb) \<Rightarrow>
                    Some (dadd e (ddiv (Finite
                      ((contract pt (dR V) s3 sd
                        - (if NuclearInverseMass V \<noteq> 0 \<and> k = 1
                           then NuclearInverseMass V * IsotopeShiftIntegral V sa sc *
                                IsotopeShiftIntegral V s3 sd
                           else 0)) * HamiltonianMatrixElement V sb s3))
                      (Eb - Energy s3 + delta V)))
                | _ \<Rightarrow> None)
          else en0)
    in if PQN s3 \<ge> 5 \<and> Kappa s3 = Kappa sd
       then (case (en, ValenceEnergies V (Kappa sd)) of
               (Some e, Some Ed) \<Rightarrow>
                 Some (dadd e (ddiv (Finite
                   ((contract pt (dR V) sb s3
                     + (if NuclearInverseMass V \<noteq> 0 \<and> k = 1
                        then NuclearInverseMass V * IsotopeShiftIntegral V sa sc *
                             IsotopeShiftIntegral V s3 sb
                        else 0)) * HamiltonianMatrixElement V sd s3))
                   (Ed - Energy s3 + delta V)))
             | _ \<Rightarrow> None)
       else en)"
  apply (unfold hole_bd_step_def Let_def)
  apply (unfold sms_guard sms_guard_plus)
  apply (unfold if_times)
  apply (rule refl)
  done



lemma hole_ac_step_terms:
  "ValenceEnergies V (Kappa sa) = Some Ea \<Longrightarrow> ValenceEnergies V (Kappa sc) = Some Ec \<Longrightarrow>
   hole_ac_step V pt
     (if NuclearInverseMass V \<noteq> 0 \<and> k = (1::nat)
      then NuclearInverseMass V * IsotopeShiftIntegral V sb sd else 0) sa sc s3 (Some e) =
   Some (dadd e (dadd
     (if PQN s3 \<ge> 5 \<and> Kappa s3 = Kappa sa
      then ddiv (Finite
             ((contract pt (dR V) s3 sc
               - (if NuclearInverseMass V \<noteq> 0 \<and> k = 1
                  then NuclearInverseMass V * IsotopeShiftIntegral V sb sd *
                       IsotopeShiftIntegral V s3 sc
                  else 0)) * HamiltonianMatrixElement V sa s3))
             (Ea - Energy s3 + delta V)
      else Finite 0)
     (if PQN s3 \<ge> 5 \<and> Kappa s3 = Kappa sc
      then ddiv (Finite
             ((contract pt (dR V) sa s3
               + (if NuclearInverseMass V \<noteq> 0 \<and> k = 1
                  then NuclearInverseMass V * IsotopeShiftIntegral V sb sd *
                       IsotopeShiftIntegral V s3 sa
                  else 0)) * HamiltonianMatrixElement V sc s3))
             (Ec - Energy s3 + delta V)
      else Finite 0)))"
proof -
  assume a: "ValenceEnergies V (Kappa sa) = Some Ea" and c: "ValenceEnergies V (Kappa sc) = Some Ec"
  define gA where "gA \<longleftrightarrow> PQN s3 \<ge> 5 \<and> Kappa s3 = Kappa sa"
  define gC where "gC \<longleftrightarrow> PQN s3 \<ge> 5 \<and> Kappa s3 = Kappa sc"
  show ?thesis
    unfolding hole_ac_step_isotope Let_def a c gA_def [symmetric] gC_def [symmetric]
    by (cases gA; cases gC; simp add: dadd_assoc dadd_zero)
qed

lemma hole_bd_step_terms:
  "ValenceEnergies V (Kappa sb) = Some Eb \<Longrightarrow> ValenceEnergies V (Kappa sd) = Some Ed \<Longrightarrow>
   hole_bd_step V pt
     (if NuclearInverseMass V \<noteq> 0 \<and> k = (1::nat)
      then NuclearInverseMass V * IsotopeShiftIntegral V sa sc else 0) sb sd s3 (Some e) =
   Some (dadd e (dadd
     (if PQN s3 \<ge> 5 \<and> Kappa s3 = Kappa sb
      then ddiv (Finite
             ((contract pt (dR V) s3 sd
               - (if NuclearInverseMass V \<noteq> 0 \<and> k = 1
                  then NuclearInverseMass V * IsotopeShiftIntegral V sa sc *
                       IsotopeShiftIntegral V s3 sd
                  else 0)) * HamiltonianMatrixElement V sb s3))
             (Eb - Energy s3 + delta V)
      else Finite 0)
     (if PQN s3 \<ge> 5 \<and> Kappa s3 = Kappa sd
      then ddiv (Finite
             ((contract pt (dR V) sb s3
               + (if NuclearInverseMass V \<noteq> 0 \<and> k = 1
                  then NuclearInverseMass V * IsotopeShiftIntegral V sa sc *
                       IsotopeShiftIntegral V s3 sb
                  else 0)) * HamiltonianMatrixElement V sd s3))
             (Ed - Energy s3 + delta V)
      else Finite 0)))"
proof -
  assume a: "ValenceEnergies V (Kappa sb) = Some Eb" and c: "ValenceEnergies V (Kappa sd) = Some Ed"
  define gB where "gB \<longleftrightarrow> PQN s3 \<ge> 5 \<and> Kappa s3 = Kappa sb"
  define gD where "gD \<longleftrightarrow> PQN s3 \<ge> 5 \<and> Kappa s3 = Kappa sd"
  show ?thesis
    unfolding hole_bd_step_isotope Let_def a c gB_def [symmetric] gD_def [symmetric]
    by (cases gB; cases gD; simp add: dadd_assoc dadd_zero)
qed

lemma fold_option_dadd:
  "(\<And>x e. f x (Some e) = Some (dadd e (t x))) \<Longrightarrow>
   fold f xs (Some e) = Some (dadd e (dsum (map t xs)))"
  by (induction xs arbitrary: e) (simp_all add: dsum_simps dadd_zero dadd_assoc)


lemma CalculateTwoElectronValence2_terms:
  assumes "ValenceEnergies V (Kappa sa) = Some Ea" and "ValenceEnergies V (Kappa sb) = Some Eb"
    and "ValenceEnergies V (Kappa sc) = Some Ec" and "ValenceEnergies V (Kappa sd) = Some Ed"
  shows "CalculateTwoElectronValence2 V n sa sb sc sd k =
   (let pt1 = FastCoulombIntegrate V (fill_density sb sd (replicate n 0)) (replicate n 0) k
                (min (size_sf sb) (size_sf sd));
        pt2 = FastCoulombIntegrate V (fill_density sa sc (fill_density sb sd (replicate n 0)))
                pt1 k (min (size_sf sa) (size_sf sc))
    in Some (dadd
     (dsum (map (\<lambda>s3. dadd
        (if PQN s3 \<ge> 5 \<and> Kappa s3 = Kappa sa
         then ddiv (Finite
                ((contract pt1 (dR V) s3 sc
                  - (if NuclearInverseMass V \<noteq> 0 \<and> k = 1
                     then NuclearInverseMass V * IsotopeShiftIntegral V sb sd *
                          IsotopeShiftIntegral V s3 sc
                     else 0)) * HamiltonianMatrixElement V sa s3))
                (Ea - Energy s3 + delta V)
         else Finite 0)
        (if PQN s3 \<ge> 5 \<and> Kappa s3 = Kappa sc
         then ddiv (Finite
                ((contract pt1 (dR V) sa s3
                  + (if NuclearInverseMass V \<noteq> 0 \<and> k = 1
                     then NuclearInverseMass V * IsotopeShiftIntegral V sb sd *
                          IsotopeShiftIntegral V s3 sa
                     else 0)) * HamiltonianMatrixElement V sc s3))
                (Ec - Energy s3 + delta V)
         else Finite 0)) (excited_states V)))
     (dsum (map (\<lambda>s3. dadd
        (if PQN s3 \<ge> 5 \<and> Kappa s3 = Kappa sb
         then ddiv (Finite
                ((contract pt2 (dR V) s3 sd
                  - (if NuclearInverseMass V \<noteq> 0 \<and> k = 1
                     then NuclearInverseMass V * IsotopeShiftIntegral V sa sc *
                          IsotopeShiftIntegral V s3 sd
                     else 0)) * HamiltonianMatrixElement V sb s3))
                (Eb - Energy s3 + delta V)
         else Finite 0)
        (if PQN s3 \<ge> 5 \<and> Kappa s3 = Kappa sd
         then ddiv (Finite
                ((contract pt2 (dR V) sb s3
                  + (if NuclearInverseMass V \<noteq> 0 \<and> k = 1
                     then NuclearInverseMass V * IsotopeShiftIntegral V sa sc *
                          IsotopeShiftIntegral V s3 sb
                     else 0)) * HamiltonianMatrixElement V sd s3))
                (Ed - Energy s3 + delta V)
         else Finite 0)) (excited_states V)))))"
  unfolding CalculateTwoElectronValence2_def Let_def
  apply (subst fold_option_dadd [OF hole_ac_step_terms [OF assms(1) assms(3)]])
  apply (subst fold_option_dadd [OF hole_bd_step_terms [OF assms(2) assms(4)]])
  apply (simp only: dadd_zero)
  done

text \<open>
  Claim C10. In ValenceCalculator each radial integral of a term is the contraction of the
  Coulomb potential, less the product of the nuclear inverse mass and the two isotope shift
  integrals of its orbital pairs when the nuclear inverse mass is not zero and the multipole
  (\<open>k1\<close> for \<open>R1\<close>, \<open>k2\<close> for \<open>R2\<close>) is 1, and the contraction itself otherwise. It
  is this value that is passed to the inner loop (\<open>R1\<close>) and multiplied into the term
  (\<open>R2\<close>). In the second part of the correction the condition is on the outer \<open>k\<close> and
  the cross term is taken off for a hole line at the first orbital of a pair and added for a
  hole line at the second: with the four valence energies present,
  \<open>CalculateTwoElectronValence2\<close> returns the sum, over the excited states, of the four
  terms whose radial integrals are the contractions of the two Coulomb potentials, each less
  or plus the product of the nuclear inverse mass and the two isotope shift integrals when
  the nuclear inverse mass is not zero and \<open>k\<close> is 1, and unchanged otherwise.
\<close>

theorem isotope_shift:
  "fst (radial_R1 V oa ob s3 s4 n1 ws) =
     contract (FastCoulombIntegrate V (fill_density ob s4 (density ws)) (pot ws) n1
                 (min (size_sf ob) (size_sf s4))) (dR V) oa s3
     - (if NuclearInverseMass V \<noteq> 0 \<and> n1 = 1
        then NuclearInverseMass V * IsotopeShiftIntegral V s3 oa * IsotopeShiftIntegral V s4 ob
        else 0)
   \<and> fst (radial_R2 V s3 s4 oc od n2 ws) =
     contract (FastCoulombIntegrate V (fill_density s4 od (density ws)) (pot ws) n2
                 (min (size_sf s4) (size_sf od))) (dR V) s3 oc
     - (if NuclearInverseMass V \<noteq> 0 \<and> n2 = 1
        then NuclearInverseMass V * IsotopeShiftIntegral V s3 oc * IsotopeShiftIntegral V s4 od
        else 0)
   \<and> (Electron3j_m (constants V) (TwoJ_orb oa) (TwoJ_orb s3) n1 1 (- 1) *
       Electron3j_m (constants V) (TwoJ_orb ob) (TwoJ_orb s4) n1 1 (- 1) \<noteq> 0 \<longrightarrow>
      k1_step_v V k oa ob oc od s3 s4 coeff_34 n1 ws =
        for_k (k2_step_v V k oa ob oc od s3 s4
                 (Electron3j_m (constants V) (TwoJ_orb oa) (TwoJ_orb s3) n1 1 (- 1) *
                  Electron3j_m (constants V) (TwoJ_orb ob) (TwoJ_orb s4) n1 1 (- 1))
                 coeff_34 (fst (radial_R1 V oa ob s3 s4 n1 ws)) n1)
          ((L_orb s3 + L_orb oc) mod 2) MAX_K
          (ws\<lparr>trace := trace ws @ [RadialIntegral (int n1) oa ob s3 s4],
              density := fst (snd (radial_R1 V oa ob s3 s4 n1 ws)),
              pot := snd (snd (radial_R1 V oa ob s3 s4 n1 ws))\<rparr>))
   \<and> (coeff_k2_v V k oa ob oc od s3 s4 n1 n2 \<noteq> 0 \<longrightarrow>
      energy (k2_step_v V k oa ob oc od s3 s4 coeff_ab (Finite x) R1 n1 n2 ws) =
        dadd (energy ws)
          (Finite (if odd (n1 + n2)
                   then - (R1 * fst (radial_R2 V s3 s4 oc od n2 ws) *
                           (coeff_k2_v V k oa ob oc od s3 s4 n1 n2 * coeff_ab * x))
                   else R1 * fst (radial_R2 V s3 s4 oc od n2 ws) *
                        (coeff_k2_v V k oa ob oc od s3 s4 n1 n2 * coeff_ab * x))))
   \<and> hole_ac_step V pt
        (if NuclearInverseMass V \<noteq> 0 \<and> k = 1
         then NuclearInverseMass V * IsotopeShiftIntegral V ob od else 0) oa oc s3 en0 =
      (let en =
            (if PQN s3 \<ge> 5 \<and> Kappa s3 = Kappa oa
             then (case (en0, ValenceEnergies V (Kappa oa)) of
                     (Some e, Some Ea) \<Rightarrow>
                       Some (dadd e (ddiv (Finite
                         ((contract pt (dR V) s3 oc
                           - (if NuclearInverseMass V \<noteq> 0 \<and> k = 1
                              then NuclearInverseMass V * IsotopeShiftIntegral V ob od *
                                   IsotopeShiftIntegral V s3 oc
                              else 0)) * HamiltonianMatrixElement V oa s3))
                         (Ea - Energy s3 + delta V)))
                   | _ \<Rightarrow> None)
             else en0)
       in if PQN s3 \<ge> 5 \<and> Kappa s3 = Kappa oc
          then (case (en, ValenceEnergies V (Kappa oc)) of
                  (Some e, Some Ec) \<Rightarrow>
                    Some (dadd e (ddiv (Finite
                      ((contract pt (dR V) oa s3
                        + (if NuclearInverseMass V \<noteq> 0 \<and> k = 1
                           then NuclearInverseMass V * IsotopeShiftIntegral V ob od *
                                IsotopeShiftIntegral V s3 oa
                           else 0)) * HamiltonianMatrixElement V oc s3))
                      (Ec - Energy s3 + delta V)))
                | _ \<Rightarrow> None)
          else en)
   \<and> hole_bd_step V pt
        (if NuclearInverseMass V \<noteq> 0 \<and> k = 1
         then NuclearInverseMass V * IsotopeShiftIntegral V oa oc else 0) ob od s3 en0 =
      (let en =
            (if PQN s3 \<ge> 5 \<and> Kappa s3 = Kappa ob
             then (case (en0, ValenceEnergies V (Kappa ob)) of
                     (Some e, Some Eb) \<Rightarrow>
                       Some (dadd e (ddiv (Finite
                         ((contract pt (dR V) s3 od
                           - (if NuclearInverseMass V \<noteq> 0 \<and> k = 1
                              then NuclearInverseMass V * IsotopeShiftIntegral V oa oc *
                                   IsotopeShiftIntegral V s3 od
                              else 0)) * HamiltonianMatrixElement V ob s3))
                         (Eb - Energy s3 + delta V)))
                   | _ \<Rightarrow> None)
             else en0)
       in if PQN s3 \<ge> 5 \<and> Kappa s3 = Kappa od
          then (case (en, ValenceEnergies V (Kappa od)) of
                  (Some e, Some Ed) \<Rightarrow>
                    Some (dadd e (ddiv (Finite
                      ((contract pt (dR V) ob s3
                        + (if NuclearInverseMass V \<noteq> 0 \<and> k = 1
                           then NuclearInverseMass V * IsotopeShiftIntegral V oa oc *
                                IsotopeShiftIntegral V s3 ob
                           else 0)) * HamiltonianMatrixElement V od s3))
                      (Ed - Energy s3 + delta V)))
                | _ \<Rightarrow> None)
          else en)
   \<and> (ValenceEnergies V (Kappa oa) = Some Ea \<and> ValenceEnergies V (Kappa ob) = Some Eb \<and>
       ValenceEnergies V (Kappa oc) = Some Ec \<and> ValenceEnergies V (Kappa od) = Some Ed \<longrightarrow>
      CalculateTwoElectronValence2 V m oa ob oc od k =
   (let pt1 = FastCoulombIntegrate V (fill_density ob od (replicate m 0)) (replicate m 0) k
                (min (size_sf ob) (size_sf od));
        pt2 = FastCoulombIntegrate V (fill_density oa oc (fill_density ob od (replicate m 0)))
                pt1 k (min (size_sf oa) (size_sf oc))
    in Some (dadd
     (dsum (map (\<lambda>s3. dadd
        (if PQN s3 \<ge> 5 \<and> Kappa s3 = Kappa oa
         then ddiv (Finite
                ((contract pt1 (dR V) s3 oc
                  - (if NuclearInverseMass V \<noteq> 0 \<and> k = 1
                     then NuclearInverseMass V * IsotopeShiftIntegral V ob od *
                          IsotopeShiftIntegral V s3 oc
                     else 0)) * HamiltonianMatrixElement V oa s3))
                (Ea - Energy s3 + delta V)
         else Finite 0)
        (if PQN s3 \<ge> 5 \<and> Kappa s3 = Kappa oc
         then ddiv (Finite
                ((contract pt1 (dR V) oa s3
                  + (if NuclearInverseMass V \<noteq> 0 \<and> k = 1
                     then NuclearInverseMass V * IsotopeShiftIntegral V ob od *
                          IsotopeShiftIntegral V s3 oa
                     else 0)) * HamiltonianMatrixElement V oc s3))
                (Ec - Energy s3 + delta V)
         else Finite 0)) (excited_states V)))
     (dsum (map (\<lambda>s3. dadd
        (if PQN s3 \<ge> 5 \<and> Kappa s3 = Kappa ob
         then ddiv (Finite
                ((contract pt2 (dR V) s3 od
                  - (if NuclearInverseMass V \<noteq> 0 \<and> k = 1
                     then NuclearInverseMass V * IsotopeShiftIntegral V oa oc *
                          IsotopeShiftIntegral V s3 od
                     else 0)) * HamiltonianMatrixElement V ob s3))
                (Eb - Energy s3 + delta V)
         else Finite 0)
        (if PQN s3 \<ge> 5 \<and> Kappa s3 = Kappa od
         then ddiv (Finite
                ((contract pt2 (dR V) ob s3
                  + (if NuclearInverseMass V \<noteq> 0 \<and> k = 1
                     then NuclearInverseMass V * IsotopeShiftIntegral V oa oc *
                          IsotopeShiftIntegral V s3 ob
                     else 0)) * HamiltonianMatrixElement V od s3))
                (Ed - Energy s3 + delta V)
         else Finite 0)) (excited_states V))))))"
proof (intro conjI impI)
  show "fst (radial_R1 V oa ob s3 s4 n1 ws) =
     contract (FastCoulombIntegrate V (fill_density ob s4 (density ws)) (pot ws) n1
                 (min (size_sf ob) (size_sf s4))) (dR V) oa s3
     - (if NuclearInverseMass V \<noteq> 0 \<and> n1 = 1
        then NuclearInverseMass V * IsotopeShiftIntegral V s3 oa * IsotopeShiftIntegral V s4 ob
        else 0)"
    by (rule radial_R1_isotope)
  show "fst (radial_R2 V s3 s4 oc od n2 ws) =
     contract (FastCoulombIntegrate V (fill_density s4 od (density ws)) (pot ws) n2
                 (min (size_sf s4) (size_sf od))) (dR V) s3 oc
     - (if NuclearInverseMass V \<noteq> 0 \<and> n2 = 1
        then NuclearInverseMass V * IsotopeShiftIntegral V s3 oc * IsotopeShiftIntegral V s4 od
        else 0)"
    by (rule radial_R2_isotope)
  show "k1_step_v V k oa ob oc od s3 s4 coeff_34 n1 ws =
        for_k (k2_step_v V k oa ob oc od s3 s4
                 (Electron3j_m (constants V) (TwoJ_orb oa) (TwoJ_orb s3) n1 1 (- 1) *
                  Electron3j_m (constants V) (TwoJ_orb ob) (TwoJ_orb s4) n1 1 (- 1))
                 coeff_34 (fst (radial_R1 V oa ob s3 s4 n1 ws)) n1)
          ((L_orb s3 + L_orb oc) mod 2) MAX_K
          (ws\<lparr>trace := trace ws @ [RadialIntegral (int n1) oa ob s3 s4],
              density := fst (snd (radial_R1 V oa ob s3 s4 n1 ws)),
              pot := snd (snd (radial_R1 V oa ob s3 s4 n1 ws))\<rparr>)"
    if "Electron3j_m (constants V) (TwoJ_orb oa) (TwoJ_orb s3) n1 1 (- 1) *
        Electron3j_m (constants V) (TwoJ_orb ob) (TwoJ_orb s4) n1 1 (- 1) \<noteq> 0"
    using that by (rule k1_step_v_uses_R1)
  show "energy (k2_step_v V k oa ob oc od s3 s4 coeff_ab (Finite x) R1 n1 n2 ws) =
        dadd (energy ws)
          (Finite (if odd (n1 + n2)
                   then - (R1 * fst (radial_R2 V s3 s4 oc od n2 ws) *
                           (coeff_k2_v V k oa ob oc od s3 s4 n1 n2 * coeff_ab * x))
                   else R1 * fst (radial_R2 V s3 s4 oc od n2 ws) *
                        (coeff_k2_v V k oa ob oc od s3 s4 n1 n2 * coeff_ab * x)))"
    if "coeff_k2_v V k oa ob oc od s3 s4 n1 n2 \<noteq> 0"
    using that by (simp add: k2_step_v_Finite)
  show "hole_ac_step V pt
        (if NuclearInverseMass V \<noteq> 0 \<and> k = 1
         then NuclearInverseMass V * IsotopeShiftIntegral V ob od else 0) oa oc s3 en0 =
      (let en =
            (if PQN s3 \<ge> 5 \<and> Kappa s3 = Kappa oa
             then (case (en0, ValenceEnergies V (Kappa oa)) of
                     (Some e, Some Ea) \<Rightarrow>
                       Some (dadd e (ddiv (Finite
                         ((contract pt (dR V) s3 oc
                           - (if NuclearInverseMass V \<noteq> 0 \<and> k = 1
                              then NuclearInverseMass V * IsotopeShiftIntegral V ob od *
                                   IsotopeShiftIntegral V s3 oc
                              else 0)) * HamiltonianMatrixElement V oa s3))
                         (Ea - Energy s3 + delta V)))
                   | _ \<Rightarrow> None)
             else en0)
       in if PQN s3 \<ge> 5 \<and> Kappa s3 = Kappa oc
          then (case (en, ValenceEnergies V (Kappa oc)) of
                  (Some e, Some Ec) \<Rightarrow>
                    Some (dadd e (ddiv (Finite
                      ((contract pt (dR V) oa s3
                        + (if NuclearInverseMass V \<noteq> 0 \<and> k = 1
                           then NuclearInverseMass V * IsotopeShiftIntegral V ob od *
                                IsotopeShiftIntegral V s3 oa
                           else 0)) * HamiltonianMatrixElement V oc s3))
                      (Ec - Energy s3 + delta V)))
                | _ \<Rightarrow> None)
          else en)"
    by (rule hole_ac_step_isotope)
  show "hole_bd_step V pt
        (if NuclearInverseMass V \<noteq> 0 \<and> k = 1
         then NuclearInverseMass V * IsotopeShiftIntegral V oa oc else 0) ob od s3 en0 =
      (let en =
            (if PQN s3 \<ge> 5 \<and> Kappa s3 = Kappa ob
             then (case (en0, ValenceEnergies V (Kappa ob)) of
                     (Some e, Some Eb) \<Rightarrow>
                       Some (dadd e (ddiv (Finite
                         ((contract pt (dR V) s3 od
                           - (if NuclearInverseMass V \<noteq> 0 \<and> k = 1
                              then NuclearInverseMass V * IsotopeShiftIntegral V oa oc *
                                   IsotopeShiftIntegral V s3 od
                              else 0)) * HamiltonianMatrixElement V ob s3))
                         (Eb - Energy s3 + delta V)))
                   | _ \<Rightarrow> None)
             else en0)
       in if PQN s3 \<ge> 5 \<and> Kappa s3 = Kappa od
          then (case (en, ValenceEnergies V (Kappa od)) of
                  (Some e, Some Ed) \<Rightarrow>
                    Some (dadd e (ddiv (Finite
                      ((contract pt (dR V) ob s3
                        + (if NuclearInverseMass V \<noteq> 0 \<and> k = 1
                           then NuclearInverseMass V * IsotopeShiftIntegral V oa oc *
                                IsotopeShiftIntegral V s3 ob
                           else 0)) * HamiltonianMatrixElement V od s3))
                      (Ed - Energy s3 + delta V)))
                | _ \<Rightarrow> None)
          else en)"
    by (rule hole_bd_step_isotope)
  show "CalculateTwoElectronValence2 V m oa ob oc od k =
   (let pt1 = FastCoulombIntegrate V (fill_density ob od (replicate m 0)) (replicate m 0) k
                (min (size_sf ob) (size_sf od));
        pt2 = FastCoulombIntegrate V (fill_density oa oc (fill_density ob od (replicate m 0)))
                pt1 k (min (size_sf oa) (size_sf oc))
    in Some (dadd
     (dsum (map (\<lambda>s3. dadd
        (if PQN s3 \<ge> 5 \<and> Kappa s3 = Kappa oa
         then ddiv (Finite
                ((contract pt1 (dR V) s3 oc
                  - (if NuclearInverseMass V \<noteq> 0 \<and> k = 1
                     then NuclearInverseMass V * IsotopeShiftIntegral V ob od *
                          IsotopeShiftIntegral V s3 oc
                     else 0)) * HamiltonianMatrixElement V oa s3))
                (Ea - Energy s3 + delta V)
         else Finite 0)
        (if PQN s3 \<ge> 5 \<and> Kappa s3 = Kappa oc
         then ddiv (Finite
                ((contract pt1 (dR V) oa s3
                  + (if NuclearInverseMass V \<noteq> 0 \<and> k = 1
                     then NuclearInverseMass V * IsotopeShiftIntegral V ob od *
                          IsotopeShiftIntegral V s3 oa
                     else 0)) * HamiltonianMatrixElement V oc s3))
                (Ec - Energy s3 + delta V)
         else Finite 0)) (excited_states V)))
     (dsum (map (\<lambda>s3. dadd
        (if PQN s3 \<ge> 5 \<and> Kappa s3 = Kappa ob
         then ddiv (Finite
                ((contract pt2 (dR V) s3 od
                  - (if NuclearInverseMass V \<noteq> 0 \<and> k = 1
                     then NuclearInverseMass V * IsotopeShiftIntegral V oa oc *
                          IsotopeShiftIntegral V s3 od
                     else 0)) * HamiltonianMatrixElement V ob s3))
                (Eb - Energy s3 + delta V)
         else Finite 0)
        (if PQN s3 \<ge> 5 \<and> Kappa s3 = Kappa od
         then ddiv (Finite
                ((contract pt2 (dR V) ob s3
                  + (if NuclearInverseMass V \<noteq> 0 \<and> k = 1
                     then NuclearInverseMass V * IsotopeShiftIntegral V oa oc *
                          IsotopeShiftIntegral V s3 ob
                     else 0)) * HamiltonianMatrixElement V od s3))
                (Ed - Energy s3 + delta V)
         else Finite 0)) (excited_states V)))))"
    if "ValenceEnergies V (Kappa oa) = Some Ea \<and> ValenceEnergies V (Kappa ob) = Some Eb \<and>
        ValenceEnergies V (Kappa oc) = Some Ec \<and> ValenceEnergies V (Kappa od) = Some Ed"
    using that by (intro CalculateTwoElectronValence2_terms) blast+
qed

text \<open>
  On the sample system the nuclear inverse mass is 1/1000 and every isotope shift integral is
  1/5: with multipole 1 the contraction 13/2 loses 1/25000, with multipole 0 it is kept. The
  second part for 4s, 4s, 4p, 4s differs between \<open>k = 1\<close> and \<open>k = 0\<close> by the two cross
  terms of the intermediate orbitals 5s and 6s.
\<close>

theorem isotope_shift_witness:
  "fst (radial_R2 sample_V orb_5s orb_5s orb_4s orb_4s 1
          \<lparr>energy = Finite 0, trace = [], density = [0, 0], pot = [0, 0]\<rparr>) = 162499 / 25000
   \<and> fst (radial_R2 sample_V orb_5s orb_5s orb_4s orb_4s 0
          \<lparr>energy = Finite 0, trace = [], density = [0, 0], pot = [0, 0]\<rparr>) = 13 / 2
   \<and> energy (k2_step_v sample_V 0 orb_4s orb_4s orb_4s orb_4s orb_5s orb_5s (1 / 4) (Finite 1)
        (1 / 4) 0 1 \<lparr>energy = Finite 0, trace = [], density = [0, 0], pot = [0, 0]\<rparr>) =
      Finite (- (162499 / 14400000))
   \<and> CalculateTwoElectronValence2 sample_V 2 orb_4s orb_4s orb_4p orb_4s 1 =
      Some (Finite (45937429 / 182500))
   \<and> CalculateTwoElectronValence2 sample_V 2 orb_4s orb_4s orb_4p orb_4s 0 =
      Some (Finite (18375 / 73))"
proof -
  note t1 = isotope_shift [where V = sample_V and k = 0 and oa = orb_4s and ob = orb_4s
      and oc = orb_4s and od = orb_4s and ?s3.0 = orb_5s and ?s4.0 = orb_5s and ?n1.0 = 0
      and ?n2.0 = 1 and coeff_ab = "1 / 4" and x = 1 and ?R1.0 = "1 / 4"
      and ws = "\<lparr>energy = Finite 0, trace = [], density = [0, 0], pot = [0, 0]\<rparr>"
      and ?coeff_34.0 = "Finite 1" and pt = "[1, 1]" and ?en0.0 = "Some (Finite 0)"
      and m = 2 and Ea = "- 1 / 2" and Eb = "- 1 / 2" and Ec = "- 1 / 2" and Ed = "- 1 / 2"]
  note t2 = isotope_shift [where V = sample_V and k = 0 and oa = orb_4s and ob = orb_4s
      and oc = orb_4s and od = orb_4s and ?s3.0 = orb_5s and ?s4.0 = orb_5s and ?n1.0 = 0
      and ?n2.0 = 0 and coeff_ab = "1 / 4" and x = 1 and ?R1.0 = "1 / 4"
      and ws = "\<lparr>energy = Finite 0, trace = [], density = [0, 0], pot = [0, 0]\<rparr>"
      and ?coeff_34.0 = "Finite 1" and pt = "[1, 1]" and ?en0.0 = "Some (Finite 0)"
      and m = 2 and Ea = "- 1 / 2" and Eb = "- 1 / 2" and Ec = "- 1 / 2" and Ed = "- 1 / 2"]
  note t3 = isotope_shift [where V = sample_V and k = 1 and oa = orb_4s and ob = orb_4s
      and oc = orb_4p and od = orb_4s and ?s3.0 = orb_5s and ?s4.0 = orb_5s and ?n1.0 = 0
      and ?n2.0 = 0 and coeff_ab = "1 / 4" and x = 1 and ?R1.0 = "1 / 4"
      and ws = "\<lparr>energy = Finite 0, trace = [], density = [0, 0], pot = [0, 0]\<rparr>"
      and ?coeff_34.0 = "Finite 1" and pt = "[1, 1]" and ?en0.0 = "Some (Finite 0)"
      and m = 2 and Ea = "- 1 / 2" and Eb = "- 1 / 2" and Ec = "- 1 / 4" and Ed = "- 1 / 2"]
  note t4 = isotope_shift [where V = sample_V and k = 0 and oa = orb_4s and ob = orb_4s
      and oc = orb_4p and od = orb_4s and ?s3.0 = orb_5s and ?s4.0 = orb_5s and ?n1.0 = 0
      and ?n2.0 = 0 and coeff_ab = "1 / 4" and x = 1 and ?R1.0 = "1 / 4"
      and ws = "\<lparr>energy = Finite 0, trace = [], density = [0, 0], pot = [0, 0]\<rparr>"
      and ?coeff_34.0 = "Finite 1" and pt = "[1, 1]" and ?en0.0 = "Some (Finite 0)"
      and m = 2 and Ea = "- 1 / 2" and Eb = "- 1 / 2" and Ec = "- 1 / 4" and Ed = "- 1 / 2"]
  have a: "fst (radial_R2 sample_V orb_5s orb_5s orb_4s orb_4s 1
          \<lparr>energy = Finite 0, trace = [], density = [0, 0], pot = [0, 0]\<rparr>) = 162499 / 25000
   \<and> fst (radial_R2 sample_V orb_5s orb_5s orb_4s orb_4s 0
          \<lparr>energy = Finite 0, trace = [], density = [0, 0], pot = [0, 0]\<rparr>) = 13 / 2
   \<and> energy (k2_step_v sample_V 0 orb_4s orb_4s orb_4s orb_4s orb_5s orb_5s (1 / 4) (Finite 1)
        (1 / 4) 0 1 \<lparr>energy = Finite 0, trace = [], density = [0, 0], pot = [0, 0]\<rparr>) =
      Finite (- (162499 / 14400000))"
    using t1 [THEN conjunct2, THEN conjunct1] t2 [THEN conjunct2, THEN conjunct1]
      t1 [THEN conjunct2, THEN conjunct2, THEN conjunct2, THEN conjunct1]
    by (simp add: sample_V_def sample_constants_def orb_4s_def orb_5s_def coeff_k2_v_def
        TwoJ_orb_def J_orb_def fill_density_def contract_def size_sf_def Let_def)
  have b: "CalculateTwoElectronValence2 sample_V 2 orb_4s orb_4s orb_4p orb_4s 1 =
      Some (Finite (45937429 / 182500))"
    using t3 [THEN conjunct2, THEN conjunct2, THEN conjunct2, THEN conjunct2, THEN conjunct2,
        THEN conjunct2]
    by (simp add: sample_V_def orb_4s_def orb_4p_def orb_5s_def orb_6s_def fill_density_def
        contract_def size_sf_def dsum_def Let_def numeral_2_eq_2)
  have c: "CalculateTwoElectronValence2 sample_V 2 orb_4s orb_4s orb_4p orb_4s 0 =
      Some (Finite (18375 / 73))"
    using t4 [THEN conjunct2, THEN conjunct2, THEN conjunct2, THEN conjunct2, THEN conjunct2,
        THEN conjunct2]
    by (simp add: sample_V_def orb_4s_def orb_4p_def orb_5s_def orb_6s_def fill_density_def
        contract_def size_sf_def dsum_def Let_def numeral_2_eq_2)
  from a b c show ?thesis by blast
qed


subsection \<open>Energy denominators\<close>

lemma bit_length_0: "bit_length 0 = 0"
  by (simp add: bit_length.simps)

lemma bit_length_double: "0 < n \<Longrightarrow> bit_length (2 * n) = Suc (bit_length n)"
  by (subst bit_length.simps) simp

lemma bit_length_shift: "0 < n \<Longrightarrow> bit_length (n * 2 ^ k) = bit_length n + k"
proof (induction k)
  case 0
  then show ?case by simp
next
  case (Suc k)
  have "n * 2 ^ Suc k = 2 * (n * 2 ^ k)" by simp
  moreover from Suc.prems have "0 < n * 2 ^ k" by simp
  ultimately have "bit_length (n * 2 ^ Suc k) = Suc (bit_length (n * 2 ^ k))"
    by (simp only: bit_length_double)
  with Suc show ?case by simp
qed

lemma round_to_53_exact:
  assumes "bit_length (nat \<bar>m\<bar>) \<le> 53"
  shows "b64_value (round_to_53 (m * 2 ^ k) E) = of_int (m * 2 ^ k) * 2 powr (of_int E)"
proof (cases "bit_length (nat \<bar>m * 2 ^ k\<bar>) \<le> 53")
  case True
  then show ?thesis by (simp add: round_to_53_def b64_value_def)
next
  case False
  then have m0: "m \<noteq> 0" by (auto simp: bit_length_0)
  have n: "nat \<bar>m * 2 ^ k\<bar> = nat \<bar>m\<bar> * 2 ^ k"
    by (simp add: abs_mult nat_mult_distrib nat_power_eq)
  from m0 have "bit_length (nat \<bar>m * 2 ^ k\<bar>) = bit_length (nat \<bar>m\<bar>) + k"
    unfolding n by (intro bit_length_shift) simp
  with assms False have s: "bit_length (nat \<bar>m * 2 ^ k\<bar>) - 53 \<le> k" by arith
  define s where "s = bit_length (nat \<bar>m * 2 ^ k\<bar>) - 53"
  from s have sk: "s \<le> k" by (simp add: s_def)
  then have dv: "(2::int) ^ s dvd m * 2 ^ k"
    by (simp add: le_imp_power_dvd dvd_mult)
  then have r: "(m * 2 ^ k) mod 2 ^ s = 0" by simp
  from dv have q: "(m * 2 ^ k) div 2 ^ s * 2 ^ s = m * 2 ^ k" by simp
  have "round_to_53 (m * 2 ^ k) E = B64 ((m * 2 ^ k) div 2 ^ s) (E + int s)"
    using False by (simp add: round_to_53_def Let_def s_def [symmetric] r)
  then have "b64_value (round_to_53 (m * 2 ^ k) E) =
      of_int ((m * 2 ^ k) div 2 ^ s) * 2 powr (of_int (E + int s))"
    by (simp add: b64_value_def)
  also have "\<dots> = of_int ((m * 2 ^ k) div 2 ^ s) * (2 ^ s * 2 powr (of_int E))"
    by (simp add: powr_add powr_realpow)
  also have "\<dots> = of_int ((m * 2 ^ k) div 2 ^ s * 2 ^ s) * 2 powr (of_int E)"
    by simp
  finally show ?thesis by (simp only: q)
qed


lemma bit_length_mono_shift: "bit_length n \<le> bit_length (n * 2 ^ k)"
  by (cases "n = 0") (simp_all add: bit_length_shift)

lemma powr_shift:
  "E \<le> e \<Longrightarrow> (2::real) powr (of_int e) = 2 ^ nat (e - E) * 2 powr (of_int E)"
proof -
  assume "E \<le> e"
  then have "of_int e = real (nat (e - E)) + (of_int E :: real)" by simp
  then have "(2::real) powr (of_int e) = 2 powr (real (nat (e - E))) * 2 powr (of_int E)"
    by (simp only: powr_add)
  then show ?thesis by (simp only: powr_realpow [of 2] zero_less_numeral)
qed

lemma dyadic_eq:
  assumes "of_int M * 2 powr (of_int E) = (of_int m :: real) * 2 powr (of_int e)" and "E \<le> e"
  shows "M = m * 2 ^ nat (e - E)"
proof -
  have "of_int M * 2 powr (of_int E) = (of_int (m * 2 ^ nat (e - E)) :: real) * 2 powr (of_int E)"
    using assms(1) by (simp add: powr_shift [OF assms(2)])
  then have "(of_int M :: real) = of_int (m * 2 ^ nat (e - E))"
    by simp
  then show ?thesis by (simp only: of_int_eq_iff)
qed

lemma round_to_53_representable:
  assumes "of_int M * 2 powr (of_int E) = (of_int m :: real) * 2 powr (of_int e)"
    and "bit_length (nat \<bar>m\<bar>) \<le> 53"
  shows "b64_value (round_to_53 M E) = of_int M * 2 powr (of_int E)"
proof (cases "E \<le> e")
  case True
  from dyadic_eq [OF assms(1) True] have "M = m * 2 ^ nat (e - E)" .
  then show ?thesis using round_to_53_exact [OF assms(2), of "nat (e - E)" E] by simp
next
  case False
  then have "e \<le> E" by simp
  from dyadic_eq [OF assms(1) [symmetric] this] have m: "m = M * 2 ^ nat (E - e)" .
  have "nat \<bar>m\<bar> = nat \<bar>M\<bar> * 2 ^ nat (E - e)"
    unfolding m by (simp add: abs_mult nat_mult_distrib nat_power_eq)
  then have "bit_length (nat \<bar>M\<bar>) \<le> bit_length (nat \<bar>m\<bar>)"
    by (simp only: bit_length_mono_shift)
  with assms(2) have "bit_length (nat \<bar>M\<bar>) \<le> 53" by simp
  then show ?thesis by (simp add: round_to_53_def b64_value_def)
qed

lemma aligned_sum:
  "of_int (mant x * 2 ^ nat (expo x - min (expo x) (expo y)) +
           mant y * 2 ^ nat (expo y - min (expo x) (expo y))) *
     2 powr (of_int (min (expo x) (expo y))) = b64_value x + b64_value y"
proof -
  have x: "(2::real) powr (of_int (expo x)) =
      2 ^ nat (expo x - min (expo x) (expo y)) * 2 powr (of_int (min (expo x) (expo y)))"
    by (rule powr_shift) simp
  have y: "(2::real) powr (of_int (expo y)) =
      2 ^ nat (expo y - min (expo x) (expo y)) * 2 powr (of_int (min (expo x) (expo y)))"
    by (rule powr_shift) simp
  show ?thesis
    unfolding b64_value_def by (subst x, subst y) (simp add: algebra_simps)
qed

lemma b64_add_exact:
  assumes "b64_value x + b64_value y = b64_value z" and "is_double z"
  shows "b64_value (b64_add x y) = b64_value z"
proof -
  let ?E = "min (expo x) (expo y)"
  let ?M = "mant x * 2 ^ nat (expo x - ?E) + mant y * 2 ^ nat (expo y - ?E)"
  have "of_int ?M * 2 powr (of_int ?E) = (of_int (mant z) :: real) * 2 powr (of_int (expo z))"
    using aligned_sum [of x y] assms(1) by (simp add: b64_value_def)
  from round_to_53_representable [OF this] assms(2)
  have "b64_value (round_to_53 ?M ?E) = of_int ?M * 2 powr (of_int ?E)"
    by (simp add: is_double_def)
  then show ?thesis
    using aligned_sum [of x y] assms(1) by (simp add: b64_add_def Let_def)
qed

lemma b64_value_neg: "b64_value (B64 (- mant y) (expo y)) = - b64_value y"
  by (simp add: b64_value_def)

lemma b64_sub_exact:
  assumes "b64_value x - b64_value y = b64_value z" and "is_double z"
  shows "b64_value (b64_sub x y) = b64_value z"
  unfolding b64_sub_def using assms by (intro b64_add_exact) (simp_all add: b64_value_neg)

lemma b64_value_zero: "b64_value x = 0 \<longleftrightarrow> mant x = 0"
  by (simp add: b64_value_def)

lemma b64_sub_cancel:
  assumes "b64_value x = b64_value y"
  shows "b64_value (b64_sub x y) = 0"
proof -
  have "b64_value x - b64_value y = b64_value (B64 0 0)"
    using assms by (simp add: b64_value_def)
  moreover have "is_double (B64 0 0)"
    by (simp add: is_double_def bit_length_0)
  ultimately have "b64_value (b64_sub x y) = b64_value (B64 0 0)"
    by (rule b64_sub_exact)
  then show ?thesis by (simp add: b64_value_def)
qed

lemma b64_add_zero:
  assumes "b64_value x = 0" and "is_double y"
  shows "b64_value (b64_add x y) = b64_value y"
  using assms by (intro b64_add_exact) simp_all

lemma energy_denominator_degenerate:
  assumes "is_double xd" and "b64_value Ealpha = b64_value ValenceEnergy"
  shows "b64_value (energy_denominator ValenceEnergy Ealpha xd) = b64_value xd"
  unfolding energy_denominator_def
  using assms by (intro b64_add_zero b64_sub_cancel) simp_all

lemma pair_energy_denominator_exact:
  assumes "is_double Eb" and "is_double xd"
    and "b64_value (b64_add Ea Eb) = b64_value Ea + b64_value Eb"
    and "b64_value Ealpha = b64_value Ea" and "b64_value Ebeta = b64_value Eb"
  shows "b64_value (pair_energy_denominator Ea Eb Ealpha Ebeta xd) = b64_value xd"
proof -
  have "b64_value (b64_add Ea Eb) - b64_value Ealpha = b64_value Eb"
    using assms(3,4) by simp
  then have "b64_value (b64_sub (b64_add Ea Eb) Ealpha) = b64_value Eb"
    using assms(1) by (rule b64_sub_exact)
  then have "b64_value (b64_sub (b64_add Ea Eb) Ealpha) = b64_value Ebeta"
    using assms(5) by simp
  then have "b64_value (b64_sub (b64_sub (b64_add Ea Eb) Ealpha) Ebeta) = 0"
    by (rule b64_sub_cancel)
  then show ?thesis
    unfolding pair_energy_denominator_def Let_def using assms(2) by (rule b64_add_zero)
qed

lemma one_electron_step_degenerate:
  "delta C \<noteq> 0 \<Longrightarrow> InQSpace C salpha \<Longrightarrow> kappa_info sa = kappa_info salpha \<Longrightarrow>
   one_electron_step C sa sb E (salpha, E) en =
     dadd en (Finite (GetMatrixElement C sa salpha * GetMatrixElement C salpha sb / delta C))"
  by (simp add: one_electron_step_def)

lemma one_valence_step_degenerate:
  "delta V \<noteq> 0 \<Longrightarrow> PQN s4 \<ge> 5 \<Longrightarrow> Kappa s4 = Kappa si \<Longrightarrow> Energy s4 = E \<Longrightarrow>
   one_valence_step V si sf E s4 en =
     dadd en (Finite (HamiltonianMatrixElement V s4 si * HamiltonianMatrixElement V s4 sf / delta V))"
  by (simp add: one_valence_step_def)

lemma two_electron_sub_step_degenerate:
  assumes "delta C \<noteq> 0" and "InQSpace C salpha"
    and "ValenceEnergies C (kappa_info salpha) = Some Ealpha"
    and "ValenceEnergies C (kappa_info sa) = Some Ea"
    and "ValenceEnergies C (kappa_info sb) = Some Eb"
    and "ValenceEnergies C (kappa_info sc) = Some Ec"
    and "ValenceEnergies C (kappa_info sd) = Some Ed"
  shows "two_electron_sub_step C k sa sb sc sd Ea Eb Ec Ed (salpha, Ealpha) en =
     (let e1 = (if kappa_info sa = kappa_info salpha
                then dadd en (Finite (GetTwoElectronIntegral C (int k) salpha sb sc sd *
                                      GetMatrixElement C sa salpha / delta C))
                else en);
          e2 = (if kappa_info sc = kappa_info salpha
                then dadd e1 (Finite (GetTwoElectronIntegral C (int k) sa sb salpha sd *
                                      GetMatrixElement C salpha sc / delta C))
                else e1);
          e3 = (if kappa_info sb = kappa_info salpha
                then dadd e2 (Finite (GetTwoElectronIntegral C (int k) sa salpha sc sd *
                                      GetMatrixElement C sb salpha / delta C))
                else e2)
      in if kappa_info sd = kappa_info salpha
         then dadd e3 (Finite (GetTwoElectronIntegral C (int k) sa sb sc salpha *
                               GetMatrixElement C salpha sd / delta C))
         else e3)"
proof -
  have a: "kappa_info sa = kappa_info salpha \<Longrightarrow> Ea - Ealpha + delta C = delta C"
    using assms(3,4) by simp
  have b: "kappa_info sb = kappa_info salpha \<Longrightarrow> Eb - Ealpha + delta C = delta C"
    using assms(3,5) by simp
  have c: "kappa_info sc = kappa_info salpha \<Longrightarrow> Ec - Ealpha + delta C = delta C"
    using assms(3,6) by simp
  have d: "kappa_info sd = kappa_info salpha \<Longrightarrow> Ed - Ealpha + delta C = delta C"
    using assms(3,7) by simp
  show ?thesis
    using assms(1,2) a b c d
    by (simp add: two_electron_sub_step_def Let_def)
qed

lemma hole_ac_step_degenerate:
  assumes "delta V \<noteq> 0" and "PQN s3 \<ge> 5"
    and "ValenceEnergies V (Kappa s3) = Some (Energy s3)"
  shows "hole_ac_step V pt SMS_bd oa oc s3 (Some e) =
     Some (let e1 = (if Kappa s3 = Kappa oa
                     then dadd e (Finite ((contract pt (dR V) s3 oc
                                           - SMS_bd * IsotopeShiftIntegral V s3 oc) *
                                          HamiltonianMatrixElement V oa s3 / delta V))
                     else e)
           in if Kappa s3 = Kappa oc
              then dadd e1 (Finite ((contract pt (dR V) oa s3
                                     + SMS_bd * IsotopeShiftIntegral V s3 oa) *
                                    HamiltonianMatrixElement V oc s3 / delta V))
              else e1)"
proof -
  have a: "Kappa s3 = Kappa oa \<Longrightarrow> ValenceEnergies V (Kappa oa) = Some (Energy s3)"
    using assms(3) by simp
  have c: "Kappa s3 = Kappa oc \<Longrightarrow> ValenceEnergies V (Kappa oc) = Some (Energy s3)"
    using assms(3) by simp
  show ?thesis
    unfolding hole_ac_step_def Let_def sms_guard sms_guard_plus
    using assms(1,2) a c
    by (cases "Kappa s3 = Kappa oa"; cases "Kappa s3 = Kappa oc") simp_all
qed

lemma hole_bd_step_degenerate:
  assumes "delta V \<noteq> 0" and "PQN s3 \<ge> 5"
    and "ValenceEnergies V (Kappa s3) = Some (Energy s3)"
  shows "hole_bd_step V pt SMS_ac ob od s3 (Some e) =
     Some (let e1 = (if Kappa s3 = Kappa ob
                     then dadd e (Finite ((contract pt (dR V) s3 od
                                           - SMS_ac * IsotopeShiftIntegral V s3 od) *
                                          HamiltonianMatrixElement V ob s3 / delta V))
                     else e)
           in if Kappa s3 = Kappa od
              then dadd e1 (Finite ((contract pt (dR V) ob s3
                                     + SMS_ac * IsotopeShiftIntegral V s3 ob) *
                                    HamiltonianMatrixElement V od s3 / delta V))
              else e1)"
proof -
  have a: "Kappa s3 = Kappa ob \<Longrightarrow> ValenceEnergies V (Kappa ob) = Some (Energy s3)"
    using assms(3) by simp
  have c: "Kappa s3 = Kappa od \<Longrightarrow> ValenceEnergies V (Kappa od) = Some (Energy s3)"
    using assms(3) by simp
  show ?thesis
    unfolding hole_bd_step_def Let_def sms_guard sms_guard_plus
    using assms(1,2) a c
    by (cases "Kappa s3 = Kappa ob"; cases "Kappa s3 = Kappa od") simp_all
qed

lemma coeff_alphabeta_general:
  assumes "coeff_ac * coeff_bd \<noteq> 0"
  shows "coeff_alphabeta_of C k sa sb sc sd coeff_ac coeff_bd E (salpha, Ealpha) (sbeta, Ebeta) =
     ddiv (Finite (if odd ((TwoJ_info sa + TwoJ_info sb + TwoJ_info sc + TwoJ_info sd +
                            TwoJ_info salpha + TwoJ_info sbeta) div 2 + int k + 1)
                   then - (real ((nat (MaxNumElectrons salpha * MaxNumElectrons sbeta) * (2 * k + 1))
                                 mod 2 ^ 32)
                           / (coeff_ac * coeff_bd))
                   else real ((nat (MaxNumElectrons salpha * MaxNumElectrons sbeta) * (2 * k + 1))
                              mod 2 ^ 32)
                        / (coeff_ac * coeff_bd)))
       (E - Ealpha - Ebeta + delta C)"
proof (cases "E - Ealpha - Ebeta + delta C = 0")
  case True
  with assms show ?thesis by (simp add: coeff_alphabeta_of_def Let_def)
next
  case False
  with coeff_alphabeta_finite [OF assms False] show ?thesis by simp
qed

lemma coeff_34_general:
  assumes "coeff_ac * coeff_bd \<noteq> 0"
  shows "coeff_34_of V k oa ob oc od coeff_ac coeff_bd E s3 s4 c0 =
     ddiv (Finite (if odd ((TwoJ_orb oa + TwoJ_orb ob + TwoJ_orb oc + TwoJ_orb od +
                            TwoJ_orb s3 + TwoJ_orb s4) div 2 + k + 1)
                   then - (c0 / (coeff_ac * coeff_bd))
                   else c0 / (coeff_ac * coeff_bd)))
       (E - Energy s3 - Energy s4 + delta V)"
proof (cases "E - Energy s3 - Energy s4 + delta V = 0")
  case True
  with assms show ?thesis by (simp add: coeff_34_of_def Let_def)
next
  case False
  with coeff_34_finite [OF assms False] show ?thesis by simp
qed

lemma hole_ac_step_general:
  assumes a: "ValenceEnergies V (Kappa oa) = Some Ea" and c: "ValenceEnergies V (Kappa oc) = Some Ec"
  shows "hole_ac_step V pt SMS oa oc s3 (Some e) =
     Some (dadd e (dadd
       (if PQN s3 \<ge> 5 \<and> Kappa s3 = Kappa oa
        then ddiv (Finite ((contract pt (dR V) s3 oc - SMS * IsotopeShiftIntegral V s3 oc) *
                           HamiltonianMatrixElement V oa s3))
               (Ea - Energy s3 + delta V)
        else Finite 0)
       (if PQN s3 \<ge> 5 \<and> Kappa s3 = Kappa oc
        then ddiv (Finite ((contract pt (dR V) oa s3 + SMS * IsotopeShiftIntegral V s3 oa) *
                           HamiltonianMatrixElement V oc s3))
               (Ec - Energy s3 + delta V)
        else Finite 0)))"
proof -
  define gA where "gA \<longleftrightarrow> PQN s3 \<ge> 5 \<and> Kappa s3 = Kappa oa"
  define gC where "gC \<longleftrightarrow> PQN s3 \<ge> 5 \<and> Kappa s3 = Kappa oc"
  show ?thesis
    unfolding hole_ac_step_def Let_def sms_guard sms_guard_plus a c
      gA_def [symmetric] gC_def [symmetric]
    by (cases gA; cases gC; simp add: dadd_assoc dadd_zero)
qed

lemma hole_bd_step_general:
  assumes b: "ValenceEnergies V (Kappa ob) = Some Eb" and d: "ValenceEnergies V (Kappa od) = Some Ed"
  shows "hole_bd_step V pt SMS ob od s3 (Some e) =
     Some (dadd e (dadd
       (if PQN s3 \<ge> 5 \<and> Kappa s3 = Kappa ob
        then ddiv (Finite ((contract pt (dR V) s3 od - SMS * IsotopeShiftIntegral V s3 od) *
                           HamiltonianMatrixElement V ob s3))
               (Eb - Energy s3 + delta V)
        else Finite 0)
       (if PQN s3 \<ge> 5 \<and> Kappa s3 = Kappa od
        then ddiv (Finite ((contract pt (dR V) ob s3 + SMS * IsotopeShiftIntegral V s3 ob) *
                           HamiltonianMatrixElement V od s3))
               (Ed - Energy s3 + delta V)
        else Finite 0)))"
proof -
  define gB where "gB \<longleftrightarrow> PQN s3 \<ge> 5 \<and> Kappa s3 = Kappa ob"
  define gD where "gD \<longleftrightarrow> PQN s3 \<ge> 5 \<and> Kappa s3 = Kappa od"
  show ?thesis
    unfolding hole_bd_step_def Let_def sms_guard sms_guard_plus b d
      gB_def [symmetric] gD_def [symmetric]
    by (cases gB; cases gD; simp add: dadd_assoc dadd_zero)
qed

text \<open>
  Claim C6, as amended. Every energy denominator has the form of the claim: the divisor of a
  one-body term is \<open>ValenceEnergy - E(alpha) + delta\<close>; that of the weight of an
  intermediate pair is \<open>ValenceEnergy - E(alpha) - E(beta) + delta\<close>, with the sum of the
  valence energies of the first two external orbitals; those of the subtraction terms are
  \<open>E(x) - E(alpha) + delta\<close> for the external orbital \<open>x\<close> of the same kappa; each is
  stated on real numbers, for all energies. With \<open>delta\<close> not zero and the intermediate
  energy equal to the valence energy, a term with one intermediate energy is the same
  expression with divisor \<open>delta\<close>, a finite value, and its divisor is \<open>delta\<close> also as
  binary64 computes it: no division by zero. For an intermediate pair whose two energies are
  the two valence energies, the divisor that binary64 computes is \<open>delta\<close> when the sum of
  the two valence energies is exact; when that sum is rounded the divisor can differ from
  \<open>delta\<close> and can be zero. Both calculators.
\<close>

theorem degenerate_denominator:
  "(InQSpace C salpha \<and> kappa_info sa = kappa_info salpha \<longrightarrow>
      one_electron_step C sa sb E (salpha, Ealpha) en =
        dadd en (ddiv (Finite (GetMatrixElement C sa salpha * GetMatrixElement C salpha sb))
                   (E - Ealpha + delta C)))
   \<and> (delta C \<noteq> 0 \<and> InQSpace C salpha \<and> kappa_info sa = kappa_info salpha \<longrightarrow>
      one_electron_step C sa sb E (salpha, E) en =
        dadd en (Finite (GetMatrixElement C sa salpha * GetMatrixElement C salpha sb / delta C)))
   \<and> (PQN s4 \<ge> 5 \<and> Kappa s4 = Kappa oa \<longrightarrow>
      one_valence_step V oa ob E s4 en =
        dadd en (ddiv (Finite (HamiltonianMatrixElement V s4 oa * HamiltonianMatrixElement V s4 ob))
                   (E - Energy s4 + delta V)))
   \<and> (delta V \<noteq> 0 \<and> PQN s4 \<ge> 5 \<and> Kappa s4 = Kappa oa \<and> Energy s4 = E \<longrightarrow>
      one_valence_step V oa ob E s4 en =
        dadd en (Finite (HamiltonianMatrixElement V s4 oa * HamiltonianMatrixElement V s4 ob /
                         delta V)))
   \<and> (coeff_ac * coeff_bd \<noteq> 0 \<longrightarrow>
      coeff_alphabeta_of C k sa sb sc sd coeff_ac coeff_bd E (salpha, Ealpha) (sbeta, Ebeta) =
        ddiv (Finite (if odd ((TwoJ_info sa + TwoJ_info sb + TwoJ_info sc + TwoJ_info sd +
                       TwoJ_info salpha + TwoJ_info sbeta) div 2 + int k + 1)
                      then - (real ((nat (MaxNumElectrons salpha * MaxNumElectrons sbeta) * (2 * k + 1)) mod 2 ^ 32)
                              / (coeff_ac * coeff_bd))
                      else real ((nat (MaxNumElectrons salpha * MaxNumElectrons sbeta) * (2 * k + 1)) mod 2 ^ 32)
                           / (coeff_ac * coeff_bd)))
          (E - Ealpha - Ebeta + delta C))
   \<and> (coeff_ac * coeff_bd \<noteq> 0 \<longrightarrow>
      coeff_34_of V k oa ob oc od coeff_ac coeff_bd E s3 s4 c0 =
        ddiv (Finite (if odd ((TwoJ_orb oa + TwoJ_orb ob + TwoJ_orb oc + TwoJ_orb od +
                       TwoJ_orb s3 + TwoJ_orb s4) div 2 + k + 1)
                      then - (c0 / (coeff_ac * coeff_bd))
                      else c0 / (coeff_ac * coeff_bd)))
          (E - Energy s3 - Energy s4 + delta V))
   \<and> (Electron3j (constants C) (TwoJ_info sa) (TwoJ_info sc) (int k) \<noteq> 0 \<and>
       Electron3j (constants C) (TwoJ_info sb) (TwoJ_info sd) (int k) \<noteq> 0 \<and>
       ValenceEnergies C (kappa_info sa) = Some Ea \<and> ValenceEnergies C (kappa_info sb) = Some Eb \<longrightarrow>
      CalculateTwoElectronValence C k sa sb sc sd =
        Some (fold (\<lambda>it_alpha.
                fold (pair_step C k sa sb sc sd
                        (Electron3j (constants C) (TwoJ_info sa) (TwoJ_info sc) (int k))
                        (Electron3j (constants C) (TwoJ_info sb) (TwoJ_info sd) (int k))
                        (Ea + Eb) it_alpha)
                  (excited C))
              (excited C) \<lparr>energy = Finite 0, trace = []\<rparr>))
   \<and> (InQSpace2 C salpha sbeta \<and>
       (L_info sa + L_info salpha) smod 2 = (L_info sb + L_info sbeta) smod 2 \<and>
       (L_info salpha + L_info sc) smod 2 = (L_info sbeta + L_info sd) smod 2 \<longrightarrow>
      pair_step C k sa sb sc sd coeff_ac coeff_bd E (salpha, Ealpha) (sbeta, Ebeta) st =
        fold (k1_step C k sa sb sc sd salpha sbeta
                (coeff_alphabeta_of C k sa sb sc sd coeff_ac coeff_bd E
                   (salpha, Ealpha) (sbeta, Ebeta)))
          (map (\<lambda>i. kmin sa salpha + 2 * int i)
             [0..<nat ((kmax sa salpha - kmin sa salpha + 2) div 2)])
          (st\<lparr>trace := trace st @ [PairVisited salpha sbeta]\<rparr>))
   \<and> (Electron3j_m (constants V) (TwoJ_orb oa) (TwoJ_orb oc) k 1 (- 1) \<noteq> 0 \<and>
       Electron3j_m (constants V) (TwoJ_orb ob) (TwoJ_orb od) k 1 (- 1) \<noteq> 0 \<and>
       ValenceEnergies V (Kappa oa) = Some Ea \<and> ValenceEnergies V (Kappa ob) = Some Eb \<longrightarrow>
      CalculateTwoElectronValence1 V m oa ob oc od k =
        Some (fold (\<lambda>s3.
                fold (pair_step_v V k oa ob oc od
                        (Electron3j_m (constants V) (TwoJ_orb oa) (TwoJ_orb oc) k 1 (- 1))
                        (Electron3j_m (constants V) (TwoJ_orb ob) (TwoJ_orb od) k 1 (- 1))
                        (Ea + Eb) s3)
                  (excited_states V))
              (excited_states V)
              \<lparr>energy = Finite 0, trace = [],
                 density = replicate m 0, pot = replicate m 0\<rparr>))
   \<and> ((PQN s3 \<ge> 5 \<or> PQN s4 \<ge> 5) \<and> coeff_34_init k oa ob oc od s3 s4 \<noteq> 0 \<longrightarrow>
      pair_step_v V k oa ob oc od coeff_ac coeff_bd E s3 s4 ws =
        fold (k1_step_v V k oa ob oc od s3 s4
                (coeff_34_of V k oa ob oc od coeff_ac coeff_bd E s3 s4
                   (coeff_34_init k oa ob oc od s3 s4)))
          (filter (\<lambda>i. i mod 2 = (L_orb oa + L_orb s3) mod 2) [0..<Suc MAX_K])
          (ws\<lparr>trace := trace ws @ [PairVisited s3 s4]\<rparr>))
   \<and> (InQSpace C salpha \<longrightarrow>
      two_electron_sub_step C k sa sb sc sd Ea Eb Ec Ed (salpha, Ealpha) en =
        (let e1 = (if kappa_info sa = kappa_info salpha
                   then dadd en (ddiv (Finite (GetTwoElectronIntegral C (int k) salpha sb sc sd *
                                               GetMatrixElement C sa salpha))
                                   (Ea - Ealpha + delta C))
                   else en);
             e2 = (if kappa_info sc = kappa_info salpha
                   then dadd e1 (ddiv (Finite (GetTwoElectronIntegral C (int k) sa sb salpha sd *
                                               GetMatrixElement C salpha sc))
                                   (Ec - Ealpha + delta C))
                   else e1);
             e3 = (if kappa_info sb = kappa_info salpha
                   then dadd e2 (ddiv (Finite (GetTwoElectronIntegral C (int k) sa salpha sc sd *
                                               GetMatrixElement C sb salpha))
                                   (Eb - Ealpha + delta C))
                   else e2)
         in if kappa_info sd = kappa_info salpha
            then dadd e3 (ddiv (Finite (GetTwoElectronIntegral C (int k) sa sb sc salpha *
                                        GetMatrixElement C salpha sd))
                            (Ed - Ealpha + delta C))
            else e3))
   \<and> (ValenceEnergies C (kappa_info sa) = Some Ea \<and>
       ValenceEnergies C (kappa_info sb) = Some Eb \<and>
       ValenceEnergies C (kappa_info sc) = Some Ec \<and>
       ValenceEnergies C (kappa_info sd) = Some Ed \<longrightarrow>
      CalculateTwoElectronSub C k sa sb sc sd =
        Some (fold (two_electron_sub_step C k sa sb sc sd Ea Eb Ec Ed) (high C) (Finite 0)))
   \<and> (delta C \<noteq> 0 \<and> InQSpace C salpha \<and>
       ValenceEnergies C (kappa_info salpha) = Some Ealpha \<and>
       ValenceEnergies C (kappa_info sa) = Some Ea \<and>
       ValenceEnergies C (kappa_info sb) = Some Eb \<and>
       ValenceEnergies C (kappa_info sc) = Some Ec \<and>
       ValenceEnergies C (kappa_info sd) = Some Ed \<longrightarrow>
      two_electron_sub_step C k sa sb sc sd Ea Eb Ec Ed (salpha, Ealpha) en =
        (let e1 = (if kappa_info sa = kappa_info salpha
                   then dadd en (Finite (GetTwoElectronIntegral C (int k) salpha sb sc sd *
                                         GetMatrixElement C sa salpha / delta C))
                   else en);
             e2 = (if kappa_info sc = kappa_info salpha
                   then dadd e1 (Finite (GetTwoElectronIntegral C (int k) sa sb salpha sd *
                                         GetMatrixElement C salpha sc / delta C))
                   else e1);
             e3 = (if kappa_info sb = kappa_info salpha
                   then dadd e2 (Finite (GetTwoElectronIntegral C (int k) sa salpha sc sd *
                                         GetMatrixElement C sb salpha / delta C))
                   else e2)
         in if kappa_info sd = kappa_info salpha
            then dadd e3 (Finite (GetTwoElectronIntegral C (int k) sa sb sc salpha *
                                  GetMatrixElement C salpha sd / delta C))
            else e3))
   \<and> (ValenceEnergies V (Kappa oa) = Some Ea \<and> ValenceEnergies V (Kappa oc) = Some Ec \<longrightarrow>
      hole_ac_step V pt SMS oa oc s3 (Some e) =
        Some (dadd e (dadd
          (if PQN s3 \<ge> 5 \<and> Kappa s3 = Kappa oa
           then ddiv (Finite ((contract pt (dR V) s3 oc - SMS * IsotopeShiftIntegral V s3 oc) *
                              HamiltonianMatrixElement V oa s3))
                  (Ea - Energy s3 + delta V)
           else Finite 0)
          (if PQN s3 \<ge> 5 \<and> Kappa s3 = Kappa oc
           then ddiv (Finite ((contract pt (dR V) oa s3 + SMS * IsotopeShiftIntegral V s3 oa) *
                              HamiltonianMatrixElement V oc s3))
                  (Ec - Energy s3 + delta V)
           else Finite 0))))
   \<and> (ValenceEnergies V (Kappa ob) = Some Eb \<and> ValenceEnergies V (Kappa od) = Some Ed \<longrightarrow>
      hole_bd_step V pt SMS ob od s3 (Some e) =
        Some (dadd e (dadd
          (if PQN s3 \<ge> 5 \<and> Kappa s3 = Kappa ob
           then ddiv (Finite ((contract pt (dR V) s3 od - SMS * IsotopeShiftIntegral V s3 od) *
                              HamiltonianMatrixElement V ob s3))
                  (Eb - Energy s3 + delta V)
           else Finite 0)
          (if PQN s3 \<ge> 5 \<and> Kappa s3 = Kappa od
           then ddiv (Finite ((contract pt (dR V) ob s3 + SMS * IsotopeShiftIntegral V s3 ob) *
                              HamiltonianMatrixElement V od s3))
                  (Ed - Energy s3 + delta V)
           else Finite 0))))
   \<and> (delta V \<noteq> 0 \<and> PQN s3 \<ge> 5 \<and> ValenceEnergies V (Kappa s3) = Some (Energy s3) \<longrightarrow>
      hole_ac_step V pt SMS oa oc s3 (Some e) =
        Some (let e1 = (if Kappa s3 = Kappa oa
                        then dadd e (Finite ((contract pt (dR V) s3 oc
                                              - SMS * IsotopeShiftIntegral V s3 oc) *
                                             HamiltonianMatrixElement V oa s3 / delta V))
                        else e)
              in if Kappa s3 = Kappa oc
                 then dadd e1 (Finite ((contract pt (dR V) oa s3
                                        + SMS * IsotopeShiftIntegral V s3 oa) *
                                       HamiltonianMatrixElement V oc s3 / delta V))
                 else e1))
   \<and> (delta V \<noteq> 0 \<and> PQN s3 \<ge> 5 \<and> ValenceEnergies V (Kappa s3) = Some (Energy s3) \<longrightarrow>
      hole_bd_step V pt SMS ob od s3 (Some e) =
        Some (let e1 = (if Kappa s3 = Kappa ob
                        then dadd e (Finite ((contract pt (dR V) s3 od
                                              - SMS * IsotopeShiftIntegral V s3 od) *
                                             HamiltonianMatrixElement V ob s3 / delta V))
                        else e)
              in if Kappa s3 = Kappa od
                 then dadd e1 (Finite ((contract pt (dR V) ob s3
                                        + SMS * IsotopeShiftIntegral V s3 ob) *
                                       HamiltonianMatrixElement V od s3 / delta V))
                 else e1))
   \<and> (is_double xd \<and> b64_value xalpha = b64_value xE \<longrightarrow>
      b64_value (energy_denominator xE xalpha xd) = b64_value xd)
   \<and> (is_double xb \<and> is_double xd \<and>
       b64_value (b64_add xa xb) = b64_value xa + b64_value xb \<and>
       b64_value xalpha = b64_value xa \<and> b64_value xbeta = b64_value xb \<longrightarrow>
      b64_value (pair_energy_denominator xa xb xalpha xbeta xd) = b64_value xd)
   \<and> (ValenceEnergies C (kappa_info sa) = Some E \<longrightarrow>
      CalculateOneElectronSub C sa sb =
        Some (fold (one_electron_step C sa sb E) (high C) (Finite 0)))
   \<and> (ValenceEnergies V (Kappa oa) = Some E \<longrightarrow>
      CalculateOneElectronValence1 V oa ob =
        Some (fold (one_valence_step V oa ob E) (excited_states V) (Finite 0)))"
proof (intro conjI impI)
  show "one_electron_step C sa sb E (salpha, Ealpha) en =
        dadd en (ddiv (Finite (GetMatrixElement C sa salpha * GetMatrixElement C salpha sb))
                   (E - Ealpha + delta C))"
    if "InQSpace C salpha \<and> kappa_info sa = kappa_info salpha"
    using that by (simp add: one_electron_step_eq)
  show "one_electron_step C sa sb E (salpha, E) en =
        dadd en (Finite (GetMatrixElement C sa salpha * GetMatrixElement C salpha sb / delta C))"
    if "delta C \<noteq> 0 \<and> InQSpace C salpha \<and> kappa_info sa = kappa_info salpha"
    using that by (simp add: one_electron_step_degenerate)
  show "one_valence_step V oa ob E s4 en =
        dadd en (ddiv (Finite (HamiltonianMatrixElement V s4 oa * HamiltonianMatrixElement V s4 ob))
                   (E - Energy s4 + delta V))"
    if "PQN s4 \<ge> 5 \<and> Kappa s4 = Kappa oa"
    using that by (simp add: one_valence_step_eq)
  show "one_valence_step V oa ob E s4 en =
        dadd en (Finite (HamiltonianMatrixElement V s4 oa * HamiltonianMatrixElement V s4 ob /
                         delta V))"
    if "delta V \<noteq> 0 \<and> PQN s4 \<ge> 5 \<and> Kappa s4 = Kappa oa \<and> Energy s4 = E"
    using that by (simp add: one_valence_step_degenerate)
  show "coeff_alphabeta_of C k sa sb sc sd coeff_ac coeff_bd E (salpha, Ealpha) (sbeta, Ebeta) =
        ddiv (Finite (if odd ((TwoJ_info sa + TwoJ_info sb + TwoJ_info sc + TwoJ_info sd +
                       TwoJ_info salpha + TwoJ_info sbeta) div 2 + int k + 1)
                      then - (real ((nat (MaxNumElectrons salpha * MaxNumElectrons sbeta) * (2 * k + 1)) mod 2 ^ 32)
                              / (coeff_ac * coeff_bd))
                      else real ((nat (MaxNumElectrons salpha * MaxNumElectrons sbeta) * (2 * k + 1)) mod 2 ^ 32)
                           / (coeff_ac * coeff_bd)))
          (E - Ealpha - Ebeta + delta C)"
    if "coeff_ac * coeff_bd \<noteq> 0"
    using that by (rule coeff_alphabeta_general)
  show "coeff_34_of V k oa ob oc od coeff_ac coeff_bd E s3 s4 c0 =
        ddiv (Finite (if odd ((TwoJ_orb oa + TwoJ_orb ob + TwoJ_orb oc + TwoJ_orb od +
                       TwoJ_orb s3 + TwoJ_orb s4) div 2 + k + 1)
                      then - (c0 / (coeff_ac * coeff_bd))
                      else c0 / (coeff_ac * coeff_bd)))
          (E - Energy s3 - Energy s4 + delta V)"
    if "coeff_ac * coeff_bd \<noteq> 0"
    using that by (rule coeff_34_general)
  show "CalculateTwoElectronValence C k sa sb sc sd =
        Some (fold (\<lambda>it_alpha.
                fold (pair_step C k sa sb sc sd
                        (Electron3j (constants C) (TwoJ_info sa) (TwoJ_info sc) (int k))
                        (Electron3j (constants C) (TwoJ_info sb) (TwoJ_info sd) (int k))
                        (Ea + Eb) it_alpha)
                  (excited C))
              (excited C) \<lparr>energy = Finite 0, trace = []\<rparr>)"
    if "Electron3j (constants C) (TwoJ_info sa) (TwoJ_info sc) (int k) \<noteq> 0 \<and>
       Electron3j (constants C) (TwoJ_info sb) (TwoJ_info sd) (int k) \<noteq> 0 \<and>
       ValenceEnergies C (kappa_info sa) = Some Ea \<and> ValenceEnergies C (kappa_info sb) = Some Eb"
    using that by (simp add: CalculateTwoElectronValence_def Let_def)
  show "pair_step C k sa sb sc sd coeff_ac coeff_bd E (salpha, Ealpha) (sbeta, Ebeta) st =
        fold (k1_step C k sa sb sc sd salpha sbeta
                (coeff_alphabeta_of C k sa sb sc sd coeff_ac coeff_bd E
                   (salpha, Ealpha) (sbeta, Ebeta)))
          (map (\<lambda>i. kmin sa salpha + 2 * int i)
             [0..<nat ((kmax sa salpha - kmin sa salpha + 2) div 2)])
          (st\<lparr>trace := trace st @ [PairVisited salpha sbeta]\<rparr>)"
    if "InQSpace2 C salpha sbeta \<and>
       (L_info sa + L_info salpha) smod 2 = (L_info sb + L_info sbeta) smod 2 \<and>
       (L_info salpha + L_info sc) smod 2 = (L_info sbeta + L_info sd) smod 2"
    using that by (rule pair_step_loop)
  show "CalculateTwoElectronValence1 V m oa ob oc od k =
        Some (fold (\<lambda>s3.
                fold (pair_step_v V k oa ob oc od
                        (Electron3j_m (constants V) (TwoJ_orb oa) (TwoJ_orb oc) k 1 (- 1))
                        (Electron3j_m (constants V) (TwoJ_orb ob) (TwoJ_orb od) k 1 (- 1))
                        (Ea + Eb) s3)
                  (excited_states V))
              (excited_states V)
              \<lparr>energy = Finite 0, trace = [],
                 density = replicate m 0, pot = replicate m 0\<rparr>)"
    if "Electron3j_m (constants V) (TwoJ_orb oa) (TwoJ_orb oc) k 1 (- 1) \<noteq> 0 \<and>
       Electron3j_m (constants V) (TwoJ_orb ob) (TwoJ_orb od) k 1 (- 1) \<noteq> 0 \<and>
       ValenceEnergies V (Kappa oa) = Some Ea \<and> ValenceEnergies V (Kappa ob) = Some Eb"
    using that by (simp add: CalculateTwoElectronValence1_def Let_def)
  show "pair_step_v V k oa ob oc od coeff_ac coeff_bd E s3 s4 ws =
        fold (k1_step_v V k oa ob oc od s3 s4
                (coeff_34_of V k oa ob oc od coeff_ac coeff_bd E s3 s4
                   (coeff_34_init k oa ob oc od s3 s4)))
          (filter (\<lambda>i. i mod 2 = (L_orb oa + L_orb s3) mod 2) [0..<Suc MAX_K])
          (ws\<lparr>trace := trace ws @ [PairVisited s3 s4]\<rparr>)"
    if "(PQN s3 \<ge> 5 \<or> PQN s4 \<ge> 5) \<and> coeff_34_init k oa ob oc od s3 s4 \<noteq> 0"
    using that by (rule pair_step_v_loop)
  show "two_electron_sub_step C k sa sb sc sd Ea Eb Ec Ed (salpha, Ealpha) en =
        (let e1 = (if kappa_info sa = kappa_info salpha
                   then dadd en (ddiv (Finite (GetTwoElectronIntegral C (int k) salpha sb sc sd *
                                               GetMatrixElement C sa salpha))
                                   (Ea - Ealpha + delta C))
                   else en);
             e2 = (if kappa_info sc = kappa_info salpha
                   then dadd e1 (ddiv (Finite (GetTwoElectronIntegral C (int k) sa sb salpha sd *
                                               GetMatrixElement C salpha sc))
                                   (Ec - Ealpha + delta C))
                   else e1);
             e3 = (if kappa_info sb = kappa_info salpha
                   then dadd e2 (ddiv (Finite (GetTwoElectronIntegral C (int k) sa salpha sc sd *
                                               GetMatrixElement C sb salpha))
                                   (Eb - Ealpha + delta C))
                   else e2)
         in if kappa_info sd = kappa_info salpha
            then dadd e3 (ddiv (Finite (GetTwoElectronIntegral C (int k) sa sb sc salpha *
                                        GetMatrixElement C salpha sd))
                            (Ed - Ealpha + delta C))
            else e3)"
    if "InQSpace C salpha"
    using that by (simp add: two_electron_sub_step_def Let_def)
  show "CalculateTwoElectronSub C k sa sb sc sd =
        Some (fold (two_electron_sub_step C k sa sb sc sd Ea Eb Ec Ed) (high C) (Finite 0))"
    if "ValenceEnergies C (kappa_info sa) = Some Ea \<and>
       ValenceEnergies C (kappa_info sb) = Some Eb \<and>
       ValenceEnergies C (kappa_info sc) = Some Ec \<and>
       ValenceEnergies C (kappa_info sd) = Some Ed"
    using that by (simp add: CalculateTwoElectronSub_def)
  show "two_electron_sub_step C k sa sb sc sd Ea Eb Ec Ed (salpha, Ealpha) en =
        (let e1 = (if kappa_info sa = kappa_info salpha
                   then dadd en (Finite (GetTwoElectronIntegral C (int k) salpha sb sc sd *
                                         GetMatrixElement C sa salpha / delta C))
                   else en);
             e2 = (if kappa_info sc = kappa_info salpha
                   then dadd e1 (Finite (GetTwoElectronIntegral C (int k) sa sb salpha sd *
                                         GetMatrixElement C salpha sc / delta C))
                   else e1);
             e3 = (if kappa_info sb = kappa_info salpha
                   then dadd e2 (Finite (GetTwoElectronIntegral C (int k) sa salpha sc sd *
                                         GetMatrixElement C sb salpha / delta C))
                   else e2)
         in if kappa_info sd = kappa_info salpha
            then dadd e3 (Finite (GetTwoElectronIntegral C (int k) sa sb sc salpha *
                                  GetMatrixElement C salpha sd / delta C))
            else e3)"
    if "delta C \<noteq> 0 \<and> InQSpace C salpha \<and>
       ValenceEnergies C (kappa_info salpha) = Some Ealpha \<and>
       ValenceEnergies C (kappa_info sa) = Some Ea \<and>
       ValenceEnergies C (kappa_info sb) = Some Eb \<and>
       ValenceEnergies C (kappa_info sc) = Some Ec \<and>
       ValenceEnergies C (kappa_info sd) = Some Ed"
    using that by (intro two_electron_sub_step_degenerate) blast+
  show "hole_ac_step V pt SMS oa oc s3 (Some e) =
        Some (dadd e (dadd
          (if PQN s3 \<ge> 5 \<and> Kappa s3 = Kappa oa
           then ddiv (Finite ((contract pt (dR V) s3 oc - SMS * IsotopeShiftIntegral V s3 oc) *
                              HamiltonianMatrixElement V oa s3))
                  (Ea - Energy s3 + delta V)
           else Finite 0)
          (if PQN s3 \<ge> 5 \<and> Kappa s3 = Kappa oc
           then ddiv (Finite ((contract pt (dR V) oa s3 + SMS * IsotopeShiftIntegral V s3 oa) *
                              HamiltonianMatrixElement V oc s3))
                  (Ec - Energy s3 + delta V)
           else Finite 0)))"
    if "ValenceEnergies V (Kappa oa) = Some Ea \<and> ValenceEnergies V (Kappa oc) = Some Ec"
    using that by (intro hole_ac_step_general) blast+
  show "hole_bd_step V pt SMS ob od s3 (Some e) =
        Some (dadd e (dadd
          (if PQN s3 \<ge> 5 \<and> Kappa s3 = Kappa ob
           then ddiv (Finite ((contract pt (dR V) s3 od - SMS * IsotopeShiftIntegral V s3 od) *
                              HamiltonianMatrixElement V ob s3))
                  (Eb - Energy s3 + delta V)
           else Finite 0)
          (if PQN s3 \<ge> 5 \<and> Kappa s3 = Kappa od
           then ddiv (Finite ((contract pt (dR V) ob s3 + SMS * IsotopeShiftIntegral V s3 ob) *
                              HamiltonianMatrixElement V od s3))
                  (Ed - Energy s3 + delta V)
           else Finite 0)))"
    if "ValenceEnergies V (Kappa ob) = Some Eb \<and> ValenceEnergies V (Kappa od) = Some Ed"
    using that by (intro hole_bd_step_general) blast+
  show "hole_ac_step V pt SMS oa oc s3 (Some e) =
        Some (let e1 = (if Kappa s3 = Kappa oa
                        then dadd e (Finite ((contract pt (dR V) s3 oc
                                              - SMS * IsotopeShiftIntegral V s3 oc) *
                                             HamiltonianMatrixElement V oa s3 / delta V))
                        else e)
              in if Kappa s3 = Kappa oc
                 then dadd e1 (Finite ((contract pt (dR V) oa s3
                                        + SMS * IsotopeShiftIntegral V s3 oa) *
                                       HamiltonianMatrixElement V oc s3 / delta V))
                 else e1)"
    if "delta V \<noteq> 0 \<and> PQN s3 \<ge> 5 \<and> ValenceEnergies V (Kappa s3) = Some (Energy s3)"
    using that by (intro hole_ac_step_degenerate) blast+
  show "hole_bd_step V pt SMS ob od s3 (Some e) =
        Some (let e1 = (if Kappa s3 = Kappa ob
                        then dadd e (Finite ((contract pt (dR V) s3 od
                                              - SMS * IsotopeShiftIntegral V s3 od) *
                                             HamiltonianMatrixElement V ob s3 / delta V))
                        else e)
              in if Kappa s3 = Kappa od
                 then dadd e1 (Finite ((contract pt (dR V) ob s3
                                        + SMS * IsotopeShiftIntegral V s3 ob) *
                                       HamiltonianMatrixElement V od s3 / delta V))
                 else e1)"
    if "delta V \<noteq> 0 \<and> PQN s3 \<ge> 5 \<and> ValenceEnergies V (Kappa s3) = Some (Energy s3)"
    using that by (intro hole_bd_step_degenerate) blast+
  show "b64_value (energy_denominator xE xalpha xd) = b64_value xd"
    if "is_double xd \<and> b64_value xalpha = b64_value xE"
    using that by (intro energy_denominator_degenerate) blast+
  show "b64_value (pair_energy_denominator xa xb xalpha xbeta xd) = b64_value xd"
    if "is_double xb \<and> is_double xd \<and>
       b64_value (b64_add xa xb) = b64_value xa + b64_value xb \<and>
       b64_value xalpha = b64_value xa \<and> b64_value xbeta = b64_value xb"
    using that by (intro pair_energy_denominator_exact) blast+
  show "CalculateOneElectronSub C sa sb =
        Some (fold (one_electron_step C sa sb E) (high C) (Finite 0))"
    if "ValenceEnergies C (kappa_info sa) = Some E"
    using that by (simp add: CalculateOneElectronSub_def)
  show "CalculateOneElectronValence1 V oa ob =
        Some (fold (one_valence_step V oa ob E) (excited_states V) (Finite 0))"
    if "ValenceEnergies V (Kappa oa) = Some E"
    using that by (simp add: CalculateOneElectronValence1_def)
qed

text \<open>
  On the sample system the orbital 6s has the valence energy of its channel, -1/2, and
  \<open>delta\<close> is 1/100; an intermediate pair of two such orbitals against the valence energy
  -1/2 has the divisor 51/100. In binary64, with the energy -1/2 and \<open>delta = 2 ^ -7\<close>:
  the sum of two valence energies -1/2 is exact.
\<close>

theorem degenerate_denominator_witness:
  "one_electron_step sample_C info_4s info_4s (- 1 / 2) (info_6s, - 1 / 2) (Finite 0) = Finite 1
   \<and> one_valence_step sample_V orb_4s orb_4s (- 1 / 2) orb_6s (Finite 0) = Finite 1
   \<and> coeff_alphabeta_of sample_C 0 info_4s info_4s info_4s info_4s (1 / 2) (1 / 2) (- 1 / 2)
        (info_6s, - 1 / 2) (info_6s, - 1 / 2) = Finite (1600 / 51)
   \<and> coeff_34_of sample_V 0 orb_4s orb_4s orb_4s orb_4s (1 / 2) (1 / 2) (- 1 / 2) orb_6s orb_6s 4 =
        Finite (1600 / 51)
   \<and> two_electron_sub_step sample_C 0 info_4s info_4s info_4s info_4s
        (- 1 / 2) (- 1 / 2) (- 1 / 2) (- 1 / 2) (info_6s, - 1 / 2) (Finite 0) = Finite 10
   \<and> hole_ac_step sample_V [1, 1] 0 orb_4s orb_4s orb_6s (Some (Finite 0)) = Some (Finite 90)
   \<and> hole_bd_step sample_V [1, 1] 0 orb_4s orb_4s orb_6s (Some (Finite 0)) = Some (Finite 90)
   \<and> b64_value (energy_denominator (B64 (- 1) (- 1)) (B64 (- 1) (- 1)) (B64 1 (- 7))) =
        b64_value (B64 1 (- 7))
   \<and> b64_value (pair_energy_denominator (B64 (- 1) (- 1)) (B64 (- 1) (- 1)) (B64 (- 1) (- 1))
          (B64 (- 1) (- 1)) (B64 1 (- 7))) = b64_value (B64 1 (- 7))"
proof -
  note t = degenerate_denominator [where C = sample_C and V = sample_V
      and sa = info_4s and sb = info_4s and sc = info_4s and sd = info_4s
      and salpha = info_6s and sbeta = info_6s and E = "- 1 / 2" and Ealpha = "- 1 / 2"
      and Ebeta = "- 1 / 2" and en = "Finite 0"
      and oa = orb_4s and ob = orb_4s and oc = orb_4s and od = orb_4s
      and ?s3.0 = orb_6s and ?s4.0 = orb_6s and Ea = "- 1 / 2" and Eb = "- 1 / 2"
      and Ec = "- 1 / 2" and Ed = "- 1 / 2" and k = 0 and pt = "[1, 1]" and SMS = 0
      and e = "Finite 0" and coeff_ac = "1 / 2" and coeff_bd = "1 / 2" and ?c0.0 = 4
      and st = "\<lparr>energy = Finite 0, trace = []\<rparr>"
      and ws = "\<lparr>energy = Finite 0, trace = [], density = [0, 0], pot = [0, 0]\<rparr>" and m = 2
      and xE = "B64 (- 1) (- 1)" and xalpha = "B64 (- 1) (- 1)" and xd = "B64 1 (- 7)"
      and xa = "B64 (- 1) (- 1)" and xb = "B64 (- 1) (- 1)" and xbeta = "B64 (- 1) (- 1)"]
  have ex: "b64_value (b64_add (B64 (- 1) (- 1)) (B64 (- 1) (- 1))) =
      b64_value (B64 (- 1) (- 1)) + b64_value (B64 (- 1) (- 1))"
    by (simp add: b64_add_def round_to_53_def Let_def bit_length.simps b64_value_def)
  have w2: "one_electron_step sample_C info_4s info_4s (- 1 / 2) (info_6s, - 1 / 2) (Finite 0) = Finite 1"
    using t [THEN conjunct2, THEN conjunct1]
    by (simp add: sample_C_def sample_constants_def info_4s_def info_6s_def TwoJ_info_def MaxNumElectrons_def)
  have w4: "one_valence_step sample_V orb_4s orb_4s (- 1 / 2) orb_6s (Finite 0) = Finite 1"
    using t [THEN conjunct2, THEN conjunct2, THEN conjunct2, THEN conjunct1]
    by (simp add: sample_V_def sample_constants_def orb_4s_def orb_6s_def contract_def size_sf_def Let_def)
  have w5: "coeff_alphabeta_of sample_C 0 info_4s info_4s info_4s info_4s (1 / 2) (1 / 2) (- 1 / 2)
        (info_6s, - 1 / 2) (info_6s, - 1 / 2) = Finite (1600 / 51)"
    using t [THEN conjunct2, THEN conjunct2, THEN conjunct2, THEN conjunct2, THEN conjunct1]
    by (simp add: sample_C_def sample_constants_def info_4s_def info_6s_def TwoJ_info_def MaxNumElectrons_def)
  have w6: "coeff_34_of sample_V 0 orb_4s orb_4s orb_4s orb_4s (1 / 2) (1 / 2) (- 1 / 2) orb_6s orb_6s 4 =
        Finite (1600 / 51)"
    using t [THEN conjunct2, THEN conjunct2, THEN conjunct2, THEN conjunct2, THEN conjunct2, THEN conjunct1]
    by (simp add: sample_V_def sample_constants_def orb_4s_def orb_6s_def contract_def size_sf_def Let_def TwoJ_orb_def)
  have w13: "two_electron_sub_step sample_C 0 info_4s info_4s info_4s info_4s
        (- 1 / 2) (- 1 / 2) (- 1 / 2) (- 1 / 2) (info_6s, - 1 / 2) (Finite 0) = Finite 10"
    using t [THEN conjunct2, THEN conjunct2, THEN conjunct2, THEN conjunct2, THEN conjunct2, THEN conjunct2, THEN conjunct2, THEN conjunct2, THEN conjunct2, THEN conjunct2, THEN conjunct2, THEN conjunct2, THEN conjunct1]
    by (simp add: sample_C_def sample_constants_def info_4s_def info_6s_def TwoJ_info_def MaxNumElectrons_def Let_def)
  have w16: "hole_ac_step sample_V [1, 1] 0 orb_4s orb_4s orb_6s (Some (Finite 0)) = Some (Finite 90)"
    using t [THEN conjunct2, THEN conjunct2, THEN conjunct2, THEN conjunct2, THEN conjunct2, THEN conjunct2, THEN conjunct2, THEN conjunct2, THEN conjunct2, THEN conjunct2, THEN conjunct2, THEN conjunct2, THEN conjunct2, THEN conjunct2, THEN conjunct2, THEN conjunct1]
    by (simp add: sample_V_def sample_constants_def orb_4s_def orb_6s_def contract_def size_sf_def Let_def)
  have w17: "hole_bd_step sample_V [1, 1] 0 orb_4s orb_4s orb_6s (Some (Finite 0)) = Some (Finite 90)"
    using t [THEN conjunct2, THEN conjunct2, THEN conjunct2, THEN conjunct2, THEN conjunct2, THEN conjunct2, THEN conjunct2, THEN conjunct2, THEN conjunct2, THEN conjunct2, THEN conjunct2, THEN conjunct2, THEN conjunct2, THEN conjunct2, THEN conjunct2, THEN conjunct2, THEN conjunct1]
    by (simp add: sample_V_def sample_constants_def orb_4s_def orb_6s_def contract_def size_sf_def Let_def)
  have w18: "b64_value (energy_denominator (B64 (- 1) (- 1)) (B64 (- 1) (- 1)) (B64 1 (- 7))) =
        b64_value (B64 1 (- 7))"
    using t [THEN conjunct2, THEN conjunct2, THEN conjunct2, THEN conjunct2, THEN conjunct2, THEN conjunct2, THEN conjunct2, THEN conjunct2, THEN conjunct2, THEN conjunct2, THEN conjunct2, THEN conjunct2, THEN conjunct2, THEN conjunct2, THEN conjunct2, THEN conjunct2, THEN conjunct2, THEN conjunct1]
    by (simp add: is_double_def bit_length.simps)
  have w19: "b64_value (pair_energy_denominator (B64 (- 1) (- 1)) (B64 (- 1) (- 1)) (B64 (- 1) (- 1))
          (B64 (- 1) (- 1)) (B64 1 (- 7))) = b64_value (B64 1 (- 7))"
    using t [THEN conjunct2, THEN conjunct2, THEN conjunct2, THEN conjunct2, THEN conjunct2, THEN conjunct2, THEN conjunct2, THEN conjunct2, THEN conjunct2, THEN conjunct2, THEN conjunct2, THEN conjunct2, THEN conjunct2, THEN conjunct2, THEN conjunct2, THEN conjunct2, THEN conjunct2, THEN conjunct2, THEN conjunct1]
    using ex by (simp add: is_double_def bit_length.simps)
  from w2 w4 w5 w6 w13 w16 w17 w18 w19 show ?thesis by blast
qed

text \<open>
  The claim as stated also covers the denominators of the intermediate pairs. Take the valence
  energies \<open>-1\<close> and \<open>-3 * 2 ^ -54\<close>, an intermediate pair with the same two energies, and
  \<open>delta = 2 ^ -54\<close>. The sum of the valence energies rounds to \<open>-1 - 2 ^ -52\<close>; taking
  off \<open>-1\<close> leaves \<open>- 2 ^ -52\<close>, taking off \<open>-3 * 2 ^ -54\<close> leaves \<open>- 2 ^ -54\<close>, and
  adding \<open>delta\<close> gives zero: the weight of the pair is divided by zero although \<open>delta\<close>
  is not zero.
\<close>

theorem pair_denominator_rounds_to_zero:
  "pair_energy_denominator (B64 (- 1) 0) (B64 (- 3) (- 54)) (B64 (- 1) 0) (B64 (- 3) (- 54))
     (B64 1 (- 54)) = B64 0 (- 54)
   \<and> b64_value (B64 0 (- 54)) = 0
   \<and> b64_value (B64 1 (- 54)) \<noteq> 0
   \<and> is_double (B64 (- 1) 0) \<and> is_double (B64 (- 3) (- 54)) \<and> is_double (B64 1 (- 54))
   \<and> ddiv (Finite 1)
        (b64_value (pair_energy_denominator (B64 (- 1) 0) (B64 (- 3) (- 54)) (B64 (- 1) 0)
                      (B64 (- 3) (- 54)) (B64 1 (- 54)))) = NonFinite"
proof -
  have s1: "b64_add (B64 (- 1) 0) (B64 (- 3) (- 54)) = B64 (- 4503599627370497) (- 52)"
    by (simp add: b64_add_def round_to_53_def Let_def bit_length.simps)
  have s2: "b64_sub (B64 (- 4503599627370497) (- 52)) (B64 (- 1) 0) = B64 (- 1) (- 52)"
    by (simp add: b64_add_def b64_sub_def round_to_53_def Let_def bit_length.simps)
  have s3: "b64_sub (B64 (- 1) (- 52)) (B64 (- 3) (- 54)) = B64 (- 1) (- 54)"
    by (simp add: b64_add_def b64_sub_def round_to_53_def Let_def bit_length.simps)
  have s4: "b64_add (B64 (- 1) (- 54)) (B64 1 (- 54)) = B64 0 (- 54)"
    by (simp add: b64_add_def round_to_53_def Let_def bit_length.simps)
  have "pair_energy_denominator (B64 (- 1) 0) (B64 (- 3) (- 54)) (B64 (- 1) 0)
      (B64 (- 3) (- 54)) (B64 1 (- 54)) = B64 0 (- 54)"
    unfolding pair_energy_denominator_def Let_def s1 s2 s3 s4 by (rule refl)
  then show ?thesis
    by (simp add: b64_value_def is_double_def bit_length.simps)
qed

end
